theory Spec2Isabelle
  imports Complex_Main "HOL-Library.Word" "HOL-Library.Signed_Division"
    "HOL-Library.Multiset" "HOL-Library.Monad_Syntax"
begin

unbundle bit_operations_syntax

section \<open>Machine types and arrays\<close>

text \<open>
  The header is compiled for an LP64 target: \<open>int\<close> is a 32-bit word, \<open>long\<close> and
  \<open>long long\<close> are 64-bit words. Arithmetic on words wraps, which is what the generator
  \<open>LCG_STEP\<close> relies on. The floating-point type \<open>T\<close> is modelled by \<open>real\<close>:
  rounding, infinities and NaN are outside the model.
\<close>

type_synonym c_int = "32 word"
type_synonym c_long = "64 word"

text \<open>
  A read of a fixed-size array. The source does not check indices; a read outside the
  array is the value \<open>None\<close> of the model.
\<close>

definition arr_read :: "'a list \<Rightarrow> int \<Rightarrow> 'a option" where
  "arr_read a i = (if 0 \<le> i \<and> i < int (length a) then Some (a ! nat i) else None)"

section \<open>NoiseBase: the permutation table\<close>

record NoiseBase =
  perm :: "c_int list"

text \<open>\<open>LCG_STEP\<close>: one step of the 64-bit linear congruential generator.\<close>

definition MULTIPLIER :: c_long where
  "MULTIPLIER = 6364136223846793005"

definition INCREMENT :: c_long where
  "INCREMENT = 1442695040888963407"

definition LCG_STEP :: "c_long \<Rightarrow> c_long" where
  "LCG_STEP x = (x * MULTIPLIER) + INCREMENT"

text \<open>
  The two statements \<open>int r = (int)((seed + 31) % (i + 1)); if (r < 0) r += (i + 1);\<close>.
  The operator \<open>%\<close> of C++ truncates towards zero (\<open>smod\<close>); the loop index \<open>i\<close> runs over
  \<open>255 .. 0\<close> and is kept as a mathematical integer.
\<close>

definition draw :: "c_long \<Rightarrow> int \<Rightarrow> int" where
  "draw seed i =
     (let r = sint (seed + 31) smod (i + 1)
      in if r < 0 then r + (i + 1) else r)"

text \<open>
  The shuffle loop \<open>for (int i = 255; i >= 0; --i)\<close> of \<open>NoiseBase (long long seed)\<close>,
  started at index \<open>i\<close> with the generator state, the working array \<open>source\<close> and the
  contents \<open>prm\<close> of the member array \<open>perm\<close>.
\<close>

function shuffle_loop :: "int \<Rightarrow> c_long \<Rightarrow> c_int list \<Rightarrow> c_int list \<Rightarrow> c_int list" where
  "shuffle_loop i seed source prm =
     (if i \<ge> 0 then
        let seed' = LCG_STEP seed;
            r = draw seed' i;
            prm' = prm[nat i := source ! nat r];
            source' = source[nat r := source ! nat i]
        in shuffle_loop (i - 1) seed' source' prm'
      else prm)"
  by pat_completeness auto
termination
  by (relation "measure (\<lambda>(i, seed, source, prm). nat (i + 1))") auto

declare shuffle_loop.simps [simp del]

text \<open>The first loop of the constructor: \<open>source[i] = i\<close> for \<open>i\<close> in \<open>0 .. 255\<close>.\<close>

definition source_init :: "c_int list" where
  "source_init = map of_nat [0..<256]"

text \<open>
  \<open>NoiseBase (long long seed)\<close>. The member array \<open>perm\<close> is not initialised before the
  loop; its previous contents are the parameter \<open>mem\<close>, an array of 256 entries.
\<close>

definition NoiseBase_seed :: "c_int list \<Rightarrow> c_long \<Rightarrow> NoiseBase" where
  "NoiseBase_seed mem seed =
     \<lparr>perm = shuffle_loop 255 (LCG_STEP (LCG_STEP (LCG_STEP seed))) source_init mem\<rparr>"

text \<open>
  \<open>NoiseBase (const int * p)\<close>: the loop \<open>for (int i = 0; i < 256; ++i) perm[i] = p[i]\<close>,
  started at index \<open>i\<close>. The caller's array is read with \<open>arr_read\<close>.
\<close>

function copy_loop :: "nat \<Rightarrow> c_int list \<Rightarrow> c_int list \<Rightarrow> c_int list option" where
  "copy_loop i p prm =
     (if i < 256 then
        (case arr_read p (int i) of
           None \<Rightarrow> None
         | Some v \<Rightarrow> copy_loop (i + 1) p (prm[i := v]))
      else Some prm)"
  by pat_completeness auto
termination
  by (relation "measure (\<lambda>(i, p, prm). 256 - i)") auto

declare copy_loop.simps [simp del]

definition NoiseBase_table :: "c_int list \<Rightarrow> c_int list \<Rightarrow> NoiseBase option" where
  "NoiseBase_table mem p = map_option (\<lambda>t. \<lparr>perm = t\<rparr>) (copy_loop 0 p mem)"

section \<open>The gradient extrapolation primitive\<close>

text \<open>
  The reads \<open>perm[k]\<close> and \<open>permGradIndex[k]\<close> of \<open>extrapolate\<close> have an index of type
  \<open>long\<close>, read as a signed number; the variable \<open>index\<close> is an \<open>unsigned int\<close>, so that a
  negative \<open>int\<close> stored in it is a number above \<open>2 ^ 31\<close>, and \<open>index + 1\<close> wraps at
  \<open>2 ^ 32\<close>.
\<close>

subsection \<open>2D\<close>

definition gradients2 :: "int list" where
  "gradients2 =
    [ 5, 2,   2, 5,  -5, 2,  -2, 5,
      5,-2,   2,-5,  -5,-2,  -2,-5]"

definition extrapolate2 :: "'a NoiseBase_scheme \<Rightarrow> c_long \<Rightarrow> c_long \<Rightarrow> real \<Rightarrow> real \<Rightarrow> real option" where
  "extrapolate2 nb xsb ysb dx dy = do {
     p0 \<leftarrow> arr_read (perm nb) (sint (xsb AND 0xFF));
     p1 \<leftarrow> arr_read (perm nb) (sint ((scast p0 + ysb) AND 0xFF));
     let index = (p1 AND 0x0E :: 32 word);
     g0 \<leftarrow> arr_read gradients2 (uint index);
     g1 \<leftarrow> arr_read gradients2 (uint (index + 1));
     Some (real_of_int g0 * dx +
           real_of_int g1 * dy)
   }"

subsection \<open>3D\<close>

text \<open>
  \<open>Noise<3, T>\<close> adds the member \<open>permGradIndex\<close> to \<open>NoiseBase\<close> and builds both tables in
  its own constructors.
\<close>

record Noise3 = NoiseBase +
  permGradIndex :: "c_int list"

definition gradients3 :: "int list" where
  "gradients3 =
    [-11, 4, 4,  -4, 11, 4,  -4, 4, 11,   11, 4, 4,   4, 11, 4,   4, 4, 11,
     -11,-4, 4,  -4,-11, 4,  -4,-4, 11,   11,-4, 4,   4,-11, 4,   4,-4, 11,
     -11, 4,-4,  -4, 11,-4,  -4, 4,-11,   11, 4,-4,   4, 11,-4,   4, 4,-11,
     -11,-4,-4,  -4,-11,-4,  -4,-4,-11,   11,-4,-4,   4,-11,-4,   4,-4,-11]"

text \<open>The expression \<open>(int)((perm[i] % (72 / 3)) * 3)\<close> of the three constructors.\<close>

definition grad_index3 :: "c_int \<Rightarrow> c_int" where
  "grad_index3 v = word_of_int ((sint v smod (72 sdiv 3)) * 3)"

function shuffle_loop3 ::
  "int \<Rightarrow> c_long \<Rightarrow> c_int list \<Rightarrow> c_int list \<Rightarrow> c_int list \<Rightarrow> c_int list \<times> c_int list" where
  "shuffle_loop3 i seed source prm pgi =
     (if i \<ge> 0 then
        let seed' = LCG_STEP seed;
            r = draw seed' i;
            prm' = prm[nat i := source ! nat r];
            pgi' = pgi[nat i := grad_index3 (prm' ! nat i)];
            source' = source[nat r := source ! nat i]
        in shuffle_loop3 (i - 1) seed' source' prm' pgi'
      else (prm, pgi))"
  by pat_completeness auto
termination
  by (relation "measure (\<lambda>(i, seed, source, prm, pgi). nat (i + 1))") auto

declare shuffle_loop3.simps [simp del]

text \<open>
  \<open>Noise (long long seed)\<close> of \<open>Noise<3, T>\<close>; \<open>mem\<close> and \<open>mem_g\<close> are the previous contents
  of the two member arrays.
\<close>

definition Noise3_seed :: "c_int list \<Rightarrow> c_int list \<Rightarrow> c_long \<Rightarrow> Noise3" where
  "Noise3_seed mem mem_g seed =
     (let (prm, pgi) =
            shuffle_loop3 255 (LCG_STEP (LCG_STEP (LCG_STEP seed))) source_init mem mem_g
      in \<lparr>perm = prm, permGradIndex = pgi\<rparr>)"

text \<open>\<open>Noise (const int * p)\<close> of \<open>Noise<3, T>\<close>: one loop fills both tables.\<close>

function copy_loop3 ::
  "nat \<Rightarrow> c_int list \<Rightarrow> c_int list \<Rightarrow> c_int list \<Rightarrow> (c_int list \<times> c_int list) option" where
  "copy_loop3 i p prm pgi =
     (if i < 256 then
        (case arr_read p (int i) of
           None \<Rightarrow> None
         | Some v \<Rightarrow>
             let prm' = prm[i := v];
                 pgi' = pgi[i := grad_index3 (prm' ! i)]
             in copy_loop3 (i + 1) p prm' pgi')
      else Some (prm, pgi))"
  by pat_completeness auto
termination
  by (relation "measure (\<lambda>(i, p, prm, pgi). 256 - i)") auto

declare copy_loop3.simps [simp del]

definition Noise3_table :: "c_int list \<Rightarrow> c_int list \<Rightarrow> c_int list \<Rightarrow> Noise3 option" where
  "Noise3_table mem mem_g p =
     map_option (\<lambda>(prm, pgi). \<lparr>perm = prm, permGradIndex = pgi\<rparr>) (copy_loop3 0 p mem mem_g)"

definition extrapolate3 ::
  "'a Noise3_scheme \<Rightarrow> c_long \<Rightarrow> c_long \<Rightarrow> c_long \<Rightarrow> real \<Rightarrow> real \<Rightarrow> real \<Rightarrow> real option" where
  "extrapolate3 n3 xsb ysb zsb dx dy dz = do {
     p0 \<leftarrow> arr_read (perm n3) (sint (xsb AND 0xFF));
     p1 \<leftarrow> arr_read (perm n3) (sint ((scast p0 + ysb) AND 0xFF));
     pg \<leftarrow> arr_read (permGradIndex n3) (sint ((scast p1 + zsb) AND 0xFF));
     let index = (pg :: 32 word);
     g0 \<leftarrow> arr_read gradients3 (uint index);
     g1 \<leftarrow> arr_read gradients3 (uint (index + 1));
     g2 \<leftarrow> arr_read gradients3 (uint (index + 2));
     Some (real_of_int g0 * dx +
           real_of_int g1 * dy +
           real_of_int g2 * dz)
   }"

subsection \<open>4D\<close>

definition gradients4 :: "int list" where
  "gradients4 =
    [ 3, 1, 1, 1,   1, 3, 1, 1,   1, 1, 3, 1,   1, 1, 1, 3,
     -3, 1, 1, 1,  -1, 3, 1, 1,  -1, 1, 3, 1,  -1, 1, 1, 3,
      3,-1, 1, 1,   1,-3, 1, 1,   1,-1, 3, 1,   1,-1, 1, 3,
     -3,-1, 1, 1,  -1,-3, 1, 1,  -1,-1, 3, 1,  -1,-1, 1, 3,
      3, 1,-1, 1,   1, 3,-1, 1,   1, 1,-3, 1,   1, 1,-1, 3,
     -3, 1,-1, 1,  -1, 3,-1, 1,  -1, 1,-3, 1,  -1, 1,-1, 3,
      3,-1,-1, 1,   1,-3,-1, 1,   1,-1,-3, 1,   1,-1,-1, 3,
     -3,-1,-1, 1,  -1,-3,-1, 1,  -1,-1,-3, 1,  -1,-1,-1, 3,
      3, 1, 1,-1,   1, 3, 1,-1,   1, 1, 3,-1,   1, 1, 1,-3,
     -3, 1, 1,-1,  -1, 3, 1,-1,  -1, 1, 3,-1,  -1, 1, 1,-3,
      3,-1, 1,-1,   1,-3, 1,-1,   1,-1, 3,-1,   1,-1, 1,-3,
     -3,-1, 1,-1,  -1,-3, 1,-1,  -1,-1, 3,-1,  -1,-1, 1,-3,
      3, 1,-1,-1,   1, 3,-1,-1,   1, 1,-3,-1,   1, 1,-1,-3,
     -3, 1,-1,-1,  -1, 3,-1,-1,  -1, 1,-3,-1,  -1, 1,-1,-3,
      3,-1,-1,-1,   1,-3,-1,-1,   1,-1,-3,-1,   1,-1,-1,-3,
     -3,-1,-1,-1,  -1,-3,-1,-1,  -1,-1,-3,-1,  -1,-1,-1,-3]"

definition extrapolate4 ::
  "'a NoiseBase_scheme \<Rightarrow> c_long \<Rightarrow> c_long \<Rightarrow> c_long \<Rightarrow> c_long \<Rightarrow>
     real \<Rightarrow> real \<Rightarrow> real \<Rightarrow> real \<Rightarrow> real option" where
  "extrapolate4 nb xsb ysb zsb wsb dx dy dz dw = do {
     p0 \<leftarrow> arr_read (perm nb) (sint (xsb AND 0xFF));
     p1 \<leftarrow> arr_read (perm nb) (sint ((scast p0 + ysb) AND 0xFF));
     p2 \<leftarrow> arr_read (perm nb) (sint ((scast p1 + zsb) AND 0xFF));
     p3 \<leftarrow> arr_read (perm nb) (sint ((scast p2 + wsb) AND 0xFF));
     let index = (p3 AND 0xFC :: 32 word);
     g0 \<leftarrow> arr_read gradients4 (uint index);
     g1 \<leftarrow> arr_read gradients4 (uint (index + 1));
     g2 \<leftarrow> arr_read gradients4 (uint (index + 2));
     g3 \<leftarrow> arr_read gradients4 (uint (index + 3));
     Some (real_of_int g0 * dx +
           real_of_int g1 * dy +
           real_of_int g2 * dz +
           real_of_int g3 * dw)
   }"

section \<open>The lattice evaluators\<close>

text \<open>
  \<open>OSN_BYTE\<close> is \<open>unsigned char\<close>. The conversion \<open>(long)v\<close> of a floating-point value
  truncates towards zero; where the C++ conversion is undefined (a value outside of \<open>long\<close>)
  the model wraps.
\<close>

type_synonym OSN_BYTE = "8 word"

definition to_long :: "real \<Rightarrow> c_long" where
  "to_long v = word_of_int (if v < 0 then \<lceil>v\<rceil> else \<lfloor>v\<rfloor>)"

text \<open>
  The expression \<open>std::pow(std::max((T)2.0 - attn, (T)0.0), 4)\<close> that weights every
  contribution.
\<close>

definition kernel :: "real \<Rightarrow> real" where
  "kernel attn = (max (2 - attn) 0) ^ 4"

text \<open>
  Every statement \<open>value += std::pow(std::max((T)2.0 - attn, (T)0.0), 4) * extrapolate(v, d)\<close>
  of an evaluator has \<open>attn\<close> declared just before it as the sum of the squares of the
  components of \<open>d\<close>. The model of an evaluator has two parts. The first, \<open>vertices\<close>, is the
  code that selects the lattice vertices: it returns the arguments \<open>(v, d)\<close> of the
  statements it runs through, in their order. The second, \<open>accumulate\<close>, runs the statements:
  it calls \<open>extrapolate\<close> and adds to \<open>value\<close>.
\<close>

subsection \<open>2D\<close>

definition STRETCH_CONSTANT_2D :: real where
  "STRETCH_CONSTANT_2D = (1 / sqrt (2 + 1) - 1) * 0.5"

definition SQUISH_CONSTANT_2D :: real where
  "SQUISH_CONSTANT_2D = (sqrt (2 + 1) - 1) * 0.5"

definition NORM_CONSTANT_2D :: real where
  "NORM_CONSTANT_2D = 47"

type_synonym vertex2 = "(c_long \<times> c_long) \<times> (real \<times> real)"

text \<open>
  The statement \<open>if ((xins + yins) <= (T)1.0) ... else ...\<close> of \<open>Noise<2, T>::eval\<close>, which
  selects the extra vertex and, in the triangle at \<open>(1,1)\<close>, moves \<open>xsb\<close>, \<open>ysb\<close>, \<open>dx0\<close>,
  \<open>dy0\<close> to that corner.
\<close>

definition eval2_extra ::
  "c_long \<Rightarrow> c_long \<Rightarrow> real \<Rightarrow> real \<Rightarrow>
   real \<Rightarrow> real \<Rightarrow>
   (c_long \<times> c_long \<times> c_long \<times> c_long \<times> real \<times> real \<times> real \<times> real)" where
  "eval2_extra xsb ysb dx0 dy0 xins yins =
     (if xins + yins \<le> 1 then
        (let zins = 1 - (xins + yins);
             (xsv_ext, ysv_ext, dx_ext, dy_ext) =
               (if (zins > xins) \<or> (zins > yins) then
                  (if xins > yins then
                     (let xsv_ext = xsb + 1;
                          ysv_ext = ysb - 1;
                          dx_ext = dx0 - 1;
                          dy_ext = dy0 + 1
                      in (xsv_ext, ysv_ext, dx_ext, dy_ext))
                   else
                     (let xsv_ext = xsb - 1;
                          ysv_ext = ysb + 1;
                          dx_ext = dx0 + 1;
                          dy_ext = dy0 - 1
                      in (xsv_ext, ysv_ext, dx_ext, dy_ext)))
                else
                  (let xsv_ext = xsb + 1;
                       ysv_ext = ysb + 1;
                       dx_ext = dx0 - 1 - (SQUISH_CONSTANT_2D * 2);
                       dy_ext = dy0 - 1 - (SQUISH_CONSTANT_2D * 2)
                   in (xsv_ext, ysv_ext, dx_ext, dy_ext)))
         in (xsb, ysb, xsv_ext, ysv_ext, dx0, dy0, dx_ext, dy_ext))
      else
        (let zins = 2 - (xins + yins);
             (xsv_ext, ysv_ext, dx_ext, dy_ext) =
               (if (zins < xins) \<or> (zins < yins) then
                  (if xins > yins then
                     (let xsv_ext = xsb + 2;
                          ysv_ext = ysb;
                          dx_ext = dx0 - 2 - (SQUISH_CONSTANT_2D * 2);
                          dy_ext = dy0 - (SQUISH_CONSTANT_2D * 2)
                      in (xsv_ext, ysv_ext, dx_ext, dy_ext))
                   else
                     (let xsv_ext = xsb;
                          ysv_ext = ysb + 2;
                          dx_ext = dx0 - (SQUISH_CONSTANT_2D * 2);
                          dy_ext = dy0 - 2 - (SQUISH_CONSTANT_2D * 2)
                      in (xsv_ext, ysv_ext, dx_ext, dy_ext)))
                else
                  (let xsv_ext = xsb;
                       ysv_ext = ysb;
                       dx_ext = dx0;
                       dy_ext = dy0
                   in (xsv_ext, ysv_ext, dx_ext, dy_ext)));
             xsb = xsb + 1;
             ysb = ysb + 1;
             dx0 = dx0 - 1 - (SQUISH_CONSTANT_2D * 2);
             dy0 = dy0 - 1 - (SQUISH_CONSTANT_2D * 2)
         in (xsb, ysb, xsv_ext, ysv_ext, dx0, dy0, dx_ext, dy_ext)))"

text \<open>
  \<open>Noise<2, T>::eval\<close> up to the loop: the four entries of \<open>contr_m\<close> and \<open>contr_ext\<close>.
\<close>

definition eval2_vertices :: "real \<Rightarrow> real \<Rightarrow> vertex2 list" where
  "eval2_vertices x y =
     (let stretchOffset = (x + y) * STRETCH_CONSTANT_2D;
          xs = x + stretchOffset;
          ys = y + stretchOffset;
          xsbd = real_of_int \<lfloor>xs\<rfloor>;
          ysbd = real_of_int \<lfloor>ys\<rfloor>;
          xsb = to_long xsbd;
          ysb = to_long ysbd;
          squishOffset = (xsbd + ysbd) * SQUISH_CONSTANT_2D;
          xb = xsbd + squishOffset;
          yb = ysbd + squishOffset;
          dx0 = x - xb;
          dy0 = y - yb;
          xins = xs - xsbd;
          yins = ys - ysbd;
          dx1 = dx0 - 1 - SQUISH_CONSTANT_2D;
          dy1 = dy0 - SQUISH_CONSTANT_2D;
          contr0 = ((xsb + 1, ysb), (dx1, dy1));
          dx2 = dx0 - SQUISH_CONSTANT_2D;
          dy2 = dy0 - 1 - SQUISH_CONSTANT_2D;
          contr1 = ((xsb, ysb + 1), (dx2, dy2));
          (xsb, ysb, xsv_ext, ysv_ext, dx0, dy0, dx_ext, dy_ext) =
            eval2_extra xsb ysb dx0 dy0 xins yins;
          contr2 = ((xsb, ysb), (dx0, dy0));
          contr3 = ((xsv_ext, ysv_ext), (dx_ext, dy_ext))
      in [contr0, contr1, contr2, contr3])"

definition attn2 :: "real \<times> real \<Rightarrow> real" where
  "attn2 d = (case d of (dx, dy) \<Rightarrow> (dx * dx) + (dy * dy))"

text \<open>The loop \<open>for (int i=0; i<4; ++i) value += ...\<close>.\<close>

fun accumulate2 :: "'a NoiseBase_scheme \<Rightarrow> vertex2 list \<Rightarrow> real \<Rightarrow> real option" where
  "accumulate2 nb [] value = Some value"
| "accumulate2 nb (((xsv, ysv), (dx, dy)) # vs) value = do {
     e \<leftarrow> extrapolate2 nb xsv ysv dx dy;
     accumulate2 nb vs (value + kernel (attn2 (dx, dy)) * e)
   }"

definition eval2 :: "'a NoiseBase_scheme \<Rightarrow> real \<Rightarrow> real \<Rightarrow> real option" where
  "eval2 nb x y = do {
     value \<leftarrow> accumulate2 nb (eval2_vertices x y) 0;
     Some (value / NORM_CONSTANT_2D)
   }"

subsection \<open>3D\<close>

definition STRETCH_CONSTANT_3D :: real where
  "STRETCH_CONSTANT_3D = - 1 / 6"

definition SQUISH_CONSTANT_3D :: real where
  "SQUISH_CONSTANT_3D = 1 / 3"

definition NORM_CONSTANT_3D :: real where
  "NORM_CONSTANT_3D = 103"

type_synonym vertex3 = "(c_long \<times> c_long \<times> c_long) \<times> (real \<times> real \<times> real)"

text \<open>
  \<open>Noise<3, T>::eval\<close>: one definition for each branch of
  \<open>if (inSum > 1 && inSum < 2) ... else if (inSum <= 1) ... else ...\<close>, then the function
  up to the \<open>return\<close>.
\<close>

definition eval3_octahedron_closest ::
  "real \<Rightarrow> real \<Rightarrow> real \<Rightarrow>
   (OSN_BYTE \<times> bool \<times> OSN_BYTE \<times> bool)" where
  "eval3_octahedron_closest xins yins zins =
     (let p1 = xins + yins;
          (aScore, aPoint, aIsFurtherSide) =
            (if p1 \<le> 1 then
               (let aScore = 1 - p1;
                    aPoint = (4 :: OSN_BYTE);
                    aIsFurtherSide = False
                in (aScore, aPoint, aIsFurtherSide))
             else
               (let aScore = p1 - 1;
                    aPoint = (3 :: OSN_BYTE);
                    aIsFurtherSide = True
                in (aScore, aPoint, aIsFurtherSide)));
          p2 = xins + zins;
          (bScore, bPoint, bIsFurtherSide) =
            (if p2 \<le> 1 then
               (let bScore = 1 - p2;
                    bPoint = (2 :: OSN_BYTE);
                    bIsFurtherSide = False
                in (bScore, bPoint, bIsFurtherSide))
             else
               (let bScore = p2 - 1;
                    bPoint = (5 :: OSN_BYTE);
                    bIsFurtherSide = True
                in (bScore, bPoint, bIsFurtherSide)));
          p3 = yins + zins
      in
         (if p3 > 1 then
            (let score = p3 - 1
             in
                (if (aScore > bScore) \<and> (bScore < score) then
                   (let bScore = score;
                        bPoint = (6 :: OSN_BYTE);
                        bIsFurtherSide = True
                    in (aPoint, aIsFurtherSide, bPoint, bIsFurtherSide))
                 else
                   (if (aScore \<le> bScore) \<and> (aScore < score) then
                      (let aScore = score;
                           aPoint = (6 :: OSN_BYTE);
                           aIsFurtherSide = True
                       in (aPoint, aIsFurtherSide, bPoint, bIsFurtherSide))
                    else
                      (aPoint, aIsFurtherSide, bPoint, bIsFurtherSide))))
          else
            (let score = 1 - p3
             in
                (if (aScore > bScore) \<and> (bScore < score) then
                   (let bScore = score;
                        bPoint = (1 :: OSN_BYTE);
                        bIsFurtherSide = False
                    in (aPoint, aIsFurtherSide, bPoint, bIsFurtherSide))
                 else
                   (if (aScore \<le> bScore) \<and> (aScore < score) then
                      (let aScore = score;
                           aPoint = (1 :: OSN_BYTE);
                           aIsFurtherSide = False
                       in (aPoint, aIsFurtherSide, bPoint, bIsFurtherSide))
                    else
                      (aPoint, aIsFurtherSide, bPoint, bIsFurtherSide))))))"

definition eval3_octahedron_extra ::
  "c_long \<Rightarrow> c_long \<Rightarrow> c_long \<Rightarrow> real \<Rightarrow>
   real \<Rightarrow> real \<Rightarrow> OSN_BYTE \<Rightarrow> bool \<Rightarrow>
   OSN_BYTE \<Rightarrow> bool \<Rightarrow>
   (c_long \<times> c_long \<times> c_long \<times> c_long \<times> c_long \<times> c_long \<times> real \<times> real \<times> real \<times> real \<times> real \<times> real)" where
  "eval3_octahedron_extra xsb ysb zsb dx0 dy0 dz0 aPoint aIsFurtherSide bPoint bIsFurtherSide =
     (if aIsFurtherSide = bIsFurtherSide then
        (if aIsFurtherSide then
           (let xsv_ext0 = xsb + 1;
                ysv_ext0 = ysb + 1;
                zsv_ext0 = zsb + 1;
                dx_ext0 = dx0 - 1 - (SQUISH_CONSTANT_3D * 3);
                dy_ext0 = dy0 - 1 - (SQUISH_CONSTANT_3D * 3);
                dz_ext0 = dz0 - 1 - (SQUISH_CONSTANT_3D * 3);
                c = aPoint AND bPoint;
                (xsv_ext1, ysv_ext1, zsv_ext1, dx_ext1, dy_ext1, dz_ext1) =
                  (if (c AND 0x01) \<noteq> 0 then
                     (let xsv_ext1 = xsb + 2;
                          ysv_ext1 = ysb;
                          zsv_ext1 = zsb;
                          dx_ext1 = dx0 - 2 - (SQUISH_CONSTANT_3D * 2);
                          dy_ext1 = dy0 - (SQUISH_CONSTANT_3D * 2);
                          dz_ext1 = dz0 - (SQUISH_CONSTANT_3D * 2)
                      in (xsv_ext1, ysv_ext1, zsv_ext1, dx_ext1, dy_ext1, dz_ext1))
                   else
                     (if (c AND 0x02) \<noteq> 0 then
                        (let xsv_ext1 = xsb;
                             ysv_ext1 = ysb + 2;
                             zsv_ext1 = zsb;
                             dx_ext1 = dx0 - (SQUISH_CONSTANT_3D * 2);
                             dy_ext1 = dy0 - 2 - (SQUISH_CONSTANT_3D * 2);
                             dz_ext1 = dz0 - (SQUISH_CONSTANT_3D * 2)
                         in (xsv_ext1, ysv_ext1, zsv_ext1, dx_ext1, dy_ext1, dz_ext1))
                      else
                        (let xsv_ext1 = xsb;
                             ysv_ext1 = ysb;
                             zsv_ext1 = zsb + 2;
                             dx_ext1 = dx0 - (SQUISH_CONSTANT_3D * 2);
                             dy_ext1 = dy0 - (SQUISH_CONSTANT_3D * 2);
                             dz_ext1 = dz0 - 2 - (SQUISH_CONSTANT_3D * 2)
                         in (xsv_ext1, ysv_ext1, zsv_ext1, dx_ext1, dy_ext1, dz_ext1))))
            in (xsv_ext0, ysv_ext0, zsv_ext0, xsv_ext1, ysv_ext1, zsv_ext1, dx_ext0, dy_ext0, dz_ext0, dx_ext1, dy_ext1, dz_ext1))
         else
           (let xsv_ext0 = xsb;
                ysv_ext0 = ysb;
                zsv_ext0 = zsb;
                dx_ext0 = dx0;
                dy_ext0 = dy0;
                dz_ext0 = dz0;
                c = aPoint OR bPoint;
                (xsv_ext1, ysv_ext1, zsv_ext1, dx_ext1, dy_ext1, dz_ext1) =
                  (if (c AND 0x01) = 0 then
                     (let xsv_ext1 = xsb - 1;
                          ysv_ext1 = ysb + 1;
                          zsv_ext1 = zsb + 1;
                          dx_ext1 = dx0 + 1 - SQUISH_CONSTANT_3D;
                          dy_ext1 = dy0 - 1 - SQUISH_CONSTANT_3D;
                          dz_ext1 = dz0 - 1 - SQUISH_CONSTANT_3D
                      in (xsv_ext1, ysv_ext1, zsv_ext1, dx_ext1, dy_ext1, dz_ext1))
                   else
                     (if (c AND 0x02) = 0 then
                        (let xsv_ext1 = xsb + 1;
                             ysv_ext1 = ysb - 1;
                             zsv_ext1 = zsb + 1;
                             dx_ext1 = dx0 - 1 - SQUISH_CONSTANT_3D;
                             dy_ext1 = dy0 + 1 - SQUISH_CONSTANT_3D;
                             dz_ext1 = dz0 - 1 - SQUISH_CONSTANT_3D
                         in (xsv_ext1, ysv_ext1, zsv_ext1, dx_ext1, dy_ext1, dz_ext1))
                      else
                        (let xsv_ext1 = xsb + 1;
                             ysv_ext1 = ysb + 1;
                             zsv_ext1 = zsb - 1;
                             dx_ext1 = dx0 - 1 - SQUISH_CONSTANT_3D;
                             dy_ext1 = dy0 - 1 - SQUISH_CONSTANT_3D;
                             dz_ext1 = dz0 + 1 - SQUISH_CONSTANT_3D
                         in (xsv_ext1, ysv_ext1, zsv_ext1, dx_ext1, dy_ext1, dz_ext1))))
            in (xsv_ext0, ysv_ext0, zsv_ext0, xsv_ext1, ysv_ext1, zsv_ext1, dx_ext0, dy_ext0, dz_ext0, dx_ext1, dy_ext1, dz_ext1)))
      else
        (let (c1, c2) =
               (if aIsFurtherSide then
                  (let c1 = aPoint;
                       c2 = bPoint
                   in (c1, c2))
                else
                  (let c1 = bPoint;
                       c2 = aPoint
                   in (c1, c2)));
             (xsv_ext0, ysv_ext0, zsv_ext0, dx_ext0, dy_ext0, dz_ext0) =
               (if (c1 AND 0x01) = 0 then
                  (let xsv_ext0 = xsb - 1;
                       ysv_ext0 = ysb + 1;
                       zsv_ext0 = zsb + 1;
                       dx_ext0 = dx0 + 1 - SQUISH_CONSTANT_3D;
                       dy_ext0 = dy0 - 1 - SQUISH_CONSTANT_3D;
                       dz_ext0 = dz0 - 1 - SQUISH_CONSTANT_3D
                   in (xsv_ext0, ysv_ext0, zsv_ext0, dx_ext0, dy_ext0, dz_ext0))
                else
                  (if (c1 AND 0x02) = 0 then
                     (let xsv_ext0 = xsb + 1;
                          ysv_ext0 = ysb - 1;
                          zsv_ext0 = zsb + 1;
                          dx_ext0 = dx0 - 1 - SQUISH_CONSTANT_3D;
                          dy_ext0 = dy0 + 1 - SQUISH_CONSTANT_3D;
                          dz_ext0 = dz0 - 1 - SQUISH_CONSTANT_3D
                      in (xsv_ext0, ysv_ext0, zsv_ext0, dx_ext0, dy_ext0, dz_ext0))
                   else
                     (let xsv_ext0 = xsb + 1;
                          ysv_ext0 = ysb + 1;
                          zsv_ext0 = zsb - 1;
                          dx_ext0 = dx0 - 1 - SQUISH_CONSTANT_3D;
                          dy_ext0 = dy0 - 1 - SQUISH_CONSTANT_3D;
                          dz_ext0 = dz0 + 1 - SQUISH_CONSTANT_3D
                      in (xsv_ext0, ysv_ext0, zsv_ext0, dx_ext0, dy_ext0, dz_ext0))));
             (xsv_ext1, ysv_ext1, zsv_ext1, dx_ext1, dy_ext1, dz_ext1) =
               (if (c2 AND 0x01) \<noteq> 0 then
                  (let xsv_ext1 = xsb + 2;
                       ysv_ext1 = ysb;
                       zsv_ext1 = zsb;
                       dx_ext1 = dx0 - 2 - (SQUISH_CONSTANT_3D * 2);
                       dy_ext1 = dy0 - (SQUISH_CONSTANT_3D * 2);
                       dz_ext1 = dz0 - (SQUISH_CONSTANT_3D * 2)
                   in (xsv_ext1, ysv_ext1, zsv_ext1, dx_ext1, dy_ext1, dz_ext1))
                else
                  (if (c2 AND 0x02) \<noteq> 0 then
                     (let xsv_ext1 = xsb;
                          ysv_ext1 = ysb + 2;
                          zsv_ext1 = zsb;
                          dx_ext1 = dx0 - (SQUISH_CONSTANT_3D * 2);
                          dy_ext1 = dy0 - 2 - (SQUISH_CONSTANT_3D * 2);
                          dz_ext1 = dz0 - (SQUISH_CONSTANT_3D * 2)
                      in (xsv_ext1, ysv_ext1, zsv_ext1, dx_ext1, dy_ext1, dz_ext1))
                   else
                     (let xsv_ext1 = xsb;
                          ysv_ext1 = ysb;
                          zsv_ext1 = zsb + 2;
                          dx_ext1 = dx0 - (SQUISH_CONSTANT_3D * 2);
                          dy_ext1 = dy0 - (SQUISH_CONSTANT_3D * 2);
                          dz_ext1 = dz0 - 2 - (SQUISH_CONSTANT_3D * 2)
                      in (xsv_ext1, ysv_ext1, zsv_ext1, dx_ext1, dy_ext1, dz_ext1))))
         in (xsv_ext0, ysv_ext0, zsv_ext0, xsv_ext1, ysv_ext1, zsv_ext1, dx_ext0, dy_ext0, dz_ext0, dx_ext1, dy_ext1, dz_ext1)))"

definition eval3_octahedron ::
  "c_long \<Rightarrow> c_long \<Rightarrow> c_long \<Rightarrow> real \<Rightarrow>
   real \<Rightarrow> real \<Rightarrow> real \<Rightarrow> real \<Rightarrow>
   real \<Rightarrow>
   (vertex3 list \<times> c_long \<times> c_long \<times> c_long \<times> c_long \<times> c_long \<times> c_long \<times> real \<times> real \<times> real \<times> real \<times> real \<times> real)" where
  "eval3_octahedron xsb ysb zsb dx0 dy0 dz0 xins yins zins =
     (let (aPoint, aIsFurtherSide, bPoint, bIsFurtherSide) = eval3_octahedron_closest xins yins zins;
          (xsv_ext0, ysv_ext0, zsv_ext0, xsv_ext1, ysv_ext1, zsv_ext1, dx_ext0, dy_ext0, dz_ext0, dx_ext1, dy_ext1, dz_ext1) = eval3_octahedron_extra xsb ysb zsb dx0 dy0 dz0 aPoint aIsFurtherSide bPoint bIsFurtherSide;
          dx1 = dx0 - 1 - SQUISH_CONSTANT_3D;
          dy1 = dy0 - SQUISH_CONSTANT_3D;
          dz1 = dz0 - SQUISH_CONSTANT_3D;
          vs = [((xsb + 1, ysb, zsb), (dx1, dy1, dz1))];
          dx2 = dx0 - SQUISH_CONSTANT_3D;
          dy2 = dy0 - 1 - SQUISH_CONSTANT_3D;
          dz2 = dz1;
          vs = vs @ [((xsb, ysb + 1, zsb), (dx2, dy2, dz2))];
          dx3 = dx2;
          dy3 = dy1;
          dz3 = dz0 - 1 - SQUISH_CONSTANT_3D;
          vs = vs @ [((xsb, ysb, zsb + 1), (dx3, dy3, dz3))];
          dx4 = dx0 - 1 - (SQUISH_CONSTANT_3D * 2);
          dy4 = dy0 - 1 - (SQUISH_CONSTANT_3D * 2);
          dz4 = dz0 - (SQUISH_CONSTANT_3D * 2);
          vs = vs @ [((xsb + 1, ysb + 1, zsb + 0), (dx4, dy4, dz4))];
          dx5 = dx4;
          dy5 = dy0 - (SQUISH_CONSTANT_3D * 2);
          dz5 = dz0 - 1 - (SQUISH_CONSTANT_3D * 2);
          vs = vs @ [((xsb + 1, ysb, zsb + 1), (dx5, dy5, dz5))];
          dx6 = dx0 - (SQUISH_CONSTANT_3D * 2);
          dy6 = dy4;
          dz6 = dz5;
          vs = vs @ [((xsb, ysb + 1, zsb + 1), (dx6, dy6, dz6))]
      in (vs, xsv_ext0, ysv_ext0, zsv_ext0, xsv_ext1, ysv_ext1, zsv_ext1, dx_ext0, dy_ext0, dz_ext0, dx_ext1, dy_ext1, dz_ext1))"

definition eval3_tetrahedron_origin_closest ::
  "real \<Rightarrow> real \<Rightarrow> real \<Rightarrow>
   (real \<times> OSN_BYTE \<times> real \<times> OSN_BYTE)" where
  "eval3_tetrahedron_origin_closest xins yins zins =
     (let aPoint = (1 :: OSN_BYTE);
          aScore = xins;
          bPoint = (2 :: OSN_BYTE);
          bScore = yins
      in
         (if (aScore < bScore) \<and> (zins > aScore) then
            (let aScore = zins;
                 aPoint = (4 :: OSN_BYTE)
             in (aScore, aPoint, bScore, bPoint))
          else
            (if (aScore \<ge> bScore) \<and> (zins > bScore) then
               (let bScore = zins;
                    bPoint = (4 :: OSN_BYTE)
                in (aScore, aPoint, bScore, bPoint))
             else
               (aScore, aPoint, bScore, bPoint))))"

definition eval3_tetrahedron_origin_extra_near ::
  "c_long \<Rightarrow> c_long \<Rightarrow> c_long \<Rightarrow> real \<Rightarrow>
   real \<Rightarrow> real \<Rightarrow> OSN_BYTE \<Rightarrow>
   (c_long \<times> c_long \<times> c_long \<times> c_long \<times> c_long \<times> c_long \<times> real \<times> real \<times> real \<times> real \<times> real \<times> real)" where
  "eval3_tetrahedron_origin_extra_near xsb ysb zsb dx0 dy0 dz0 c =
     (let (xsv_ext0, xsv_ext1, dx_ext0, dx_ext1) =
            (if c \<noteq> 1 then
               (let xsv_ext0 = xsb - 1;
                    xsv_ext1 = xsb;
                    dx_ext0 = dx0 + 1;
                    dx_ext1 = dx0
                in (xsv_ext0, xsv_ext1, dx_ext0, dx_ext1))
             else
               (let xsv_ext1 = xsb + 1;
                    xsv_ext0 = xsv_ext1;
                    dx_ext1 = dx0 - 1;
                    dx_ext0 = dx_ext1
                in (xsv_ext0, xsv_ext1, dx_ext0, dx_ext1)));
          (ysv_ext0, ysv_ext1, dy_ext0, dy_ext1) =
            (if c \<noteq> 2 then
               (let ysv_ext1 = ysb;
                    ysv_ext0 = ysv_ext1;
                    dy_ext1 = dy0;
                    dy_ext0 = dy_ext1
                in
                   (if c = 1 then
                      (let ysv_ext0 = ysv_ext0 - 1;
                           dy_ext0 = dy_ext0 + 1
                       in (ysv_ext0, ysv_ext1, dy_ext0, dy_ext1))
                    else
                      (let ysv_ext1 = ysv_ext1 - 1;
                           dy_ext1 = dy_ext1 + 1
                       in (ysv_ext0, ysv_ext1, dy_ext0, dy_ext1))))
             else
               (let ysv_ext1 = ysb + 1;
                    ysv_ext0 = ysv_ext1;
                    dy_ext1 = dy0 - 1;
                    dy_ext0 = dy_ext1
                in (ysv_ext0, ysv_ext1, dy_ext0, dy_ext1)));
          (zsv_ext0, zsv_ext1, dz_ext0, dz_ext1) =
            (if c \<noteq> 4 then
               (let zsv_ext0 = zsb;
                    zsv_ext1 = zsb - 1;
                    dz_ext0 = dz0;
                    dz_ext1 = dz0 + 1
                in (zsv_ext0, zsv_ext1, dz_ext0, dz_ext1))
             else
               (let zsv_ext1 = zsb + 1;
                    zsv_ext0 = zsv_ext1;
                    dz_ext1 = dz0 - 1;
                    dz_ext0 = dz_ext1
                in (zsv_ext0, zsv_ext1, dz_ext0, dz_ext1)))
      in (xsv_ext0, ysv_ext0, zsv_ext0, xsv_ext1, ysv_ext1, zsv_ext1, dx_ext0, dy_ext0, dz_ext0, dx_ext1, dy_ext1, dz_ext1))"

definition eval3_tetrahedron_origin_extra_far ::
  "c_long \<Rightarrow> c_long \<Rightarrow> c_long \<Rightarrow> real \<Rightarrow>
   real \<Rightarrow> real \<Rightarrow> OSN_BYTE \<Rightarrow>
   (c_long \<times> c_long \<times> c_long \<times> c_long \<times> c_long \<times> c_long \<times> real \<times> real \<times> real \<times> real \<times> real \<times> real)" where
  "eval3_tetrahedron_origin_extra_far xsb ysb zsb dx0 dy0 dz0 c =
     (let (xsv_ext0, xsv_ext1, dx_ext0, dx_ext1) =
            (if (c AND 0x01) \<noteq> 0 then
               (let xsv_ext1 = xsb + 1;
                    xsv_ext0 = xsv_ext1;
                    dx_ext0 = dx0 - 1 - (SQUISH_CONSTANT_3D * 2);
                    dx_ext1 = dx0 - 1 - SQUISH_CONSTANT_3D
                in (xsv_ext0, xsv_ext1, dx_ext0, dx_ext1))
             else
               (let xsv_ext0 = xsb;
                    xsv_ext1 = xsb - 1;
                    dx_ext0 = dx0 - (SQUISH_CONSTANT_3D * 2);
                    dx_ext1 = dx0 + 1 - SQUISH_CONSTANT_3D
                in (xsv_ext0, xsv_ext1, dx_ext0, dx_ext1)));
          (ysv_ext0, ysv_ext1, dy_ext0, dy_ext1) =
            (if (c AND 0x02) \<noteq> 0 then
               (let ysv_ext1 = ysb + 1;
                    ysv_ext0 = ysv_ext1;
                    dy_ext0 = dy0 - 1 - (SQUISH_CONSTANT_3D * 2);
                    dy_ext1 = dy0 - 1 - SQUISH_CONSTANT_3D
                in (ysv_ext0, ysv_ext1, dy_ext0, dy_ext1))
             else
               (let ysv_ext0 = ysb;
                    ysv_ext1 = ysb - 1;
                    dy_ext0 = dy0 - (SQUISH_CONSTANT_3D * 2);
                    dy_ext1 = dy0 + 1 - SQUISH_CONSTANT_3D
                in (ysv_ext0, ysv_ext1, dy_ext0, dy_ext1)));
          (zsv_ext0, zsv_ext1, dz_ext0, dz_ext1) =
            (if (c AND 0x04) \<noteq> 0 then
               (let zsv_ext1 = zsb + 1;
                    zsv_ext0 = zsv_ext1;
                    dz_ext0 = dz0 - 1 - (SQUISH_CONSTANT_3D * 2);
                    dz_ext1 = dz0 - 1 - SQUISH_CONSTANT_3D
                in (zsv_ext0, zsv_ext1, dz_ext0, dz_ext1))
             else
               (let zsv_ext0 = zsb;
                    zsv_ext1 = zsb - 1;
                    dz_ext0 = dz0 - (SQUISH_CONSTANT_3D * 2);
                    dz_ext1 = dz0 + 1 - SQUISH_CONSTANT_3D
                in (zsv_ext0, zsv_ext1, dz_ext0, dz_ext1)))
      in (xsv_ext0, ysv_ext0, zsv_ext0, xsv_ext1, ysv_ext1, zsv_ext1, dx_ext0, dy_ext0, dz_ext0, dx_ext1, dy_ext1, dz_ext1))"

definition eval3_tetrahedron_origin ::
  "c_long \<Rightarrow> c_long \<Rightarrow> c_long \<Rightarrow> real \<Rightarrow>
   real \<Rightarrow> real \<Rightarrow> real \<Rightarrow> real \<Rightarrow>
   real \<Rightarrow> real \<Rightarrow>
   (vertex3 list \<times> c_long \<times> c_long \<times> c_long \<times> c_long \<times> c_long \<times> c_long \<times> real \<times> real \<times> real \<times> real \<times> real \<times> real)" where
  "eval3_tetrahedron_origin xsb ysb zsb dx0 dy0 dz0 xins yins zins inSum =
     (let (aScore, aPoint, bScore, bPoint) = eval3_tetrahedron_origin_closest xins yins zins;
          wins = 1 - inSum;
          (xsv_ext0, ysv_ext0, zsv_ext0, xsv_ext1, ysv_ext1, zsv_ext1, dx_ext0, dy_ext0, dz_ext0, dx_ext1, dy_ext1, dz_ext1) =
            (if (wins > aScore) \<or> (wins > bScore) then
               (let c = (if bScore > aScore then bPoint else aPoint)
                in eval3_tetrahedron_origin_extra_near xsb ysb zsb dx0 dy0 dz0 c)
             else
               (let c = aPoint OR bPoint
                in eval3_tetrahedron_origin_extra_far xsb ysb zsb dx0 dy0 dz0 c));
          vs = [((xsb, ysb, zsb), (dx0, dy0, dz0))];
          dx1 = dx0 - 1 - SQUISH_CONSTANT_3D;
          dy1 = dy0 - SQUISH_CONSTANT_3D;
          dz1 = dz0 - SQUISH_CONSTANT_3D;
          vs = vs @ [((xsb + 1, ysb, zsb), (dx1, dy1, dz1))];
          dx2 = dx0 - SQUISH_CONSTANT_3D;
          dy2 = dy0 - 1 - SQUISH_CONSTANT_3D;
          dz2 = dz1;
          vs = vs @ [((xsb, ysb + 1, zsb), (dx2, dy2, dz2))];
          dx3 = dx2;
          dy3 = dy1;
          dz3 = dz0 - 1 - SQUISH_CONSTANT_3D;
          vs = vs @ [((xsb, ysb, zsb + 1), (dx3, dy3, dz3))]
      in (vs, xsv_ext0, ysv_ext0, zsv_ext0, xsv_ext1, ysv_ext1, zsv_ext1, dx_ext0, dy_ext0, dz_ext0, dx_ext1, dy_ext1, dz_ext1))"

definition eval3_tetrahedron_far_closest ::
  "real \<Rightarrow> real \<Rightarrow> real \<Rightarrow>
   (real \<times> OSN_BYTE \<times> real \<times> OSN_BYTE)" where
  "eval3_tetrahedron_far_closest xins yins zins =
     (let aPoint = (6 :: OSN_BYTE);
          aScore = xins;
          bPoint = (5 :: OSN_BYTE);
          bScore = yins
      in
         (if (aScore \<le> bScore) \<and> (zins < bScore) then
            (let bScore = zins;
                 bPoint = (3 :: OSN_BYTE)
             in (aScore, aPoint, bScore, bPoint))
          else
            (if (aScore > bScore) \<and> (zins < aScore) then
               (let aScore = zins;
                    aPoint = (3 :: OSN_BYTE)
                in (aScore, aPoint, bScore, bPoint))
             else
               (aScore, aPoint, bScore, bPoint))))"

definition eval3_tetrahedron_far_extra_near ::
  "c_long \<Rightarrow> c_long \<Rightarrow> c_long \<Rightarrow> real \<Rightarrow>
   real \<Rightarrow> real \<Rightarrow> OSN_BYTE \<Rightarrow>
   (c_long \<times> c_long \<times> c_long \<times> c_long \<times> c_long \<times> c_long \<times> real \<times> real \<times> real \<times> real \<times> real \<times> real)" where
  "eval3_tetrahedron_far_extra_near xsb ysb zsb dx0 dy0 dz0 c =
     (let (xsv_ext0, xsv_ext1, dx_ext0, dx_ext1) =
            (if (c AND 0x01) \<noteq> 0 then
               (let xsv_ext0 = xsb + 2;
                    xsv_ext1 = xsb + 1;
                    dx_ext0 = dx0 - 2 - (SQUISH_CONSTANT_3D * 3);
                    dx_ext1 = dx0 - 1 - (SQUISH_CONSTANT_3D * 3)
                in (xsv_ext0, xsv_ext1, dx_ext0, dx_ext1))
             else
               (let xsv_ext1 = xsb;
                    xsv_ext0 = xsv_ext1;
                    dx_ext1 = dx0 - (SQUISH_CONSTANT_3D * 3);
                    dx_ext0 = dx_ext1
                in (xsv_ext0, xsv_ext1, dx_ext0, dx_ext1)));
          (ysv_ext0, ysv_ext1, dy_ext0, dy_ext1) =
            (if (c AND 0x02) \<noteq> 0 then
               (let ysv_ext1 = ysb + 1;
                    ysv_ext0 = ysv_ext1;
                    dy_ext1 = dy0 - 1 - (SQUISH_CONSTANT_3D * 3);
                    dy_ext0 = dy_ext1
                in
                   (if (c AND 0x01) \<noteq> 0 then
                      (let ysv_ext1 = ysv_ext1 + 1;
                           dy_ext1 = dy_ext1 - 1
                       in (ysv_ext0, ysv_ext1, dy_ext0, dy_ext1))
                    else
                      (let ysv_ext0 = ysv_ext0 + 1;
                           dy_ext0 = dy_ext0 - 1
                       in (ysv_ext0, ysv_ext1, dy_ext0, dy_ext1))))
             else
               (let ysv_ext1 = ysb;
                    ysv_ext0 = ysv_ext1;
                    dy_ext1 = dy0 - (SQUISH_CONSTANT_3D * 3);
                    dy_ext0 = dy_ext1
                in (ysv_ext0, ysv_ext1, dy_ext0, dy_ext1)));
          (zsv_ext0, zsv_ext1, dz_ext0, dz_ext1) =
            (if (c AND 0x04) \<noteq> 0 then
               (let zsv_ext0 = zsb + 1;
                    zsv_ext1 = zsb + 2;
                    dz_ext0 = dz0 - 1 - (SQUISH_CONSTANT_3D * 3);
                    dz_ext1 = dz0 - 2 - (SQUISH_CONSTANT_3D * 3)
                in (zsv_ext0, zsv_ext1, dz_ext0, dz_ext1))
             else
               (let zsv_ext1 = zsb;
                    zsv_ext0 = zsv_ext1;
                    dz_ext1 = dz0 - (SQUISH_CONSTANT_3D * 3);
                    dz_ext0 = dz_ext1
                in (zsv_ext0, zsv_ext1, dz_ext0, dz_ext1)))
      in (xsv_ext0, ysv_ext0, zsv_ext0, xsv_ext1, ysv_ext1, zsv_ext1, dx_ext0, dy_ext0, dz_ext0, dx_ext1, dy_ext1, dz_ext1))"

definition eval3_tetrahedron_far_extra_far ::
  "c_long \<Rightarrow> c_long \<Rightarrow> c_long \<Rightarrow> real \<Rightarrow>
   real \<Rightarrow> real \<Rightarrow> OSN_BYTE \<Rightarrow>
   (c_long \<times> c_long \<times> c_long \<times> c_long \<times> c_long \<times> c_long \<times> real \<times> real \<times> real \<times> real \<times> real \<times> real)" where
  "eval3_tetrahedron_far_extra_far xsb ysb zsb dx0 dy0 dz0 c =
     (let (xsv_ext0, xsv_ext1, dx_ext0, dx_ext1) =
            (if (c AND 0x01) \<noteq> 0 then
               (let xsv_ext0 = xsb + 1;
                    xsv_ext1 = xsb + 2;
                    dx_ext0 = dx0 - 1 - SQUISH_CONSTANT_3D;
                    dx_ext1 = dx0 - 2 - (SQUISH_CONSTANT_3D * 2)
                in (xsv_ext0, xsv_ext1, dx_ext0, dx_ext1))
             else
               (let xsv_ext1 = xsb;
                    xsv_ext0 = xsv_ext1;
                    dx_ext0 = dx0 - SQUISH_CONSTANT_3D;
                    dx_ext1 = dx0 - (SQUISH_CONSTANT_3D * 2)
                in (xsv_ext0, xsv_ext1, dx_ext0, dx_ext1)));
          (ysv_ext0, ysv_ext1, dy_ext0, dy_ext1) =
            (if (c AND 0x02) \<noteq> 0 then
               (let ysv_ext0 = ysb + 1;
                    ysv_ext1 = ysb + 2;
                    dy_ext0 = dy0 - 1 - SQUISH_CONSTANT_3D;
                    dy_ext1 = dy0 - 2 - (SQUISH_CONSTANT_3D * 2)
                in (ysv_ext0, ysv_ext1, dy_ext0, dy_ext1))
             else
               (let ysv_ext1 = ysb;
                    ysv_ext0 = ysv_ext1;
                    dy_ext0 = dy0 - SQUISH_CONSTANT_3D;
                    dy_ext1 = dy0 - (SQUISH_CONSTANT_3D * 2)
                in (ysv_ext0, ysv_ext1, dy_ext0, dy_ext1)));
          (zsv_ext0, zsv_ext1, dz_ext0, dz_ext1) =
            (if (c AND 0x04) \<noteq> 0 then
               (let zsv_ext0 = zsb + 1;
                    zsv_ext1 = zsb + 2;
                    dz_ext0 = dz0 - 1 - SQUISH_CONSTANT_3D;
                    dz_ext1 = dz0 - 2 - (SQUISH_CONSTANT_3D * 2)
                in (zsv_ext0, zsv_ext1, dz_ext0, dz_ext1))
             else
               (let zsv_ext1 = zsb;
                    zsv_ext0 = zsv_ext1;
                    dz_ext0 = dz0 - SQUISH_CONSTANT_3D;
                    dz_ext1 = dz0 - (SQUISH_CONSTANT_3D * 2)
                in (zsv_ext0, zsv_ext1, dz_ext0, dz_ext1)))
      in (xsv_ext0, ysv_ext0, zsv_ext0, xsv_ext1, ysv_ext1, zsv_ext1, dx_ext0, dy_ext0, dz_ext0, dx_ext1, dy_ext1, dz_ext1))"

definition eval3_tetrahedron_far ::
  "c_long \<Rightarrow> c_long \<Rightarrow> c_long \<Rightarrow> real \<Rightarrow>
   real \<Rightarrow> real \<Rightarrow> real \<Rightarrow> real \<Rightarrow>
   real \<Rightarrow> real \<Rightarrow>
   (vertex3 list \<times> c_long \<times> c_long \<times> c_long \<times> c_long \<times> c_long \<times> c_long \<times> real \<times> real \<times> real \<times> real \<times> real \<times> real)" where
  "eval3_tetrahedron_far xsb ysb zsb dx0 dy0 dz0 xins yins zins inSum =
     (let (aScore, aPoint, bScore, bPoint) = eval3_tetrahedron_far_closest xins yins zins;
          wins = 3 - inSum;
          (xsv_ext0, ysv_ext0, zsv_ext0, xsv_ext1, ysv_ext1, zsv_ext1, dx_ext0, dy_ext0, dz_ext0, dx_ext1, dy_ext1, dz_ext1) =
            (if (wins < aScore) \<or> (wins < bScore) then
               (let c = (if bScore < aScore then bPoint else aPoint)
                in eval3_tetrahedron_far_extra_near xsb ysb zsb dx0 dy0 dz0 c)
             else
               (let c = aPoint AND bPoint
                in eval3_tetrahedron_far_extra_far xsb ysb zsb dx0 dy0 dz0 c));
          dx3 = dx0 - 1 - (SQUISH_CONSTANT_3D * 2);
          dy3 = dy0 - 1 - (SQUISH_CONSTANT_3D * 2);
          dz3 = dz0 - (SQUISH_CONSTANT_3D * 2);
          vs = [((xsb + 1, ysb + 1, zsb), (dx3, dy3, dz3))];
          dx2 = dx3;
          dy2 = dy0 - (SQUISH_CONSTANT_3D * 2);
          dz2 = dz0 - 1 - (SQUISH_CONSTANT_3D * 2);
          vs = vs @ [((xsb + 1, ysb, zsb + 1), (dx2, dy2, dz2))];
          dx1 = dx0 - (SQUISH_CONSTANT_3D * 2);
          dy1 = dy3;
          dz1 = dz2;
          vs = vs @ [((xsb, ysb + 1, zsb + 1), (dx1, dy1, dz1))];
          dx0 = dx0 - 1 - (SQUISH_CONSTANT_3D * 3);
          dy0 = dy0 - 1 - (SQUISH_CONSTANT_3D * 3);
          dz0 = dz0 - 1 - (SQUISH_CONSTANT_3D * 3);
          vs = vs @ [((xsb + 1, ysb + 1, zsb + 1), (dx0, dy0, dz0))]
      in (vs, xsv_ext0, ysv_ext0, zsv_ext0, xsv_ext1, ysv_ext1, zsv_ext1, dx_ext0, dy_ext0, dz_ext0, dx_ext1, dy_ext1, dz_ext1))"

definition eval3_vertices ::
  "real \<Rightarrow> real \<Rightarrow> real \<Rightarrow> vertex3 list" where
  "eval3_vertices x y z =
     (let (xsb, ysb, zsb, dx0, dy0, dz0, xins, yins, zins) =
            (let stretchOffset = (x + y + z) * STRETCH_CONSTANT_3D;
                 xs = x + stretchOffset;
                 ys = y + stretchOffset;
                 zs = z + stretchOffset;
                 xsbd = real_of_int \<lfloor>xs\<rfloor>;
                 ysbd = real_of_int \<lfloor>ys\<rfloor>;
                 zsbd = real_of_int \<lfloor>zs\<rfloor>;
                 xsb = to_long xsbd;
                 ysb = to_long ysbd;
                 zsb = to_long zsbd;
                 squishOffset = (xsbd + ysbd + zsbd) * SQUISH_CONSTANT_3D;
                 xb = xsbd + squishOffset;
                 yb = ysbd + squishOffset;
                 zb = zsbd + squishOffset;
                 dx0 = x - xb;
                 dy0 = y - yb;
                 dz0 = z - zb;
                 xins = xs - xsbd;
                 yins = ys - ysbd;
                 zins = zs - zsbd
             in (xsb, ysb, zsb, dx0, dy0, dz0, xins, yins, zins));
          vs = ([] :: vertex3 list);
          inSum = xins + yins + zins;
          (vs, xsv_ext0, ysv_ext0, zsv_ext0, xsv_ext1, ysv_ext1, zsv_ext1, dx_ext0, dy_ext0, dz_ext0, dx_ext1, dy_ext1, dz_ext1) =
            (if (inSum > 1) \<and> (inSum < 2) then
               eval3_octahedron xsb ysb zsb dx0 dy0 dz0 xins yins zins
             else
               (if inSum \<le> 1 then
                  eval3_tetrahedron_origin xsb ysb zsb dx0 dy0 dz0 xins yins zins inSum
                else
                  eval3_tetrahedron_far xsb ysb zsb dx0 dy0 dz0 xins yins zins inSum));
          vs = vs @ [((xsv_ext0, ysv_ext0, zsv_ext0), (dx_ext0, dy_ext0, dz_ext0))]
      in vs @ [((xsv_ext1, ysv_ext1, zsv_ext1), (dx_ext1, dy_ext1, dz_ext1))])"

definition attn3 :: "real \<times> real \<times> real \<Rightarrow> real" where
  "attn3 d = (case d of (dx, dy, dz) \<Rightarrow> (dx * dx) + (dy * dy) + (dz * dz))"

fun accumulate3 :: "'a Noise3_scheme \<Rightarrow> vertex3 list \<Rightarrow> real \<Rightarrow> real option" where
  "accumulate3 n3 [] value = Some value"
| "accumulate3 n3 (((xsv, ysv, zsv), (dx, dy, dz)) # vs) value = do {
     e \<leftarrow> extrapolate3 n3 xsv ysv zsv dx dy dz;
     accumulate3 n3 vs (value + kernel (attn3 (dx, dy, dz)) * e)
   }"

definition eval3 :: "'a Noise3_scheme \<Rightarrow> real \<Rightarrow> real \<Rightarrow> real \<Rightarrow> real option" where
  "eval3 n3 x y z = do {
     value \<leftarrow> accumulate3 n3 (eval3_vertices x y z) 0;
     Some (value / NORM_CONSTANT_3D)
   }"

subsection \<open>4D\<close>

definition STRETCH_CONSTANT_4D :: real where
  "STRETCH_CONSTANT_4D = (1 / sqrt (4 + 1) - 1) * 0.25"

definition SQUISH_CONSTANT_4D :: real where
  "SQUISH_CONSTANT_4D = (sqrt (4 + 1) - 1) * 0.25"

definition NORM_CONSTANT_4D :: real where
  "NORM_CONSTANT_4D = 30"

type_synonym vertex4 =
  "(c_long \<times> c_long \<times> c_long \<times> c_long) \<times> (real \<times> real \<times> real \<times> real)"

text \<open>
  \<open>Noise<4, T>::eval\<close>: one definition for each branch of
  \<open>if (inSum <= 1) ... else if (inSum >= 3) ... else if (inSum <= 2) ... else ...\<close>, then
  the function up to the \<open>return\<close>.
\<close>

definition eval4_pentachoron_origin_closest ::
  "real \<Rightarrow> real \<Rightarrow> real \<Rightarrow> real \<Rightarrow>
   (OSN_BYTE \<times> OSN_BYTE \<times> real \<times> real)" where
  "eval4_pentachoron_origin_closest xins yins zins wins =
     (let aPoint = (0x01 :: OSN_BYTE);
          bPoint = (0x02 :: OSN_BYTE);
          aScore = xins;
          bScore = yins;
          (aPoint, bPoint, aScore, bScore) =
            (if (aScore \<ge> bScore) \<and> (zins > bScore) then
               (let bPoint = (0x04 :: OSN_BYTE);
                    bScore = zins
                in (aPoint, bPoint, aScore, bScore))
             else
               (if (aScore < bScore) \<and> (zins > aScore) then
                  (let aPoint = (0x04 :: OSN_BYTE);
                       aScore = zins
                   in (aPoint, bPoint, aScore, bScore))
                else
                  (aPoint, bPoint, aScore, bScore)))
      in
         (if (aScore \<ge> bScore) \<and> (wins > bScore) then
            (let bPoint = (0x08 :: OSN_BYTE);
                 bScore = wins
             in (aPoint, bPoint, aScore, bScore))
          else
            (if (aScore < bScore) \<and> (wins > aScore) then
               (let aPoint = (0x08 :: OSN_BYTE);
                    aScore = wins
                in (aPoint, bPoint, aScore, bScore))
             else
               (aPoint, bPoint, aScore, bScore))))"

definition eval4_pentachoron_origin_extra_near ::
  "real \<Rightarrow> real \<Rightarrow> real \<Rightarrow> real \<Rightarrow>
   c_long \<Rightarrow> c_long \<Rightarrow> c_long \<Rightarrow> c_long \<Rightarrow>
   OSN_BYTE \<Rightarrow>
   (c_long \<times> c_long \<times> c_long \<times> c_long \<times> c_long \<times> c_long \<times> c_long \<times> c_long \<times> c_long \<times> c_long \<times> c_long \<times> c_long \<times> real \<times> real \<times> real \<times> real \<times> real \<times> real \<times> real \<times> real \<times> real \<times> real \<times> real \<times> real)" where
  "eval4_pentachoron_origin_extra_near dx0 dy0 dz0 dw0 xsb ysb zsb wsb c =
     (let (xsv_ext0, xsv_ext1, xsv_ext2, dx_ext0, dx_ext1, dx_ext2) =
            (if c \<noteq> 0x01 then
               (let xsv_ext0 = xsb - 1;
                    xsv_ext2 = xsb;
                    xsv_ext1 = xsv_ext2;
                    dx_ext0 = dx0 + 1;
                    dx_ext2 = dx0;
                    dx_ext1 = dx_ext2
                in (xsv_ext0, xsv_ext1, xsv_ext2, dx_ext0, dx_ext1, dx_ext2))
             else
               (let xsv_ext2 = xsb + 1;
                    xsv_ext1 = xsv_ext2;
                    xsv_ext0 = xsv_ext1;
                    dx_ext2 = dx0 - 1;
                    dx_ext1 = dx_ext2;
                    dx_ext0 = dx_ext1
                in (xsv_ext0, xsv_ext1, xsv_ext2, dx_ext0, dx_ext1, dx_ext2)));
          (ysv_ext0, ysv_ext1, ysv_ext2, dy_ext0, dy_ext1, dy_ext2) =
            (if c \<noteq> 0x02 then
               (let ysv_ext2 = ysb;
                    ysv_ext1 = ysv_ext2;
                    ysv_ext0 = ysv_ext1;
                    dy_ext2 = dy0;
                    dy_ext1 = dy_ext2;
                    dy_ext0 = dy_ext1;
                    (ysv_ext0, ysv_ext1, dy_ext0, dy_ext1) =
                      (if c \<noteq> 0x01 then
                         (let ysv_ext1 = ysv_ext1 - 1;
                              dy_ext1 = dy_ext1 + 1
                          in (ysv_ext0, ysv_ext1, dy_ext0, dy_ext1))
                       else
                         (let ysv_ext0 = ysv_ext0 - 1;
                              dy_ext0 = dy_ext0 + 1
                          in (ysv_ext0, ysv_ext1, dy_ext0, dy_ext1)))
                in (ysv_ext0, ysv_ext1, ysv_ext2, dy_ext0, dy_ext1, dy_ext2))
             else
               (let ysv_ext2 = ysb + 1;
                    ysv_ext1 = ysv_ext2;
                    ysv_ext0 = ysv_ext1;
                    dy_ext2 = dy0 - 1;
                    dy_ext1 = dy_ext2;
                    dy_ext0 = dy_ext1
                in (ysv_ext0, ysv_ext1, ysv_ext2, dy_ext0, dy_ext1, dy_ext2)));
          (zsv_ext0, zsv_ext1, zsv_ext2, dz_ext0, dz_ext1, dz_ext2) =
            (if c \<noteq> 0x04 then
               (let zsv_ext2 = zsb;
                    zsv_ext1 = zsv_ext2;
                    zsv_ext0 = zsv_ext1;
                    dz_ext2 = dz0;
                    dz_ext1 = dz_ext2;
                    dz_ext0 = dz_ext1;
                    (zsv_ext1, zsv_ext2, dz_ext1, dz_ext2) =
                      (if (c AND 0x03) \<noteq> 0 then
                         (let zsv_ext1 = zsv_ext1 - 1;
                              dz_ext1 = dz_ext1 + 1
                          in (zsv_ext1, zsv_ext2, dz_ext1, dz_ext2))
                       else
                         (let zsv_ext2 = zsv_ext2 - 1;
                              dz_ext2 = dz_ext2 + 1
                          in (zsv_ext1, zsv_ext2, dz_ext1, dz_ext2)))
                in (zsv_ext0, zsv_ext1, zsv_ext2, dz_ext0, dz_ext1, dz_ext2))
             else
               (let zsv_ext2 = zsb + 1;
                    zsv_ext1 = zsv_ext2;
                    zsv_ext0 = zsv_ext1;
                    dz_ext2 = dz0 - 1;
                    dz_ext1 = dz_ext2;
                    dz_ext0 = dz_ext1
                in (zsv_ext0, zsv_ext1, zsv_ext2, dz_ext0, dz_ext1, dz_ext2)));
          (wsv_ext0, wsv_ext1, wsv_ext2, dw_ext0, dw_ext1, dw_ext2) =
            (if c \<noteq> 0x08 then
               (let wsv_ext1 = wsb;
                    wsv_ext0 = wsv_ext1;
                    wsv_ext2 = wsb - 1;
                    dw_ext1 = dw0;
                    dw_ext0 = dw_ext1;
                    dw_ext2 = dw0 + 1
                in (wsv_ext0, wsv_ext1, wsv_ext2, dw_ext0, dw_ext1, dw_ext2))
             else
               (let wsv_ext2 = wsb + 1;
                    wsv_ext1 = wsv_ext2;
                    wsv_ext0 = wsv_ext1;
                    dw_ext2 = dw0 - 1;
                    dw_ext1 = dw_ext2;
                    dw_ext0 = dw_ext1
                in (wsv_ext0, wsv_ext1, wsv_ext2, dw_ext0, dw_ext1, dw_ext2)))
      in (xsv_ext0, ysv_ext0, zsv_ext0, wsv_ext0, xsv_ext1, ysv_ext1, zsv_ext1, wsv_ext1, xsv_ext2, ysv_ext2, zsv_ext2, wsv_ext2, dx_ext0, dy_ext0, dz_ext0, dw_ext0, dx_ext1, dy_ext1, dz_ext1, dw_ext1, dx_ext2, dy_ext2, dz_ext2, dw_ext2))"

definition eval4_pentachoron_origin_extra_far ::
  "real \<Rightarrow> real \<Rightarrow> real \<Rightarrow> real \<Rightarrow>
   c_long \<Rightarrow> c_long \<Rightarrow> c_long \<Rightarrow> c_long \<Rightarrow>
   OSN_BYTE \<Rightarrow>
   (c_long \<times> c_long \<times> c_long \<times> c_long \<times> c_long \<times> c_long \<times> c_long \<times> c_long \<times> c_long \<times> c_long \<times> c_long \<times> c_long \<times> real \<times> real \<times> real \<times> real \<times> real \<times> real \<times> real \<times> real \<times> real \<times> real \<times> real \<times> real)" where
  "eval4_pentachoron_origin_extra_far dx0 dy0 dz0 dw0 xsb ysb zsb wsb c =
     (let (xsv_ext0, xsv_ext1, xsv_ext2, dx_ext0, dx_ext1, dx_ext2) =
            (if \<not> ((c AND 0x01) \<noteq> 0) then
               (let xsv_ext2 = xsb;
                    xsv_ext0 = xsv_ext2;
                    xsv_ext1 = xsb - 1;
                    dx_ext0 = dx0 - (SQUISH_CONSTANT_4D * 2);
                    dx_ext1 = dx0 + 1 - SQUISH_CONSTANT_4D;
                    dx_ext2 = dx0 - SQUISH_CONSTANT_4D
                in (xsv_ext0, xsv_ext1, xsv_ext2, dx_ext0, dx_ext1, dx_ext2))
             else
               (let xsv_ext2 = xsb + 1;
                    xsv_ext1 = xsv_ext2;
                    xsv_ext0 = xsv_ext1;
                    dx_ext0 = dx0 - 1 - (SQUISH_CONSTANT_4D * 2);
                    dx_ext2 = dx0 - 1 - SQUISH_CONSTANT_4D;
                    dx_ext1 = dx_ext2
                in (xsv_ext0, xsv_ext1, xsv_ext2, dx_ext0, dx_ext1, dx_ext2)));
          (ysv_ext0, ysv_ext1, ysv_ext2, dy_ext0, dy_ext1, dy_ext2) =
            (if \<not> ((c AND 0x02) \<noteq> 0) then
               (let ysv_ext2 = ysb;
                    ysv_ext1 = ysv_ext2;
                    ysv_ext0 = ysv_ext1;
                    dy_ext0 = dy0 - (SQUISH_CONSTANT_4D * 2);
                    dy_ext2 = dy0 - SQUISH_CONSTANT_4D;
                    dy_ext1 = dy_ext2;
                    (ysv_ext1, ysv_ext2, dy_ext1, dy_ext2) =
                      (if (c AND 0x01) \<noteq> 0 then
                         (let ysv_ext1 = ysv_ext1 - 1;
                              dy_ext1 = dy_ext1 + 1
                          in (ysv_ext1, ysv_ext2, dy_ext1, dy_ext2))
                       else
                         (let ysv_ext2 = ysv_ext2 - 1;
                              dy_ext2 = dy_ext2 + 1
                          in (ysv_ext1, ysv_ext2, dy_ext1, dy_ext2)))
                in (ysv_ext0, ysv_ext1, ysv_ext2, dy_ext0, dy_ext1, dy_ext2))
             else
               (let ysv_ext2 = ysb + 1;
                    ysv_ext1 = ysv_ext2;
                    ysv_ext0 = ysv_ext1;
                    dy_ext0 = dy0 - 1 - (SQUISH_CONSTANT_4D * 2);
                    dy_ext2 = dy0 - 1 - SQUISH_CONSTANT_4D;
                    dy_ext1 = dy_ext2
                in (ysv_ext0, ysv_ext1, ysv_ext2, dy_ext0, dy_ext1, dy_ext2)));
          (zsv_ext0, zsv_ext1, zsv_ext2, dz_ext0, dz_ext1, dz_ext2) =
            (if \<not> ((c AND 0x04) \<noteq> 0) then
               (let zsv_ext2 = zsb;
                    zsv_ext1 = zsv_ext2;
                    zsv_ext0 = zsv_ext1;
                    dz_ext0 = dz0 - (SQUISH_CONSTANT_4D * 2);
                    dz_ext2 = dz0 - SQUISH_CONSTANT_4D;
                    dz_ext1 = dz_ext2;
                    (zsv_ext1, zsv_ext2, dz_ext1, dz_ext2) =
                      (if (c AND 0x03) \<noteq> 0 then
                         (let zsv_ext1 = zsv_ext1 - 1;
                              dz_ext1 = dz_ext1 + 1
                          in (zsv_ext1, zsv_ext2, dz_ext1, dz_ext2))
                       else
                         (let zsv_ext2 = zsv_ext2 - 1;
                              dz_ext2 = dz_ext2 + 1
                          in (zsv_ext1, zsv_ext2, dz_ext1, dz_ext2)))
                in (zsv_ext0, zsv_ext1, zsv_ext2, dz_ext0, dz_ext1, dz_ext2))
             else
               (let zsv_ext2 = zsb + 1;
                    zsv_ext1 = zsv_ext2;
                    zsv_ext0 = zsv_ext1;
                    dz_ext0 = dz0 - 1 - (SQUISH_CONSTANT_4D * 2);
                    dz_ext2 = dz0 - 1 - SQUISH_CONSTANT_4D;
                    dz_ext1 = dz_ext2
                in (zsv_ext0, zsv_ext1, zsv_ext2, dz_ext0, dz_ext1, dz_ext2)));
          (wsv_ext0, wsv_ext1, wsv_ext2, dw_ext0, dw_ext1, dw_ext2) =
            (if \<not> ((c AND 0x08) \<noteq> 0) then
               (let wsv_ext1 = wsb;
                    wsv_ext0 = wsv_ext1;
                    wsv_ext2 = wsb - 1;
                    dw_ext0 = dw0 - (SQUISH_CONSTANT_4D * 2);
                    dw_ext1 = dw0 - SQUISH_CONSTANT_4D;
                    dw_ext2 = dw0 + 1 - SQUISH_CONSTANT_4D
                in (wsv_ext0, wsv_ext1, wsv_ext2, dw_ext0, dw_ext1, dw_ext2))
             else
               (let wsv_ext2 = wsb + 1;
                    wsv_ext1 = wsv_ext2;
                    wsv_ext0 = wsv_ext1;
                    dw_ext0 = dw0 - 1 - (SQUISH_CONSTANT_4D * 2);
                    dw_ext2 = dw0 - 1 - SQUISH_CONSTANT_4D;
                    dw_ext1 = dw_ext2
                in (wsv_ext0, wsv_ext1, wsv_ext2, dw_ext0, dw_ext1, dw_ext2)))
      in (xsv_ext0, ysv_ext0, zsv_ext0, wsv_ext0, xsv_ext1, ysv_ext1, zsv_ext1, wsv_ext1, xsv_ext2, ysv_ext2, zsv_ext2, wsv_ext2, dx_ext0, dy_ext0, dz_ext0, dw_ext0, dx_ext1, dy_ext1, dz_ext1, dw_ext1, dx_ext2, dy_ext2, dz_ext2, dw_ext2))"

definition eval4_pentachoron_origin ::
  "real \<Rightarrow> real \<Rightarrow> real \<Rightarrow> real \<Rightarrow>
   c_long \<Rightarrow> c_long \<Rightarrow> c_long \<Rightarrow> c_long \<Rightarrow>
   real \<Rightarrow> real \<Rightarrow> real \<Rightarrow> real \<Rightarrow>
   real \<Rightarrow>
   (vertex4 list \<times> c_long \<times> c_long \<times> c_long \<times> c_long \<times> c_long \<times> c_long \<times> c_long \<times> c_long \<times> c_long \<times> c_long \<times> c_long \<times> c_long \<times> real \<times> real \<times> real \<times> real \<times> real \<times> real \<times> real \<times> real \<times> real \<times> real \<times> real \<times> real)" where
  "eval4_pentachoron_origin dx0 dy0 dz0 dw0 xsb ysb zsb wsb xins yins zins wins inSum =
     (let (aPoint, bPoint, aScore, bScore) = eval4_pentachoron_origin_closest xins yins zins wins;
          uins = 1 - inSum;
          (xsv_ext0, ysv_ext0, zsv_ext0, wsv_ext0, xsv_ext1, ysv_ext1, zsv_ext1, wsv_ext1, xsv_ext2, ysv_ext2, zsv_ext2, wsv_ext2, dx_ext0, dy_ext0, dz_ext0, dw_ext0, dx_ext1, dy_ext1, dz_ext1, dw_ext1, dx_ext2, dy_ext2, dz_ext2, dw_ext2) =
            (if (uins > aScore) \<or> (uins > bScore) then
               (let c = (if bScore > aScore then bPoint else aPoint)
                in eval4_pentachoron_origin_extra_near dx0 dy0 dz0 dw0 xsb ysb zsb wsb c)
             else
               (let c = aPoint OR bPoint
                in eval4_pentachoron_origin_extra_far dx0 dy0 dz0 dw0 xsb ysb zsb wsb c));
          vs = [((xsb, ysb, zsb, wsb), (dx0, dy0, dz0, dw0))];
          dx1 = dx0 - 1 - SQUISH_CONSTANT_4D;
          dy1 = dy0 - SQUISH_CONSTANT_4D;
          dz1 = dz0 - SQUISH_CONSTANT_4D;
          dw1 = dw0 - SQUISH_CONSTANT_4D;
          vs = vs @ [((xsb + 1, ysb, zsb, wsb), (dx1, dy1, dz1, dw1))];
          dx2 = dx0 - SQUISH_CONSTANT_4D;
          dy2 = dy0 - 1 - SQUISH_CONSTANT_4D;
          dz2 = dz1;
          dw2 = dw1;
          vs = vs @ [((xsb, ysb + 1, zsb, wsb), (dx2, dy2, dz2, dw2))];
          dx3 = dx2;
          dy3 = dy1;
          dz3 = dz0 - 1 - SQUISH_CONSTANT_4D;
          dw3 = dw1;
          vs = vs @ [((xsb, ysb, zsb + 1, wsb), (dx3, dy3, dz3, dw3))];
          dx4 = dx2;
          dy4 = dy1;
          dz4 = dz1;
          dw4 = dw0 - 1 - SQUISH_CONSTANT_4D;
          vs = vs @ [((xsb, ysb, zsb, wsb + 1), (dx4, dy4, dz4, dw4))]
      in (vs, xsv_ext0, ysv_ext0, zsv_ext0, wsv_ext0, xsv_ext1, ysv_ext1, zsv_ext1, wsv_ext1, xsv_ext2, ysv_ext2, zsv_ext2, wsv_ext2, dx_ext0, dy_ext0, dz_ext0, dw_ext0, dx_ext1, dy_ext1, dz_ext1, dw_ext1, dx_ext2, dy_ext2, dz_ext2, dw_ext2))"

definition eval4_pentachoron_far_closest ::
  "real \<Rightarrow> real \<Rightarrow> real \<Rightarrow> real \<Rightarrow>
   (OSN_BYTE \<times> OSN_BYTE \<times> real \<times> real)" where
  "eval4_pentachoron_far_closest xins yins zins wins =
     (let aPoint = (0x0E :: OSN_BYTE);
          aScore = xins;
          bPoint = (0x0D :: OSN_BYTE);
          bScore = yins;
          (aPoint, bPoint, aScore, bScore) =
            (if (aScore \<le> bScore) \<and> (zins < bScore) then
               (let bPoint = (0x0B :: OSN_BYTE);
                    bScore = zins
                in (aPoint, bPoint, aScore, bScore))
             else
               (if (aScore > bScore) \<and> (zins < aScore) then
                  (let aPoint = (0x0B :: OSN_BYTE);
                       aScore = zins
                   in (aPoint, bPoint, aScore, bScore))
                else
                  (aPoint, bPoint, aScore, bScore)))
      in
         (if (aScore \<le> bScore) \<and> (wins < bScore) then
            (let bPoint = (0x07 :: OSN_BYTE);
                 bScore = wins
             in (aPoint, bPoint, aScore, bScore))
          else
            (if (aScore > bScore) \<and> (wins < aScore) then
               (let aPoint = (0x07 :: OSN_BYTE);
                    aScore = wins
                in (aPoint, bPoint, aScore, bScore))
             else
               (aPoint, bPoint, aScore, bScore))))"

definition eval4_pentachoron_far_extra_near ::
  "real \<Rightarrow> real \<Rightarrow> real \<Rightarrow> real \<Rightarrow>
   c_long \<Rightarrow> c_long \<Rightarrow> c_long \<Rightarrow> c_long \<Rightarrow>
   OSN_BYTE \<Rightarrow>
   (c_long \<times> c_long \<times> c_long \<times> c_long \<times> c_long \<times> c_long \<times> c_long \<times> c_long \<times> c_long \<times> c_long \<times> c_long \<times> c_long \<times> real \<times> real \<times> real \<times> real \<times> real \<times> real \<times> real \<times> real \<times> real \<times> real \<times> real \<times> real)" where
  "eval4_pentachoron_far_extra_near dx0 dy0 dz0 dw0 xsb ysb zsb wsb c =
     (let (xsv_ext0, xsv_ext1, xsv_ext2, dx_ext0, dx_ext1, dx_ext2) =
            (if (c AND 0x01) \<noteq> 0 then
               (let xsv_ext0 = xsb + 2;
                    xsv_ext2 = xsb + 1;
                    xsv_ext1 = xsv_ext2;
                    dx_ext0 = dx0 - 2 - (SQUISH_CONSTANT_4D * 4);
                    dx_ext2 = dx0 - 1 - (SQUISH_CONSTANT_4D * 4);
                    dx_ext1 = dx_ext2
                in (xsv_ext0, xsv_ext1, xsv_ext2, dx_ext0, dx_ext1, dx_ext2))
             else
               (let xsv_ext2 = xsb;
                    xsv_ext1 = xsv_ext2;
                    xsv_ext0 = xsv_ext1;
                    dx_ext2 = dx0 - (SQUISH_CONSTANT_4D * 4);
                    dx_ext1 = dx_ext2;
                    dx_ext0 = dx_ext1
                in (xsv_ext0, xsv_ext1, xsv_ext2, dx_ext0, dx_ext1, dx_ext2)));
          (ysv_ext0, ysv_ext1, ysv_ext2, dy_ext0, dy_ext1, dy_ext2) =
            (if (c AND 0x02) \<noteq> 0 then
               (let ysv_ext2 = ysb + 1;
                    ysv_ext1 = ysv_ext2;
                    ysv_ext0 = ysv_ext1;
                    dy_ext2 = dy0 - 1 - (SQUISH_CONSTANT_4D * 4);
                    dy_ext1 = dy_ext2;
                    dy_ext0 = dy_ext1;
                    (ysv_ext0, ysv_ext1, dy_ext0, dy_ext1) =
                      (if (c AND 0x01) \<noteq> 0 then
                         (let ysv_ext1 = ysv_ext1 + 1;
                              dy_ext1 = dy_ext1 - 1
                          in (ysv_ext0, ysv_ext1, dy_ext0, dy_ext1))
                       else
                         (let ysv_ext0 = ysv_ext0 + 1;
                              dy_ext0 = dy_ext0 - 1
                          in (ysv_ext0, ysv_ext1, dy_ext0, dy_ext1)))
                in (ysv_ext0, ysv_ext1, ysv_ext2, dy_ext0, dy_ext1, dy_ext2))
             else
               (let ysv_ext2 = ysb;
                    ysv_ext1 = ysv_ext2;
                    ysv_ext0 = ysv_ext1;
                    dy_ext2 = dy0 - (SQUISH_CONSTANT_4D * 4);
                    dy_ext1 = dy_ext2;
                    dy_ext0 = dy_ext1
                in (ysv_ext0, ysv_ext1, ysv_ext2, dy_ext0, dy_ext1, dy_ext2)));
          (zsv_ext0, zsv_ext1, zsv_ext2, dz_ext0, dz_ext1, dz_ext2) =
            (if (c AND 0x04) \<noteq> 0 then
               (let zsv_ext2 = zsb + 1;
                    zsv_ext1 = zsv_ext2;
                    zsv_ext0 = zsv_ext1;
                    dz_ext2 = dz0 - 1 - (SQUISH_CONSTANT_4D * 4);
                    dz_ext1 = dz_ext2;
                    dz_ext0 = dz_ext1
                in
                   (if (c AND 0x03) \<noteq> 0x03 then
                      (let (zsv_ext0, zsv_ext1, dz_ext0, dz_ext1) =
                             (if \<not> ((c AND 0x03) \<noteq> 0) then
                                (let zsv_ext0 = zsv_ext0 + 1;
                                     dz_ext0 = dz_ext0 - 1
                                 in (zsv_ext0, zsv_ext1, dz_ext0, dz_ext1))
                              else
                                (let zsv_ext1 = zsv_ext1 + 1;
                                     dz_ext1 = dz_ext1 - 1
                                 in (zsv_ext0, zsv_ext1, dz_ext0, dz_ext1)))
                       in (zsv_ext0, zsv_ext1, zsv_ext2, dz_ext0, dz_ext1, dz_ext2))
                    else
                      (let zsv_ext2 = zsv_ext2 + 1;
                           dz_ext2 = dz_ext2 - 1
                       in (zsv_ext0, zsv_ext1, zsv_ext2, dz_ext0, dz_ext1, dz_ext2))))
             else
               (let zsv_ext2 = zsb;
                    zsv_ext1 = zsv_ext2;
                    zsv_ext0 = zsv_ext1;
                    dz_ext2 = dz0 - (SQUISH_CONSTANT_4D * 4);
                    dz_ext1 = dz_ext2;
                    dz_ext0 = dz_ext1
                in (zsv_ext0, zsv_ext1, zsv_ext2, dz_ext0, dz_ext1, dz_ext2)));
          (wsv_ext0, wsv_ext1, wsv_ext2, dw_ext0, dw_ext1, dw_ext2) =
            (if (c AND 0x08) \<noteq> 0 then
               (let wsv_ext1 = wsb + 1;
                    wsv_ext0 = wsv_ext1;
                    wsv_ext2 = wsb + 2;
                    dw_ext1 = dw0 - 1 - (SQUISH_CONSTANT_4D * 4);
                    dw_ext0 = dw_ext1;
                    dw_ext2 = dw0 - 2 - (SQUISH_CONSTANT_4D * 4)
                in (wsv_ext0, wsv_ext1, wsv_ext2, dw_ext0, dw_ext1, dw_ext2))
             else
               (let wsv_ext2 = wsb;
                    wsv_ext1 = wsv_ext2;
                    wsv_ext0 = wsv_ext1;
                    dw_ext2 = dw0 - (SQUISH_CONSTANT_4D * 4);
                    dw_ext1 = dw_ext2;
                    dw_ext0 = dw_ext1
                in (wsv_ext0, wsv_ext1, wsv_ext2, dw_ext0, dw_ext1, dw_ext2)))
      in (xsv_ext0, ysv_ext0, zsv_ext0, wsv_ext0, xsv_ext1, ysv_ext1, zsv_ext1, wsv_ext1, xsv_ext2, ysv_ext2, zsv_ext2, wsv_ext2, dx_ext0, dy_ext0, dz_ext0, dw_ext0, dx_ext1, dy_ext1, dz_ext1, dw_ext1, dx_ext2, dy_ext2, dz_ext2, dw_ext2))"

definition eval4_pentachoron_far_extra_far ::
  "real \<Rightarrow> real \<Rightarrow> real \<Rightarrow> real \<Rightarrow>
   c_long \<Rightarrow> c_long \<Rightarrow> c_long \<Rightarrow> c_long \<Rightarrow>
   OSN_BYTE \<Rightarrow>
   (c_long \<times> c_long \<times> c_long \<times> c_long \<times> c_long \<times> c_long \<times> c_long \<times> c_long \<times> c_long \<times> c_long \<times> c_long \<times> c_long \<times> real \<times> real \<times> real \<times> real \<times> real \<times> real \<times> real \<times> real \<times> real \<times> real \<times> real \<times> real)" where
  "eval4_pentachoron_far_extra_far dx0 dy0 dz0 dw0 xsb ysb zsb wsb c =
     (let (xsv_ext0, xsv_ext1, xsv_ext2, dx_ext0, dx_ext1, dx_ext2) =
            (if (c AND 0x01) \<noteq> 0 then
               (let xsv_ext2 = xsb + 1;
                    xsv_ext0 = xsv_ext2;
                    xsv_ext1 = xsb + 2;
                    dx_ext0 = dx0 - 1 - (SQUISH_CONSTANT_4D * 2);
                    dx_ext1 = dx0 - 2 - (SQUISH_CONSTANT_4D * 3);
                    dx_ext2 = dx0 - 1 - (SQUISH_CONSTANT_4D * 3)
                in (xsv_ext0, xsv_ext1, xsv_ext2, dx_ext0, dx_ext1, dx_ext2))
             else
               (let xsv_ext2 = xsb;
                    xsv_ext1 = xsv_ext2;
                    xsv_ext0 = xsv_ext1;
                    dx_ext0 = dx0 - (SQUISH_CONSTANT_4D * 2);
                    dx_ext2 = dx0 - (SQUISH_CONSTANT_4D * 3);
                    dx_ext1 = dx_ext2
                in (xsv_ext0, xsv_ext1, xsv_ext2, dx_ext0, dx_ext1, dx_ext2)));
          (ysv_ext0, ysv_ext1, ysv_ext2, dy_ext0, dy_ext1, dy_ext2) =
            (if (c AND 0x02) \<noteq> 0 then
               (let ysv_ext2 = ysb + 1;
                    ysv_ext1 = ysv_ext2;
                    ysv_ext0 = ysv_ext1;
                    dy_ext0 = dy0 - 1 - (SQUISH_CONSTANT_4D * 2);
                    dy_ext2 = dy0 - 1 - (SQUISH_CONSTANT_4D * 3);
                    dy_ext1 = dy_ext2;
                    (ysv_ext1, ysv_ext2, dy_ext1, dy_ext2) =
                      (if (c AND 0x01) \<noteq> 0 then
                         (let ysv_ext2 = ysv_ext2 + 1;
                              dy_ext2 = dy_ext2 - 1
                          in (ysv_ext1, ysv_ext2, dy_ext1, dy_ext2))
                       else
                         (let ysv_ext1 = ysv_ext1 + 1;
                              dy_ext1 = dy_ext1 - 1
                          in (ysv_ext1, ysv_ext2, dy_ext1, dy_ext2)))
                in (ysv_ext0, ysv_ext1, ysv_ext2, dy_ext0, dy_ext1, dy_ext2))
             else
               (let ysv_ext2 = ysb;
                    ysv_ext1 = ysv_ext2;
                    ysv_ext0 = ysv_ext1;
                    dy_ext0 = dy0 - (SQUISH_CONSTANT_4D * 2);
                    dy_ext2 = dy0 - (SQUISH_CONSTANT_4D * 3);
                    dy_ext1 = dy_ext2
                in (ysv_ext0, ysv_ext1, ysv_ext2, dy_ext0, dy_ext1, dy_ext2)));
          (zsv_ext0, zsv_ext1, zsv_ext2, dz_ext0, dz_ext1, dz_ext2) =
            (if (c AND 0x04) \<noteq> 0 then
               (let zsv_ext2 = zsb + 1;
                    zsv_ext1 = zsv_ext2;
                    zsv_ext0 = zsv_ext1;
                    dz_ext0 = dz0 - 1 - (SQUISH_CONSTANT_4D * 2);
                    dz_ext2 = dz0 - 1 - (SQUISH_CONSTANT_4D * 3);
                    dz_ext1 = dz_ext2;
                    (zsv_ext1, zsv_ext2, dz_ext1, dz_ext2) =
                      (if (c AND 0x03) \<noteq> 0 then
                         (let zsv_ext2 = zsv_ext2 + 1;
                              dz_ext2 = dz_ext2 - 1
                          in (zsv_ext1, zsv_ext2, dz_ext1, dz_ext2))
                       else
                         (let zsv_ext1 = zsv_ext1 + 1;
                              dz_ext1 = dz_ext1 - 1
                          in (zsv_ext1, zsv_ext2, dz_ext1, dz_ext2)))
                in (zsv_ext0, zsv_ext1, zsv_ext2, dz_ext0, dz_ext1, dz_ext2))
             else
               (let zsv_ext2 = zsb;
                    zsv_ext1 = zsv_ext2;
                    zsv_ext0 = zsv_ext1;
                    dz_ext0 = dz0 - (SQUISH_CONSTANT_4D * 2);
                    dz_ext2 = dz0 - (SQUISH_CONSTANT_4D * 3);
                    dz_ext1 = dz_ext2
                in (zsv_ext0, zsv_ext1, zsv_ext2, dz_ext0, dz_ext1, dz_ext2)));
          (wsv_ext0, wsv_ext1, wsv_ext2, dw_ext0, dw_ext1, dw_ext2) =
            (if (c AND 0x08) \<noteq> 0 then
               (let wsv_ext1 = wsb + 1;
                    wsv_ext0 = wsv_ext1;
                    wsv_ext2 = wsb + 2;
                    dw_ext0 = dw0 - 1 - (SQUISH_CONSTANT_4D * 2);
                    dw_ext1 = dw0 - 1 - (SQUISH_CONSTANT_4D * 3);
                    dw_ext2 = dw0 - 2 - (SQUISH_CONSTANT_4D * 3)
                in (wsv_ext0, wsv_ext1, wsv_ext2, dw_ext0, dw_ext1, dw_ext2))
             else
               (let wsv_ext2 = wsb;
                    wsv_ext1 = wsv_ext2;
                    wsv_ext0 = wsv_ext1;
                    dw_ext0 = dw0 - (SQUISH_CONSTANT_4D * 2);
                    dw_ext2 = dw0 - (SQUISH_CONSTANT_4D * 3);
                    dw_ext1 = dw_ext2
                in (wsv_ext0, wsv_ext1, wsv_ext2, dw_ext0, dw_ext1, dw_ext2)))
      in (xsv_ext0, ysv_ext0, zsv_ext0, wsv_ext0, xsv_ext1, ysv_ext1, zsv_ext1, wsv_ext1, xsv_ext2, ysv_ext2, zsv_ext2, wsv_ext2, dx_ext0, dy_ext0, dz_ext0, dw_ext0, dx_ext1, dy_ext1, dz_ext1, dw_ext1, dx_ext2, dy_ext2, dz_ext2, dw_ext2))"

definition eval4_pentachoron_far ::
  "real \<Rightarrow> real \<Rightarrow> real \<Rightarrow> real \<Rightarrow>
   c_long \<Rightarrow> c_long \<Rightarrow> c_long \<Rightarrow> c_long \<Rightarrow>
   real \<Rightarrow> real \<Rightarrow> real \<Rightarrow> real \<Rightarrow>
   real \<Rightarrow>
   (vertex4 list \<times> c_long \<times> c_long \<times> c_long \<times> c_long \<times> c_long \<times> c_long \<times> c_long \<times> c_long \<times> c_long \<times> c_long \<times> c_long \<times> c_long \<times> real \<times> real \<times> real \<times> real \<times> real \<times> real \<times> real \<times> real \<times> real \<times> real \<times> real \<times> real)" where
  "eval4_pentachoron_far dx0 dy0 dz0 dw0 xsb ysb zsb wsb xins yins zins wins inSum =
     (let (aPoint, bPoint, aScore, bScore) = eval4_pentachoron_far_closest xins yins zins wins;
          uins = 4 - inSum;
          (xsv_ext0, ysv_ext0, zsv_ext0, wsv_ext0, xsv_ext1, ysv_ext1, zsv_ext1, wsv_ext1, xsv_ext2, ysv_ext2, zsv_ext2, wsv_ext2, dx_ext0, dy_ext0, dz_ext0, dw_ext0, dx_ext1, dy_ext1, dz_ext1, dw_ext1, dx_ext2, dy_ext2, dz_ext2, dw_ext2) =
            (if (uins < aScore) \<or> (uins < bScore) then
               (let c = (if bScore < aScore then bPoint else aPoint)
                in eval4_pentachoron_far_extra_near dx0 dy0 dz0 dw0 xsb ysb zsb wsb c)
             else
               (let c = aPoint AND bPoint
                in eval4_pentachoron_far_extra_far dx0 dy0 dz0 dw0 xsb ysb zsb wsb c));
          dx4 = dx0 - 1 - (SQUISH_CONSTANT_4D * 3);
          dy4 = dy0 - 1 - (SQUISH_CONSTANT_4D * 3);
          dz4 = dz0 - 1 - (SQUISH_CONSTANT_4D * 3);
          dw4 = dw0 - (SQUISH_CONSTANT_4D * 3);
          vs = [((xsb + 1, ysb + 1, zsb + 1, wsb), (dx4, dy4, dz4, dw4))];
          dx3 = dx4;
          dy3 = dy4;
          dz3 = dz0 - (SQUISH_CONSTANT_4D * 3);
          dw3 = dw0 - 1 - (SQUISH_CONSTANT_4D * 3);
          vs = vs @ [((xsb + 1, ysb + 1, zsb, wsb + 1), (dx3, dy3, dz3, dw3))];
          dx2 = dx4;
          dy2 = dy0 - (SQUISH_CONSTANT_4D * 3);
          dz2 = dz4;
          dw2 = dw3;
          vs = vs @ [((xsb + 1, ysb, zsb + 1, wsb + 1), (dx2, dy2, dz2, dw2))];
          dx1 = dx0 - (SQUISH_CONSTANT_4D * 3);
          dy1 = dy4;
          dz1 = dz4;
          dw1 = dw3;
          vs = vs @ [((xsb, ysb + 1, zsb + 1, wsb + 1), (dx1, dy1, dz1, dw1))];
          dx0 = dx0 - 1 - (SQUISH_CONSTANT_4D * 4);
          dy0 = dy0 - 1 - (SQUISH_CONSTANT_4D * 4);
          dz0 = dz0 - 1 - (SQUISH_CONSTANT_4D * 4);
          dw0 = dw0 - 1 - (SQUISH_CONSTANT_4D * 4);
          vs = vs @ [((xsb + 1, ysb + 1, zsb + 1, wsb + 1), (dx0, dy0, dz0, dw0))]
      in (vs, xsv_ext0, ysv_ext0, zsv_ext0, wsv_ext0, xsv_ext1, ysv_ext1, zsv_ext1, wsv_ext1, xsv_ext2, ysv_ext2, zsv_ext2, wsv_ext2, dx_ext0, dy_ext0, dz_ext0, dw_ext0, dx_ext1, dy_ext1, dz_ext1, dw_ext1, dx_ext2, dy_ext2, dz_ext2, dw_ext2))"

definition eval4_dispentachoron_first_pairs ::
  "real \<Rightarrow> real \<Rightarrow> real \<Rightarrow> real \<Rightarrow>
   (OSN_BYTE \<times> OSN_BYTE \<times> real \<times> real \<times> bool \<times> bool)" where
  "eval4_dispentachoron_first_pairs xins yins zins wins =
     (let aIsBiggerSide = True;
          bIsBiggerSide = True;
          (aPoint, aScore) =
            (if xins + yins > zins + wins then
               (let aPoint = (0x03 :: OSN_BYTE);
                    aScore = xins + yins
                in (aPoint, aScore))
             else
               (let aPoint = (0x0C :: OSN_BYTE);
                    aScore = zins + wins
                in (aPoint, aScore)));
          (bPoint, bScore) =
            (if xins + zins > yins + wins then
               (let bPoint = (0x05 :: OSN_BYTE);
                    bScore = xins + zins
                in (bPoint, bScore))
             else
               (let bPoint = (0x0A :: OSN_BYTE);
                    bScore = yins + wins
                in (bPoint, bScore)));
          (aPoint, bPoint, aScore, bScore) =
            (if xins + wins > yins + zins then
               (let score = xins + wins
                in
                   (if (aScore \<ge> bScore) \<and> (score > bScore) then
                      (let bPoint = (0x09 :: OSN_BYTE);
                           bScore = score
                       in (aPoint, bPoint, aScore, bScore))
                    else
                      (if (aScore < bScore) \<and> (score > aScore) then
                         (let aPoint = (0x09 :: OSN_BYTE);
                              aScore = score
                          in (aPoint, bPoint, aScore, bScore))
                       else
                         (aPoint, bPoint, aScore, bScore))))
             else
               (let score = yins + zins
                in
                   (if (aScore \<ge> bScore) \<and> (score > bScore) then
                      (let bPoint = (0x06 :: OSN_BYTE);
                           bScore = score
                       in (aPoint, bPoint, aScore, bScore))
                    else
                      (if (aScore < bScore) \<and> (score > aScore) then
                         (let aPoint = (0x06 :: OSN_BYTE);
                              aScore = score
                          in (aPoint, bPoint, aScore, bScore))
                       else
                         (aPoint, bPoint, aScore, bScore)))))
      in (aPoint, bPoint, aScore, bScore, aIsBiggerSide, bIsBiggerSide))"

definition eval4_dispentachoron_first_singles ::
  "real \<Rightarrow> real \<Rightarrow> real \<Rightarrow> real \<Rightarrow>
   real \<Rightarrow> OSN_BYTE \<Rightarrow> OSN_BYTE \<Rightarrow> real \<Rightarrow>
   real \<Rightarrow> bool \<Rightarrow> bool \<Rightarrow>
   (OSN_BYTE \<times> OSN_BYTE \<times> bool \<times> bool)" where
  "eval4_dispentachoron_first_singles xins yins zins wins inSum aPoint bPoint aScore bScore aIsBiggerSide bIsBiggerSide =
     (let p1 = 2 - inSum + xins;
          (aPoint, bPoint, aScore, bScore, aIsBiggerSide, bIsBiggerSide) =
            (if (aScore \<ge> bScore) \<and> (p1 > bScore) then
               (let bPoint = (0x01 :: OSN_BYTE);
                    bScore = p1;
                    bIsBiggerSide = False
                in (aPoint, bPoint, aScore, bScore, aIsBiggerSide, bIsBiggerSide))
             else
               (if (aScore < bScore) \<and> (p1 > aScore) then
                  (let aPoint = (0x01 :: OSN_BYTE);
                       aScore = p1;
                       aIsBiggerSide = False
                   in (aPoint, bPoint, aScore, bScore, aIsBiggerSide, bIsBiggerSide))
                else
                  (aPoint, bPoint, aScore, bScore, aIsBiggerSide, bIsBiggerSide)));
          p2 = 2 - inSum + yins;
          (aPoint, bPoint, aScore, bScore, aIsBiggerSide, bIsBiggerSide) =
            (if (aScore \<ge> bScore) \<and> (p2 > bScore) then
               (let bPoint = (0x02 :: OSN_BYTE);
                    bScore = p2;
                    bIsBiggerSide = False
                in (aPoint, bPoint, aScore, bScore, aIsBiggerSide, bIsBiggerSide))
             else
               (if (aScore < bScore) \<and> (p2 > aScore) then
                  (let aPoint = (0x02 :: OSN_BYTE);
                       aScore = p2;
                       aIsBiggerSide = False
                   in (aPoint, bPoint, aScore, bScore, aIsBiggerSide, bIsBiggerSide))
                else
                  (aPoint, bPoint, aScore, bScore, aIsBiggerSide, bIsBiggerSide)));
          p3 = 2 - inSum + zins;
          (aPoint, bPoint, aScore, bScore, aIsBiggerSide, bIsBiggerSide) =
            (if (aScore \<ge> bScore) \<and> (p3 > bScore) then
               (let bPoint = (0x04 :: OSN_BYTE);
                    bScore = p3;
                    bIsBiggerSide = False
                in (aPoint, bPoint, aScore, bScore, aIsBiggerSide, bIsBiggerSide))
             else
               (if (aScore < bScore) \<and> (p3 > aScore) then
                  (let aPoint = (0x04 :: OSN_BYTE);
                       aScore = p3;
                       aIsBiggerSide = False
                   in (aPoint, bPoint, aScore, bScore, aIsBiggerSide, bIsBiggerSide))
                else
                  (aPoint, bPoint, aScore, bScore, aIsBiggerSide, bIsBiggerSide)));
          p4 = 2 - inSum + wins
      in
         (if (aScore \<ge> bScore) \<and> (p4 > bScore) then
            (let bPoint = (0x08 :: OSN_BYTE);
                 bScore = p4;
                 bIsBiggerSide = False
             in (aPoint, bPoint, aIsBiggerSide, bIsBiggerSide))
          else
            (if (aScore < bScore) \<and> (p4 > aScore) then
               (let aPoint = (0x08 :: OSN_BYTE);
                    aScore = p4;
                    aIsBiggerSide = False
                in (aPoint, bPoint, aIsBiggerSide, bIsBiggerSide))
             else
               (aPoint, bPoint, aIsBiggerSide, bIsBiggerSide))))"

definition eval4_dispentachoron_first_extra ::
  "real \<Rightarrow> real \<Rightarrow> real \<Rightarrow> real \<Rightarrow>
   c_long \<Rightarrow> c_long \<Rightarrow> c_long \<Rightarrow> c_long \<Rightarrow>
   OSN_BYTE \<Rightarrow> OSN_BYTE \<Rightarrow> bool \<Rightarrow> bool \<Rightarrow>
   (c_long \<times> c_long \<times> c_long \<times> c_long \<times> c_long \<times> c_long \<times> c_long \<times> c_long \<times> c_long \<times> c_long \<times> c_long \<times> c_long \<times> real \<times> real \<times> real \<times> real \<times> real \<times> real \<times> real \<times> real \<times> real \<times> real \<times> real \<times> real)" where
  "eval4_dispentachoron_first_extra dx0 dy0 dz0 dw0 xsb ysb zsb wsb aPoint bPoint aIsBiggerSide bIsBiggerSide =
     (if aIsBiggerSide = bIsBiggerSide then
        (if aIsBiggerSide then
           (let c1 = aPoint OR bPoint;
                c2 = aPoint AND bPoint;
                (xsv_ext0, xsv_ext1, dx_ext0, dx_ext1) =
                  (if \<not> ((c1 AND 0x01) \<noteq> 0) then
                     (let xsv_ext0 = xsb;
                          xsv_ext1 = xsb - 1;
                          dx_ext0 = dx0 - (SQUISH_CONSTANT_4D * 3);
                          dx_ext1 = dx0 + 1 - (SQUISH_CONSTANT_4D * 2)
                      in (xsv_ext0, xsv_ext1, dx_ext0, dx_ext1))
                   else
                     (let xsv_ext1 = xsb + 1;
                          xsv_ext0 = xsv_ext1;
                          dx_ext0 = dx0 - 1 - (SQUISH_CONSTANT_4D * 3);
                          dx_ext1 = dx0 - 1 - (SQUISH_CONSTANT_4D * 2)
                      in (xsv_ext0, xsv_ext1, dx_ext0, dx_ext1)));
                (ysv_ext0, ysv_ext1, dy_ext0, dy_ext1) =
                  (if \<not> ((c1 AND 0x02) \<noteq> 0) then
                     (let ysv_ext0 = ysb;
                          ysv_ext1 = ysb - 1;
                          dy_ext0 = dy0 - (SQUISH_CONSTANT_4D * 3);
                          dy_ext1 = dy0 + 1 - (SQUISH_CONSTANT_4D * 2)
                      in (ysv_ext0, ysv_ext1, dy_ext0, dy_ext1))
                   else
                     (let ysv_ext1 = ysb + 1;
                          ysv_ext0 = ysv_ext1;
                          dy_ext0 = dy0 - 1 - (SQUISH_CONSTANT_4D * 3);
                          dy_ext1 = dy0 - 1 - (SQUISH_CONSTANT_4D * 2)
                      in (ysv_ext0, ysv_ext1, dy_ext0, dy_ext1)));
                (zsv_ext0, zsv_ext1, dz_ext0, dz_ext1) =
                  (if \<not> ((c1 AND 0x04) \<noteq> 0) then
                     (let zsv_ext0 = zsb;
                          zsv_ext1 = zsb - 1;
                          dz_ext0 = dz0 - (SQUISH_CONSTANT_4D * 3);
                          dz_ext1 = dz0 + 1 - (SQUISH_CONSTANT_4D * 2)
                      in (zsv_ext0, zsv_ext1, dz_ext0, dz_ext1))
                   else
                     (let zsv_ext1 = zsb + 1;
                          zsv_ext0 = zsv_ext1;
                          dz_ext0 = dz0 - 1 - (SQUISH_CONSTANT_4D * 3);
                          dz_ext1 = dz0 - 1 - (SQUISH_CONSTANT_4D * 2)
                      in (zsv_ext0, zsv_ext1, dz_ext0, dz_ext1)));
                (wsv_ext0, wsv_ext1, dw_ext0, dw_ext1) =
                  (if \<not> ((c1 AND 0x08) \<noteq> 0) then
                     (let wsv_ext0 = wsb;
                          wsv_ext1 = wsb - 1;
                          dw_ext0 = dw0 - (SQUISH_CONSTANT_4D * 3);
                          dw_ext1 = dw0 + 1 - (SQUISH_CONSTANT_4D * 2)
                      in (wsv_ext0, wsv_ext1, dw_ext0, dw_ext1))
                   else
                     (let wsv_ext1 = wsb + 1;
                          wsv_ext0 = wsv_ext1;
                          dw_ext0 = dw0 - 1 - (SQUISH_CONSTANT_4D * 3);
                          dw_ext1 = dw0 - 1 - (SQUISH_CONSTANT_4D * 2)
                      in (wsv_ext0, wsv_ext1, dw_ext0, dw_ext1)));
                xsv_ext2 = xsb;
                ysv_ext2 = ysb;
                zsv_ext2 = zsb;
                wsv_ext2 = wsb;
                dx_ext2 = dx0 - (SQUISH_CONSTANT_4D * 2);
                dy_ext2 = dy0 - (SQUISH_CONSTANT_4D * 2);
                dz_ext2 = dz0 - (SQUISH_CONSTANT_4D * 2);
                dw_ext2 = dw0 - (SQUISH_CONSTANT_4D * 2);
                (xsv_ext2, ysv_ext2, zsv_ext2, wsv_ext2, dx_ext2, dy_ext2, dz_ext2, dw_ext2) =
                  (if (c2 AND 0x01) \<noteq> 0 then
                     (let xsv_ext2 = xsv_ext2 + 2;
                          dx_ext2 = dx_ext2 - 2
                      in (xsv_ext2, ysv_ext2, zsv_ext2, wsv_ext2, dx_ext2, dy_ext2, dz_ext2, dw_ext2))
                   else
                     (if (c2 AND 0x02) \<noteq> 0 then
                        (let ysv_ext2 = ysv_ext2 + 2;
                             dy_ext2 = dy_ext2 - 2
                         in (xsv_ext2, ysv_ext2, zsv_ext2, wsv_ext2, dx_ext2, dy_ext2, dz_ext2, dw_ext2))
                      else
                        (if (c2 AND 0x04) \<noteq> 0 then
                           (let zsv_ext2 = zsv_ext2 + 2;
                                dz_ext2 = dz_ext2 - 2
                            in (xsv_ext2, ysv_ext2, zsv_ext2, wsv_ext2, dx_ext2, dy_ext2, dz_ext2, dw_ext2))
                         else
                           (let wsv_ext2 = wsv_ext2 + 2;
                                dw_ext2 = dw_ext2 - 2
                            in (xsv_ext2, ysv_ext2, zsv_ext2, wsv_ext2, dx_ext2, dy_ext2, dz_ext2, dw_ext2)))))
            in (xsv_ext0, ysv_ext0, zsv_ext0, wsv_ext0, xsv_ext1, ysv_ext1, zsv_ext1, wsv_ext1, xsv_ext2, ysv_ext2, zsv_ext2, wsv_ext2, dx_ext0, dy_ext0, dz_ext0, dw_ext0, dx_ext1, dy_ext1, dz_ext1, dw_ext1, dx_ext2, dy_ext2, dz_ext2, dw_ext2))
         else
           (let xsv_ext2 = xsb;
                ysv_ext2 = ysb;
                zsv_ext2 = zsb;
                wsv_ext2 = wsb;
                dx_ext2 = dx0;
                dy_ext2 = dy0;
                dz_ext2 = dz0;
                dw_ext2 = dw0;
                c = aPoint OR bPoint;
                (xsv_ext0, xsv_ext1, dx_ext0, dx_ext1) =
                  (if \<not> ((c AND 0x01) \<noteq> 0) then
                     (let xsv_ext0 = xsb - 1;
                          xsv_ext1 = xsb;
                          dx_ext0 = dx0 + 1 - SQUISH_CONSTANT_4D;
                          dx_ext1 = dx0 - SQUISH_CONSTANT_4D
                      in (xsv_ext0, xsv_ext1, dx_ext0, dx_ext1))
                   else
                     (let xsv_ext1 = xsb + 1;
                          xsv_ext0 = xsv_ext1;
                          dx_ext1 = dx0 - 1 - SQUISH_CONSTANT_4D;
                          dx_ext0 = dx_ext1
                      in (xsv_ext0, xsv_ext1, dx_ext0, dx_ext1)));
                (ysv_ext0, ysv_ext1, dy_ext0, dy_ext1) =
                  (if \<not> ((c AND 0x02) \<noteq> 0) then
                     (let ysv_ext1 = ysb;
                          ysv_ext0 = ysv_ext1;
                          dy_ext1 = dy0 - SQUISH_CONSTANT_4D;
                          dy_ext0 = dy_ext1
                      in
                         (if (c AND 0x01) \<noteq> 0 then
                            (let ysv_ext0 = ysv_ext0 - 1;
                                 dy_ext0 = dy_ext0 + 1
                             in (ysv_ext0, ysv_ext1, dy_ext0, dy_ext1))
                          else
                            (let ysv_ext1 = ysv_ext1 - 1;
                                 dy_ext1 = dy_ext1 + 1
                             in (ysv_ext0, ysv_ext1, dy_ext0, dy_ext1))))
                   else
                     (let ysv_ext1 = ysb + 1;
                          ysv_ext0 = ysv_ext1;
                          dy_ext1 = dy0 - 1 - SQUISH_CONSTANT_4D;
                          dy_ext0 = dy_ext1
                      in (ysv_ext0, ysv_ext1, dy_ext0, dy_ext1)));
                (zsv_ext0, zsv_ext1, dz_ext0, dz_ext1) =
                  (if \<not> ((c AND 0x04) \<noteq> 0) then
                     (let zsv_ext1 = zsb;
                          zsv_ext0 = zsv_ext1;
                          dz_ext1 = dz0 - SQUISH_CONSTANT_4D;
                          dz_ext0 = dz_ext1
                      in
                         (if (c AND 0x03) = 0x03 then
                            (let zsv_ext0 = zsv_ext0 - 1;
                                 dz_ext0 = dz_ext0 + 1
                             in (zsv_ext0, zsv_ext1, dz_ext0, dz_ext1))
                          else
                            (let zsv_ext1 = zsv_ext1 - 1;
                                 dz_ext1 = dz_ext1 + 1
                             in (zsv_ext0, zsv_ext1, dz_ext0, dz_ext1))))
                   else
                     (let zsv_ext1 = zsb + 1;
                          zsv_ext0 = zsv_ext1;
                          dz_ext1 = dz0 - 1 - SQUISH_CONSTANT_4D;
                          dz_ext0 = dz_ext1
                      in (zsv_ext0, zsv_ext1, dz_ext0, dz_ext1)));
                (wsv_ext0, wsv_ext1, dw_ext0, dw_ext1) =
                  (if \<not> ((c AND 0x08) \<noteq> 0) then
                     (let wsv_ext0 = wsb;
                          wsv_ext1 = wsb - 1;
                          dw_ext0 = dw0 - SQUISH_CONSTANT_4D;
                          dw_ext1 = dw0 + 1 - SQUISH_CONSTANT_4D
                      in (wsv_ext0, wsv_ext1, dw_ext0, dw_ext1))
                   else
                     (let wsv_ext1 = wsb + 1;
                          wsv_ext0 = wsv_ext1;
                          dw_ext1 = dw0 - 1 - SQUISH_CONSTANT_4D;
                          dw_ext0 = dw_ext1
                      in (wsv_ext0, wsv_ext1, dw_ext0, dw_ext1)))
            in (xsv_ext0, ysv_ext0, zsv_ext0, wsv_ext0, xsv_ext1, ysv_ext1, zsv_ext1, wsv_ext1, xsv_ext2, ysv_ext2, zsv_ext2, wsv_ext2, dx_ext0, dy_ext0, dz_ext0, dw_ext0, dx_ext1, dy_ext1, dz_ext1, dw_ext1, dx_ext2, dy_ext2, dz_ext2, dw_ext2)))
      else
        (let (c1, c2) =
               (if aIsBiggerSide then
                  (let c1 = aPoint;
                       c2 = bPoint
                   in (c1, c2))
                else
                  (let c1 = bPoint;
                       c2 = aPoint
                   in (c1, c2)));
             (xsv_ext0, xsv_ext1, dx_ext0, dx_ext1) =
               (if \<not> ((c1 AND 0x01) \<noteq> 0) then
                  (let xsv_ext0 = xsb - 1;
                       xsv_ext1 = xsb;
                       dx_ext0 = dx0 + 1 - SQUISH_CONSTANT_4D;
                       dx_ext1 = dx0 - SQUISH_CONSTANT_4D
                   in (xsv_ext0, xsv_ext1, dx_ext0, dx_ext1))
                else
                  (let xsv_ext1 = xsb + 1;
                       xsv_ext0 = xsv_ext1;
                       dx_ext1 = dx0 - 1 - SQUISH_CONSTANT_4D;
                       dx_ext0 = dx_ext1
                   in (xsv_ext0, xsv_ext1, dx_ext0, dx_ext1)));
             (ysv_ext0, ysv_ext1, dy_ext0, dy_ext1) =
               (if \<not> ((c1 AND 0x02) \<noteq> 0) then
                  (let ysv_ext1 = ysb;
                       ysv_ext0 = ysv_ext1;
                       dy_ext1 = dy0 - SQUISH_CONSTANT_4D;
                       dy_ext0 = dy_ext1
                   in
                      (if (c1 AND 0x01) = 0x01 then
                         (let ysv_ext0 = ysv_ext0 - 1;
                              dy_ext0 = dy_ext0 + 1
                          in (ysv_ext0, ysv_ext1, dy_ext0, dy_ext1))
                       else
                         (let ysv_ext1 = ysv_ext1 - 1;
                              dy_ext1 = dy_ext1 + 1
                          in (ysv_ext0, ysv_ext1, dy_ext0, dy_ext1))))
                else
                  (let ysv_ext1 = ysb + 1;
                       ysv_ext0 = ysv_ext1;
                       dy_ext1 = dy0 - 1 - SQUISH_CONSTANT_4D;
                       dy_ext0 = dy_ext1
                   in (ysv_ext0, ysv_ext1, dy_ext0, dy_ext1)));
             (zsv_ext0, zsv_ext1, dz_ext0, dz_ext1) =
               (if \<not> ((c1 AND 0x04) \<noteq> 0) then
                  (let zsv_ext1 = zsb;
                       zsv_ext0 = zsv_ext1;
                       dz_ext1 = dz0 - SQUISH_CONSTANT_4D;
                       dz_ext0 = dz_ext1
                   in
                      (if (c1 AND 0x03) = 0x03 then
                         (let zsv_ext0 = zsv_ext0 - 1;
                              dz_ext0 = dz_ext0 + 1
                          in (zsv_ext0, zsv_ext1, dz_ext0, dz_ext1))
                       else
                         (let zsv_ext1 = zsv_ext1 - 1;
                              dz_ext1 = dz_ext1 + 1
                          in (zsv_ext0, zsv_ext1, dz_ext0, dz_ext1))))
                else
                  (let zsv_ext1 = zsb + 1;
                       zsv_ext0 = zsv_ext1;
                       dz_ext1 = dz0 - 1 - SQUISH_CONSTANT_4D;
                       dz_ext0 = dz_ext1
                   in (zsv_ext0, zsv_ext1, dz_ext0, dz_ext1)));
             (wsv_ext0, wsv_ext1, dw_ext0, dw_ext1) =
               (if \<not> ((c1 AND 0x08) \<noteq> 0) then
                  (let wsv_ext0 = wsb;
                       wsv_ext1 = wsb - 1;
                       dw_ext0 = dw0 - SQUISH_CONSTANT_4D;
                       dw_ext1 = dw0 + 1 - SQUISH_CONSTANT_4D
                   in (wsv_ext0, wsv_ext1, dw_ext0, dw_ext1))
                else
                  (let wsv_ext1 = wsb + 1;
                       wsv_ext0 = wsv_ext1;
                       dw_ext1 = dw0 - 1 - SQUISH_CONSTANT_4D;
                       dw_ext0 = dw_ext1
                   in (wsv_ext0, wsv_ext1, dw_ext0, dw_ext1)));
             xsv_ext2 = xsb;
             ysv_ext2 = ysb;
             zsv_ext2 = zsb;
             wsv_ext2 = wsb;
             dx_ext2 = dx0 - (SQUISH_CONSTANT_4D * 2);
             dy_ext2 = dy0 - (SQUISH_CONSTANT_4D * 2);
             dz_ext2 = dz0 - (SQUISH_CONSTANT_4D * 2);
             dw_ext2 = dw0 - (SQUISH_CONSTANT_4D * 2);
             (xsv_ext2, ysv_ext2, zsv_ext2, wsv_ext2, dx_ext2, dy_ext2, dz_ext2, dw_ext2) =
               (if (c2 AND 0x01) \<noteq> 0 then
                  (let xsv_ext2 = xsv_ext2 + 2;
                       dx_ext2 = dx_ext2 - 2
                   in (xsv_ext2, ysv_ext2, zsv_ext2, wsv_ext2, dx_ext2, dy_ext2, dz_ext2, dw_ext2))
                else
                  (if (c2 AND 0x02) \<noteq> 0 then
                     (let ysv_ext2 = ysv_ext2 + 2;
                          dy_ext2 = dy_ext2 - 2
                      in (xsv_ext2, ysv_ext2, zsv_ext2, wsv_ext2, dx_ext2, dy_ext2, dz_ext2, dw_ext2))
                   else
                     (if (c2 AND 0x04) \<noteq> 0 then
                        (let zsv_ext2 = zsv_ext2 + 2;
                             dz_ext2 = dz_ext2 - 2
                         in (xsv_ext2, ysv_ext2, zsv_ext2, wsv_ext2, dx_ext2, dy_ext2, dz_ext2, dw_ext2))
                      else
                        (let wsv_ext2 = wsv_ext2 + 2;
                             dw_ext2 = dw_ext2 - 2
                         in (xsv_ext2, ysv_ext2, zsv_ext2, wsv_ext2, dx_ext2, dy_ext2, dz_ext2, dw_ext2)))))
         in (xsv_ext0, ysv_ext0, zsv_ext0, wsv_ext0, xsv_ext1, ysv_ext1, zsv_ext1, wsv_ext1, xsv_ext2, ysv_ext2, zsv_ext2, wsv_ext2, dx_ext0, dy_ext0, dz_ext0, dw_ext0, dx_ext1, dy_ext1, dz_ext1, dw_ext1, dx_ext2, dy_ext2, dz_ext2, dw_ext2)))"

definition eval4_dispentachoron_first ::
  "vertex4 list \<Rightarrow> real \<Rightarrow> real \<Rightarrow> real \<Rightarrow>
   real \<Rightarrow> c_long \<Rightarrow> c_long \<Rightarrow> c_long \<Rightarrow>
   c_long \<Rightarrow> real \<Rightarrow> real \<Rightarrow> real \<Rightarrow>
   real \<Rightarrow> real \<Rightarrow>
   (vertex4 list \<times> c_long \<times> c_long \<times> c_long \<times> c_long \<times> c_long \<times> c_long \<times> c_long \<times> c_long \<times> c_long \<times> c_long \<times> c_long \<times> c_long \<times> real \<times> real \<times> real \<times> real \<times> real \<times> real \<times> real \<times> real \<times> real \<times> real \<times> real \<times> real)" where
  "eval4_dispentachoron_first vs dx0 dy0 dz0 dw0 xsb ysb zsb wsb xins yins zins wins inSum =
     (let (aPoint, bPoint, aScore, bScore, aIsBiggerSide, bIsBiggerSide) = eval4_dispentachoron_first_pairs xins yins zins wins;
          (aPoint, bPoint, aIsBiggerSide, bIsBiggerSide) = eval4_dispentachoron_first_singles xins yins zins wins inSum aPoint bPoint aScore bScore aIsBiggerSide bIsBiggerSide;
          (xsv_ext0, ysv_ext0, zsv_ext0, wsv_ext0, xsv_ext1, ysv_ext1, zsv_ext1, wsv_ext1, xsv_ext2, ysv_ext2, zsv_ext2, wsv_ext2, dx_ext0, dy_ext0, dz_ext0, dw_ext0, dx_ext1, dy_ext1, dz_ext1, dw_ext1, dx_ext2, dy_ext2, dz_ext2, dw_ext2) = eval4_dispentachoron_first_extra dx0 dy0 dz0 dw0 xsb ysb zsb wsb aPoint bPoint aIsBiggerSide bIsBiggerSide;
          dx1 = dx0 - 1 - SQUISH_CONSTANT_4D;
          dy1 = dy0 - SQUISH_CONSTANT_4D;
          dz1 = dz0 - SQUISH_CONSTANT_4D;
          dw1 = dw0 - SQUISH_CONSTANT_4D;
          vs = vs @ [((xsb + 1, ysb, zsb, wsb), (dx1, dy1, dz1, dw1))];
          dx2 = dx0 - SQUISH_CONSTANT_4D;
          dy2 = dy0 - 1 - SQUISH_CONSTANT_4D;
          dz2 = dz1;
          dw2 = dw1;
          vs = vs @ [((xsb, ysb + 1, zsb, wsb), (dx2, dy2, dz2, dw2))];
          dx3 = dx2;
          dy3 = dy1;
          dz3 = dz0 - 1 - SQUISH_CONSTANT_4D;
          dw3 = dw1;
          vs = vs @ [((xsb, ysb, zsb + 1, wsb), (dx3, dy3, dz3, dw3))];
          dx4 = dx2;
          dy4 = dy1;
          dz4 = dz1;
          dw4 = dw0 - 1 - SQUISH_CONSTANT_4D;
          vs = vs @ [((xsb, ysb, zsb, wsb + 1), (dx4, dy4, dz4, dw4))];
          dx5 = dx0 - 1 - (SQUISH_CONSTANT_4D * 2);
          dy5 = dy0 - 1 - (SQUISH_CONSTANT_4D * 2);
          dz5 = dz0 - (SQUISH_CONSTANT_4D * 2);
          dw5 = dw0 - (SQUISH_CONSTANT_4D * 2);
          vs = vs @ [((xsb + 1, ysb + 1, zsb, wsb), (dx5, dy5, dz5, dw5))];
          dx6 = dx0 - 1 - (SQUISH_CONSTANT_4D * 2);
          dy6 = dy0 - (SQUISH_CONSTANT_4D * 2);
          dz6 = dz0 - 1 - (SQUISH_CONSTANT_4D * 2);
          dw6 = dw0 - (SQUISH_CONSTANT_4D * 2);
          vs = vs @ [((xsb + 1, ysb, zsb + 1, wsb), (dx6, dy6, dz6, dw6))];
          dx7 = dx0 - 1 - (SQUISH_CONSTANT_4D * 2);
          dy7 = dy0 - (SQUISH_CONSTANT_4D * 2);
          dz7 = dz0 - (SQUISH_CONSTANT_4D * 2);
          dw7 = dw0 - 1 - (SQUISH_CONSTANT_4D * 2);
          vs = vs @ [((xsb + 1, ysb, zsb, wsb + 1), (dx7, dy7, dz7, dw7))];
          dx8 = dx0 - (SQUISH_CONSTANT_4D * 2);
          dy8 = dy0 - 1 - (SQUISH_CONSTANT_4D * 2);
          dz8 = dz0 - 1 - (SQUISH_CONSTANT_4D * 2);
          dw8 = dw0 - (SQUISH_CONSTANT_4D * 2);
          vs = vs @ [((xsb, ysb + 1, zsb + 1, wsb), (dx8, dy8, dz8, dw8))];
          dx9 = dx0 - (SQUISH_CONSTANT_4D * 2);
          dy9 = dy0 - 1 - (SQUISH_CONSTANT_4D * 2);
          dz9 = dz0 - (SQUISH_CONSTANT_4D * 2);
          dw9 = dw0 - 1 - (SQUISH_CONSTANT_4D * 2);
          vs = vs @ [((xsb, ysb + 1, zsb, wsb + 1), (dx9, dy9, dz9, dw9))];
          dx10 = dx0 - 2 * SQUISH_CONSTANT_4D;
          dy10 = dy0 - 2 * SQUISH_CONSTANT_4D;
          dz10 = dz0 - 1 - (SQUISH_CONSTANT_4D * 2);
          dw10 = dw0 - 1 - (SQUISH_CONSTANT_4D * 2);
          vs = vs @ [((xsb, ysb, zsb + 1, wsb + 1), (dx10, dy10, dz10, dw10))]
      in (vs, xsv_ext0, ysv_ext0, zsv_ext0, wsv_ext0, xsv_ext1, ysv_ext1, zsv_ext1, wsv_ext1, xsv_ext2, ysv_ext2, zsv_ext2, wsv_ext2, dx_ext0, dy_ext0, dz_ext0, dw_ext0, dx_ext1, dy_ext1, dz_ext1, dw_ext1, dx_ext2, dy_ext2, dz_ext2, dw_ext2))"

definition eval4_dispentachoron_second_pairs ::
  "real \<Rightarrow> real \<Rightarrow> real \<Rightarrow> real \<Rightarrow>
   (OSN_BYTE \<times> OSN_BYTE \<times> real \<times> real \<times> bool \<times> bool)" where
  "eval4_dispentachoron_second_pairs xins yins zins wins =
     (let aIsBiggerSide = True;
          bIsBiggerSide = True;
          (aPoint, aScore) =
            (if xins + yins < zins + wins then
               (let aPoint = (0x0C :: OSN_BYTE);
                    aScore = xins + yins
                in (aPoint, aScore))
             else
               (let aPoint = (0x03 :: OSN_BYTE);
                    aScore = zins + wins
                in (aPoint, aScore)));
          (bPoint, bScore) =
            (if xins + zins < yins + wins then
               (let bPoint = (0x0A :: OSN_BYTE);
                    bScore = xins + zins
                in (bPoint, bScore))
             else
               (let bPoint = (0x05 :: OSN_BYTE);
                    bScore = yins + wins
                in (bPoint, bScore)));
          (aPoint, bPoint, aScore, bScore) =
            (if xins + wins < yins + zins then
               (let score = xins + wins
                in
                   (if (aScore \<le> bScore) \<and> (score < bScore) then
                      (let bPoint = (0x06 :: OSN_BYTE);
                           bScore = score
                       in (aPoint, bPoint, aScore, bScore))
                    else
                      (if (aScore > bScore) \<and> (score < aScore) then
                         (let aPoint = (0x06 :: OSN_BYTE);
                              aScore = score
                          in (aPoint, bPoint, aScore, bScore))
                       else
                         (aPoint, bPoint, aScore, bScore))))
             else
               (let score = yins + zins
                in
                   (if (aScore \<le> bScore) \<and> (score < bScore) then
                      (let bPoint = (0x09 :: OSN_BYTE);
                           bScore = score
                       in (aPoint, bPoint, aScore, bScore))
                    else
                      (if (aScore > bScore) \<and> (score < aScore) then
                         (let aPoint = (0x09 :: OSN_BYTE);
                              aScore = score
                          in (aPoint, bPoint, aScore, bScore))
                       else
                         (aPoint, bPoint, aScore, bScore)))))
      in (aPoint, bPoint, aScore, bScore, aIsBiggerSide, bIsBiggerSide))"

definition eval4_dispentachoron_second_singles ::
  "real \<Rightarrow> real \<Rightarrow> real \<Rightarrow> real \<Rightarrow>
   real \<Rightarrow> OSN_BYTE \<Rightarrow> OSN_BYTE \<Rightarrow> real \<Rightarrow>
   real \<Rightarrow> bool \<Rightarrow> bool \<Rightarrow>
   (OSN_BYTE \<times> OSN_BYTE \<times> bool \<times> bool)" where
  "eval4_dispentachoron_second_singles xins yins zins wins inSum aPoint bPoint aScore bScore aIsBiggerSide bIsBiggerSide =
     (let (aPoint, bPoint, aScore, bScore, aIsBiggerSide, bIsBiggerSide) =
            (let p1 = 3 - inSum + xins
             in
                (if (aScore \<le> bScore) \<and> (p1 < bScore) then
                   (let bPoint = (0x0E :: OSN_BYTE);
                        bScore = p1;
                        bIsBiggerSide = False
                    in (aPoint, bPoint, aScore, bScore, aIsBiggerSide, bIsBiggerSide))
                 else
                   (if (aScore > bScore) \<and> (p1 < aScore) then
                      (let aPoint = (0x0E :: OSN_BYTE);
                           aScore = p1;
                           aIsBiggerSide = False
                       in (aPoint, bPoint, aScore, bScore, aIsBiggerSide, bIsBiggerSide))
                    else
                      (aPoint, bPoint, aScore, bScore, aIsBiggerSide, bIsBiggerSide))));
          (aPoint, bPoint, aScore, bScore, aIsBiggerSide, bIsBiggerSide) =
            (let p2 = 3 - inSum + yins
             in
                (if (aScore \<le> bScore) \<and> (p2 < bScore) then
                   (let bPoint = (0x0D :: OSN_BYTE);
                        bScore = p2;
                        bIsBiggerSide = False
                    in (aPoint, bPoint, aScore, bScore, aIsBiggerSide, bIsBiggerSide))
                 else
                   (if (aScore > bScore) \<and> (p2 < aScore) then
                      (let aPoint = (0x0D :: OSN_BYTE);
                           aScore = p2;
                           aIsBiggerSide = False
                       in (aPoint, bPoint, aScore, bScore, aIsBiggerSide, bIsBiggerSide))
                    else
                      (aPoint, bPoint, aScore, bScore, aIsBiggerSide, bIsBiggerSide))));
          (aPoint, bPoint, aScore, bScore, aIsBiggerSide, bIsBiggerSide) =
            (let p3 = 3 - inSum + zins
             in
                (if (aScore \<le> bScore) \<and> (p3 < bScore) then
                   (let bPoint = (0x0B :: OSN_BYTE);
                        bScore = p3;
                        bIsBiggerSide = False
                    in (aPoint, bPoint, aScore, bScore, aIsBiggerSide, bIsBiggerSide))
                 else
                   (if (aScore > bScore) \<and> (p3 < aScore) then
                      (let aPoint = (0x0B :: OSN_BYTE);
                           aScore = p3;
                           aIsBiggerSide = False
                       in (aPoint, bPoint, aScore, bScore, aIsBiggerSide, bIsBiggerSide))
                    else
                      (aPoint, bPoint, aScore, bScore, aIsBiggerSide, bIsBiggerSide))))
      in
         (let p4 = 3 - inSum + wins
          in
             (if (aScore \<le> bScore) \<and> (p4 < bScore) then
                (let bPoint = (0x07 :: OSN_BYTE);
                     bScore = p4;
                     bIsBiggerSide = False
                 in (aPoint, bPoint, aIsBiggerSide, bIsBiggerSide))
              else
                (if (aScore > bScore) \<and> (p4 < aScore) then
                   (let aPoint = (0x07 :: OSN_BYTE);
                        aScore = p4;
                        aIsBiggerSide = False
                    in (aPoint, bPoint, aIsBiggerSide, bIsBiggerSide))
                 else
                   (aPoint, bPoint, aIsBiggerSide, bIsBiggerSide)))))"

definition eval4_dispentachoron_second_extra ::
  "real \<Rightarrow> real \<Rightarrow> real \<Rightarrow> real \<Rightarrow>
   c_long \<Rightarrow> c_long \<Rightarrow> c_long \<Rightarrow> c_long \<Rightarrow>
   OSN_BYTE \<Rightarrow> OSN_BYTE \<Rightarrow> bool \<Rightarrow> bool \<Rightarrow>
   (c_long \<times> c_long \<times> c_long \<times> c_long \<times> c_long \<times> c_long \<times> c_long \<times> c_long \<times> c_long \<times> c_long \<times> c_long \<times> c_long \<times> real \<times> real \<times> real \<times> real \<times> real \<times> real \<times> real \<times> real \<times> real \<times> real \<times> real \<times> real)" where
  "eval4_dispentachoron_second_extra dx0 dy0 dz0 dw0 xsb ysb zsb wsb aPoint bPoint aIsBiggerSide bIsBiggerSide =
     (if aIsBiggerSide = bIsBiggerSide then
        (if aIsBiggerSide then
           (let c1 = aPoint AND bPoint;
                c2 = aPoint OR bPoint;
                xsv_ext1 = xsb;
                xsv_ext0 = xsv_ext1;
                ysv_ext1 = ysb;
                ysv_ext0 = ysv_ext1;
                zsv_ext1 = zsb;
                zsv_ext0 = zsv_ext1;
                wsv_ext1 = wsb;
                wsv_ext0 = wsv_ext1;
                dx_ext0 = dx0 - SQUISH_CONSTANT_4D;
                dy_ext0 = dy0 - SQUISH_CONSTANT_4D;
                dz_ext0 = dz0 - SQUISH_CONSTANT_4D;
                dw_ext0 = dw0 - SQUISH_CONSTANT_4D;
                dx_ext1 = dx0 - (SQUISH_CONSTANT_4D * 2);
                dy_ext1 = dy0 - (SQUISH_CONSTANT_4D * 2);
                dz_ext1 = dz0 - (SQUISH_CONSTANT_4D * 2);
                dw_ext1 = dw0 - (SQUISH_CONSTANT_4D * 2);
                (xsv_ext0, ysv_ext0, zsv_ext0, wsv_ext0, xsv_ext1, ysv_ext1, zsv_ext1, wsv_ext1, dx_ext0, dy_ext0, dz_ext0, dw_ext0, dx_ext1, dy_ext1, dz_ext1, dw_ext1) =
                  (if (c1 AND 0x01) \<noteq> 0 then
                     (let xsv_ext0 = xsv_ext0 + 1;
                          dx_ext0 = dx_ext0 - 1;
                          xsv_ext1 = xsv_ext1 + 2;
                          dx_ext1 = dx_ext1 - 2
                      in (xsv_ext0, ysv_ext0, zsv_ext0, wsv_ext0, xsv_ext1, ysv_ext1, zsv_ext1, wsv_ext1, dx_ext0, dy_ext0, dz_ext0, dw_ext0, dx_ext1, dy_ext1, dz_ext1, dw_ext1))
                   else
                     (if (c1 AND 0x02) \<noteq> 0 then
                        (let ysv_ext0 = ysv_ext0 + 1;
                             dy_ext0 = dy_ext0 - 1;
                             ysv_ext1 = ysv_ext1 + 2;
                             dy_ext1 = dy_ext1 - 2
                         in (xsv_ext0, ysv_ext0, zsv_ext0, wsv_ext0, xsv_ext1, ysv_ext1, zsv_ext1, wsv_ext1, dx_ext0, dy_ext0, dz_ext0, dw_ext0, dx_ext1, dy_ext1, dz_ext1, dw_ext1))
                      else
                        (if (c1 AND 0x04) \<noteq> 0 then
                           (let zsv_ext0 = zsv_ext0 + 1;
                                dz_ext0 = dz_ext0 - 1;
                                zsv_ext1 = zsv_ext1 + 2;
                                dz_ext1 = dz_ext1 - 2
                            in (xsv_ext0, ysv_ext0, zsv_ext0, wsv_ext0, xsv_ext1, ysv_ext1, zsv_ext1, wsv_ext1, dx_ext0, dy_ext0, dz_ext0, dw_ext0, dx_ext1, dy_ext1, dz_ext1, dw_ext1))
                         else
                           (let wsv_ext0 = wsv_ext0 + 1;
                                dw_ext0 = dw_ext0 - 1;
                                wsv_ext1 = wsv_ext1 + 2;
                                dw_ext1 = dw_ext1 - 2
                            in (xsv_ext0, ysv_ext0, zsv_ext0, wsv_ext0, xsv_ext1, ysv_ext1, zsv_ext1, wsv_ext1, dx_ext0, dy_ext0, dz_ext0, dw_ext0, dx_ext1, dy_ext1, dz_ext1, dw_ext1)))));
                xsv_ext2 = xsb + 1;
                ysv_ext2 = ysb + 1;
                zsv_ext2 = zsb + 1;
                wsv_ext2 = wsb + 1;
                dx_ext2 = dx0 - 1 - (SQUISH_CONSTANT_4D * 2);
                dy_ext2 = dy0 - 1 - (SQUISH_CONSTANT_4D * 2);
                dz_ext2 = dz0 - 1 - (SQUISH_CONSTANT_4D * 2);
                dw_ext2 = dw0 - 1 - (SQUISH_CONSTANT_4D * 2);
                (xsv_ext2, ysv_ext2, zsv_ext2, wsv_ext2, dx_ext2, dy_ext2, dz_ext2, dw_ext2) =
                  (if \<not> ((c2 AND 0x01) \<noteq> 0) then
                     (let xsv_ext2 = xsv_ext2 - 2;
                          dx_ext2 = dx_ext2 + 2
                      in (xsv_ext2, ysv_ext2, zsv_ext2, wsv_ext2, dx_ext2, dy_ext2, dz_ext2, dw_ext2))
                   else
                     (if \<not> ((c2 AND 0x02) \<noteq> 0) then
                        (let ysv_ext2 = ysv_ext2 - 2;
                             dy_ext2 = dy_ext2 + 2
                         in (xsv_ext2, ysv_ext2, zsv_ext2, wsv_ext2, dx_ext2, dy_ext2, dz_ext2, dw_ext2))
                      else
                        (if \<not> ((c2 AND 0x04) \<noteq> 0) then
                           (let zsv_ext2 = zsv_ext2 - 2;
                                dz_ext2 = dz_ext2 + 2
                            in (xsv_ext2, ysv_ext2, zsv_ext2, wsv_ext2, dx_ext2, dy_ext2, dz_ext2, dw_ext2))
                         else
                           (let wsv_ext2 = wsv_ext2 - 2;
                                dw_ext2 = dw_ext2 + 2
                            in (xsv_ext2, ysv_ext2, zsv_ext2, wsv_ext2, dx_ext2, dy_ext2, dz_ext2, dw_ext2)))))
            in (xsv_ext0, ysv_ext0, zsv_ext0, wsv_ext0, xsv_ext1, ysv_ext1, zsv_ext1, wsv_ext1, xsv_ext2, ysv_ext2, zsv_ext2, wsv_ext2, dx_ext0, dy_ext0, dz_ext0, dw_ext0, dx_ext1, dy_ext1, dz_ext1, dw_ext1, dx_ext2, dy_ext2, dz_ext2, dw_ext2))
         else
           (let xsv_ext2 = xsb + 1;
                ysv_ext2 = ysb + 1;
                zsv_ext2 = zsb + 1;
                wsv_ext2 = wsb + 1;
                dx_ext2 = dx0 - 1 - (SQUISH_CONSTANT_4D * 4);
                dy_ext2 = dy0 - 1 - (SQUISH_CONSTANT_4D * 4);
                dz_ext2 = dz0 - 1 - (SQUISH_CONSTANT_4D * 4);
                dw_ext2 = dw0 - 1 - (SQUISH_CONSTANT_4D * 4);
                c = aPoint AND bPoint;
                (xsv_ext0, xsv_ext1, dx_ext0, dx_ext1) =
                  (if (c AND 0x01) \<noteq> 0 then
                     (let xsv_ext0 = xsb + 2;
                          xsv_ext1 = xsb + 1;
                          dx_ext0 = dx0 - 2 - (SQUISH_CONSTANT_4D * 3);
                          dx_ext1 = dx0 - 1 - (SQUISH_CONSTANT_4D * 3)
                      in (xsv_ext0, xsv_ext1, dx_ext0, dx_ext1))
                   else
                     (let xsv_ext1 = xsb;
                          xsv_ext0 = xsv_ext1;
                          dx_ext1 = dx0 - (SQUISH_CONSTANT_4D * 3);
                          dx_ext0 = dx_ext1
                      in (xsv_ext0, xsv_ext1, dx_ext0, dx_ext1)));
                (ysv_ext0, ysv_ext1, dy_ext0, dy_ext1) =
                  (if (c AND 0x02) \<noteq> 0 then
                     (let ysv_ext1 = ysb + 1;
                          ysv_ext0 = ysv_ext1;
                          dy_ext1 = dy0 - 1 - (SQUISH_CONSTANT_4D * 3);
                          dy_ext0 = dy_ext1
                      in
                         (if \<not> ((c AND 0x01) \<noteq> 0) then
                            (let ysv_ext0 = ysv_ext0 + 1;
                                 dy_ext0 = dy_ext0 - 1
                             in (ysv_ext0, ysv_ext1, dy_ext0, dy_ext1))
                          else
                            (let ysv_ext1 = ysv_ext1 + 1;
                                 dy_ext1 = dy_ext1 - 1
                             in (ysv_ext0, ysv_ext1, dy_ext0, dy_ext1))))
                   else
                     (let ysv_ext1 = ysb;
                          ysv_ext0 = ysv_ext1;
                          dy_ext1 = dy0 - (SQUISH_CONSTANT_4D * 3);
                          dy_ext0 = dy_ext1
                      in (ysv_ext0, ysv_ext1, dy_ext0, dy_ext1)));
                (zsv_ext0, zsv_ext1, dz_ext0, dz_ext1) =
                  (if (c AND 0x04) \<noteq> 0 then
                     (let zsv_ext1 = zsb + 1;
                          zsv_ext0 = zsv_ext1;
                          dz_ext1 = dz0 - 1 - (SQUISH_CONSTANT_4D * 3);
                          dz_ext0 = dz_ext1
                      in
                         (if \<not> ((c AND 0x03) \<noteq> 0) then
                            (let zsv_ext0 = zsv_ext0 + 1;
                                 dz_ext0 = dz_ext0 - 1
                             in (zsv_ext0, zsv_ext1, dz_ext0, dz_ext1))
                          else
                            (let zsv_ext1 = zsv_ext1 + 1;
                                 dz_ext1 = dz_ext1 - 1
                             in (zsv_ext0, zsv_ext1, dz_ext0, dz_ext1))))
                   else
                     (let zsv_ext1 = zsb;
                          zsv_ext0 = zsv_ext1;
                          dz_ext1 = dz0 - (SQUISH_CONSTANT_4D * 3);
                          dz_ext0 = dz_ext1
                      in (zsv_ext0, zsv_ext1, dz_ext0, dz_ext1)));
                (wsv_ext0, wsv_ext1, dw_ext0, dw_ext1) =
                  (if (c AND 0x08) \<noteq> 0 then
                     (let wsv_ext0 = wsb + 1;
                          wsv_ext1 = wsb + 2;
                          dw_ext0 = dw0 - 1 - (SQUISH_CONSTANT_4D * 3);
                          dw_ext1 = dw0 - 2 - (SQUISH_CONSTANT_4D * 3)
                      in (wsv_ext0, wsv_ext1, dw_ext0, dw_ext1))
                   else
                     (let wsv_ext1 = wsb;
                          wsv_ext0 = wsv_ext1;
                          dw_ext1 = dw0 - (SQUISH_CONSTANT_4D * 3);
                          dw_ext0 = dw_ext1
                      in (wsv_ext0, wsv_ext1, dw_ext0, dw_ext1)))
            in (xsv_ext0, ysv_ext0, zsv_ext0, wsv_ext0, xsv_ext1, ysv_ext1, zsv_ext1, wsv_ext1, xsv_ext2, ysv_ext2, zsv_ext2, wsv_ext2, dx_ext0, dy_ext0, dz_ext0, dw_ext0, dx_ext1, dy_ext1, dz_ext1, dw_ext1, dx_ext2, dy_ext2, dz_ext2, dw_ext2)))
      else
        (let (c1, c2) =
               (if aIsBiggerSide then
                  (let c1 = aPoint;
                       c2 = bPoint
                   in (c1, c2))
                else
                  (let c1 = bPoint;
                       c2 = aPoint
                   in (c1, c2)));
             (xsv_ext0, xsv_ext1, dx_ext0, dx_ext1) =
               (if (c1 AND 0x01) \<noteq> 0 then
                  (let xsv_ext0 = xsb + 2;
                       xsv_ext1 = xsb + 1;
                       dx_ext0 = dx0 - 2 - (SQUISH_CONSTANT_4D * 3);
                       dx_ext1 = dx0 - 1 - (SQUISH_CONSTANT_4D * 3)
                   in (xsv_ext0, xsv_ext1, dx_ext0, dx_ext1))
                else
                  (let xsv_ext1 = xsb;
                       xsv_ext0 = xsv_ext1;
                       dx_ext1 = dx0 - (SQUISH_CONSTANT_4D * 3);
                       dx_ext0 = dx_ext1
                   in (xsv_ext0, xsv_ext1, dx_ext0, dx_ext1)));
             (ysv_ext0, ysv_ext1, dy_ext0, dy_ext1) =
               (if (c1 AND 0x02) \<noteq> 0 then
                  (let ysv_ext1 = ysb + 1;
                       ysv_ext0 = ysv_ext1;
                       dy_ext1 = dy0 - 1 - (SQUISH_CONSTANT_4D * 3);
                       dy_ext0 = dy_ext1
                   in
                      (if \<not> ((c1 AND 0x01) \<noteq> 0) then
                         (let ysv_ext0 = ysv_ext0 + 1;
                              dy_ext0 = dy_ext0 - 1
                          in (ysv_ext0, ysv_ext1, dy_ext0, dy_ext1))
                       else
                         (let ysv_ext1 = ysv_ext1 + 1;
                              dy_ext1 = dy_ext1 - 1
                          in (ysv_ext0, ysv_ext1, dy_ext0, dy_ext1))))
                else
                  (let ysv_ext1 = ysb;
                       ysv_ext0 = ysv_ext1;
                       dy_ext1 = dy0 - (SQUISH_CONSTANT_4D * 3);
                       dy_ext0 = dy_ext1
                   in (ysv_ext0, ysv_ext1, dy_ext0, dy_ext1)));
             (zsv_ext0, zsv_ext1, dz_ext0, dz_ext1) =
               (if (c1 AND 0x04) \<noteq> 0 then
                  (let zsv_ext1 = zsb + 1;
                       zsv_ext0 = zsv_ext1;
                       dz_ext1 = dz0 - 1 - (SQUISH_CONSTANT_4D * 3);
                       dz_ext0 = dz_ext1
                   in
                      (if \<not> ((c1 AND 0x03) \<noteq> 0) then
                         (let zsv_ext0 = zsv_ext0 + 1;
                              dz_ext0 = dz_ext0 - 1
                          in (zsv_ext0, zsv_ext1, dz_ext0, dz_ext1))
                       else
                         (let zsv_ext1 = zsv_ext1 + 1;
                              dz_ext1 = dz_ext1 - 1
                          in (zsv_ext0, zsv_ext1, dz_ext0, dz_ext1))))
                else
                  (let zsv_ext1 = zsb;
                       zsv_ext0 = zsv_ext1;
                       dz_ext1 = dz0 - 3 * (SQUISH_CONSTANT_4D * 3);
                       dz_ext0 = dz_ext1
                   in (zsv_ext0, zsv_ext1, dz_ext0, dz_ext1)));
             (wsv_ext0, wsv_ext1, dw_ext0, dw_ext1) =
               (if (c1 AND 0x08) \<noteq> 0 then
                  (let wsv_ext0 = wsb + 1;
                       wsv_ext1 = wsb + 2;
                       dw_ext0 = dw0 - 1 - (SQUISH_CONSTANT_4D * 3);
                       dw_ext1 = dw0 - 2 - (SQUISH_CONSTANT_4D * 3)
                   in (wsv_ext0, wsv_ext1, dw_ext0, dw_ext1))
                else
                  (let wsv_ext1 = wsb;
                       wsv_ext0 = wsv_ext1;
                       dw_ext1 = dw0 - (SQUISH_CONSTANT_4D * 3);
                       dw_ext0 = dw_ext1
                   in (wsv_ext0, wsv_ext1, dw_ext0, dw_ext1)));
             xsv_ext2 = xsb + 1;
             ysv_ext2 = ysb + 1;
             zsv_ext2 = zsb + 1;
             wsv_ext2 = wsb + 1;
             dx_ext2 = dx0 - 1 - (SQUISH_CONSTANT_4D * 2);
             dy_ext2 = dy0 - 1 - (SQUISH_CONSTANT_4D * 2);
             dz_ext2 = dz0 - 1 - (SQUISH_CONSTANT_4D * 2);
             dw_ext2 = dw0 - 1 - (SQUISH_CONSTANT_4D * 2);
             (xsv_ext2, ysv_ext2, zsv_ext2, wsv_ext2, dx_ext2, dy_ext2, dz_ext2, dw_ext2) =
               (if \<not> ((c2 AND 0x01) \<noteq> 0) then
                  (let xsv_ext2 = xsv_ext2 - 2;
                       dx_ext2 = dx_ext2 + 2
                   in (xsv_ext2, ysv_ext2, zsv_ext2, wsv_ext2, dx_ext2, dy_ext2, dz_ext2, dw_ext2))
                else
                  (if \<not> ((c2 AND 0x02) \<noteq> 0) then
                     (let ysv_ext2 = ysv_ext2 - 2;
                          dy_ext2 = dy_ext2 + 2
                      in (xsv_ext2, ysv_ext2, zsv_ext2, wsv_ext2, dx_ext2, dy_ext2, dz_ext2, dw_ext2))
                   else
                     (if \<not> ((c2 AND 0x04) \<noteq> 0) then
                        (let zsv_ext2 = zsv_ext2 - 2;
                             dz_ext2 = dz_ext2 + 2
                         in (xsv_ext2, ysv_ext2, zsv_ext2, wsv_ext2, dx_ext2, dy_ext2, dz_ext2, dw_ext2))
                      else
                        (let wsv_ext2 = wsv_ext2 - 2;
                             dw_ext2 = dw_ext2 + 2
                         in (xsv_ext2, ysv_ext2, zsv_ext2, wsv_ext2, dx_ext2, dy_ext2, dz_ext2, dw_ext2)))))
         in (xsv_ext0, ysv_ext0, zsv_ext0, wsv_ext0, xsv_ext1, ysv_ext1, zsv_ext1, wsv_ext1, xsv_ext2, ysv_ext2, zsv_ext2, wsv_ext2, dx_ext0, dy_ext0, dz_ext0, dw_ext0, dx_ext1, dy_ext1, dz_ext1, dw_ext1, dx_ext2, dy_ext2, dz_ext2, dw_ext2)))"

definition eval4_dispentachoron_second ::
  "vertex4 list \<Rightarrow> real \<Rightarrow> real \<Rightarrow> real \<Rightarrow>
   real \<Rightarrow> c_long \<Rightarrow> c_long \<Rightarrow> c_long \<Rightarrow>
   c_long \<Rightarrow> real \<Rightarrow> real \<Rightarrow> real \<Rightarrow>
   real \<Rightarrow> real \<Rightarrow>
   (vertex4 list \<times> c_long \<times> c_long \<times> c_long \<times> c_long \<times> c_long \<times> c_long \<times> c_long \<times> c_long \<times> c_long \<times> c_long \<times> c_long \<times> c_long \<times> real \<times> real \<times> real \<times> real \<times> real \<times> real \<times> real \<times> real \<times> real \<times> real \<times> real \<times> real)" where
  "eval4_dispentachoron_second vs dx0 dy0 dz0 dw0 xsb ysb zsb wsb xins yins zins wins inSum =
     (let (aPoint, bPoint, aScore, bScore, aIsBiggerSide, bIsBiggerSide) = eval4_dispentachoron_second_pairs xins yins zins wins;
          (aPoint, bPoint, aIsBiggerSide, bIsBiggerSide) = eval4_dispentachoron_second_singles xins yins zins wins inSum aPoint bPoint aScore bScore aIsBiggerSide bIsBiggerSide;
          (xsv_ext0, ysv_ext0, zsv_ext0, wsv_ext0, xsv_ext1, ysv_ext1, zsv_ext1, wsv_ext1, xsv_ext2, ysv_ext2, zsv_ext2, wsv_ext2, dx_ext0, dy_ext0, dz_ext0, dw_ext0, dx_ext1, dy_ext1, dz_ext1, dw_ext1, dx_ext2, dy_ext2, dz_ext2, dw_ext2) = eval4_dispentachoron_second_extra dx0 dy0 dz0 dw0 xsb ysb zsb wsb aPoint bPoint aIsBiggerSide bIsBiggerSide;
          dx4 = dx0 - 1 - (SQUISH_CONSTANT_4D * 3);
          dy4 = dy0 - 1 - (SQUISH_CONSTANT_4D * 3);
          dz4 = dz0 - 1 - (SQUISH_CONSTANT_4D * 3);
          dw4 = dw0 - (SQUISH_CONSTANT_4D * 3);
          vs = vs @ [((xsb + 1, ysb + 1, zsb + 1, wsb), (dx4, dy4, dz4, dw4))];
          dx3 = dx4;
          dy3 = dy4;
          dz3 = dz0 - (SQUISH_CONSTANT_4D * 3);
          dw3 = dw0 - 1 - (SQUISH_CONSTANT_4D * 3);
          vs = vs @ [((xsb + 1, ysb + 1, zsb, wsb + 1), (dx3, dy3, dz3, dw3))];
          vs =
            (let dx2 = dx4;
                 dy2 = dy0 - (SQUISH_CONSTANT_4D * 3);
                 dz2 = dz4;
                 dw2 = dw3
             in vs @ [((xsb + 1, ysb, zsb + 1, wsb + 1), (dx2, dy2, dz2, dw2))]);
          vs =
            (let dx1 = dx0 - (SQUISH_CONSTANT_4D * 3);
                 dz1 = dz4;
                 dy1 = dy4;
                 dw1 = dw3
             in vs @ [((xsb, ysb + 1, zsb + 1, wsb + 1), (dx1, dy1, dz1, dw1))]);
          vs =
            (let dx5 = dx0 - 1 - (SQUISH_CONSTANT_4D * 2);
                 dy5 = dy0 - 1 - (SQUISH_CONSTANT_4D * 2);
                 dz5 = dz0 - (SQUISH_CONSTANT_4D * 2);
                 dw5 = dw0 - (SQUISH_CONSTANT_4D * 2)
             in vs @ [((xsb + 1, ysb + 1, zsb, wsb), (dx5, dy5, dz5, dw5))]);
          vs =
            (let dx6 = dx0 - 1 - (SQUISH_CONSTANT_4D * 2);
                 dy6 = dy0 - (SQUISH_CONSTANT_4D * 2);
                 dz6 = dz0 - 1 - (SQUISH_CONSTANT_4D * 2);
                 dw6 = dw0 - (SQUISH_CONSTANT_4D * 2)
             in vs @ [((xsb + 1, ysb, zsb + 1, wsb), (dx6, dy6, dz6, dw6))]);
          vs =
            (let dx7 = dx0 - 1 - (SQUISH_CONSTANT_4D * 2);
                 dy7 = dy0 - (SQUISH_CONSTANT_4D * 2);
                 dz7 = dz0 - (SQUISH_CONSTANT_4D * 2);
                 dw7 = dw0 - 1 - (SQUISH_CONSTANT_4D * 2)
             in vs @ [((xsb + 1, ysb, zsb, wsb + 1), (dx7, dy7, dz7, dw7))]);
          vs =
            (let dx8 = dx0 - (SQUISH_CONSTANT_4D * 2);
                 dy8 = dy0 - 1 - (SQUISH_CONSTANT_4D * 2);
                 dz8 = dz0 - 1 - (SQUISH_CONSTANT_4D * 2);
                 dw8 = dw0 - (SQUISH_CONSTANT_4D * 2)
             in vs @ [((xsb, ysb + 1, zsb + 1, wsb), (dx8, dy8, dz8, dw8))]);
          vs =
            (let dx9 = dx0 - (SQUISH_CONSTANT_4D * 2);
                 dy9 = dy0 - 1 - (SQUISH_CONSTANT_4D * 2);
                 dz9 = dz0 - (SQUISH_CONSTANT_4D * 2);
                 dw9 = dw0 - 1 - (SQUISH_CONSTANT_4D * 2)
             in vs @ [((xsb, ysb + 1, zsb, wsb + 1), (dx9, dy9, dz9, dw9))]);
          vs =
            (let dx10 = dx0 - (SQUISH_CONSTANT_4D * 2);
                 dy10 = dy0 - (SQUISH_CONSTANT_4D * 2);
                 dz10 = dz0 - 1 - (SQUISH_CONSTANT_4D * 2);
                 dw10 = dw0 - 1 - (SQUISH_CONSTANT_4D * 2)
             in vs @ [((xsb, ysb, zsb + 1, wsb + 1), (dx10, dy10, dz10, dw10))])
      in (vs, xsv_ext0, ysv_ext0, zsv_ext0, wsv_ext0, xsv_ext1, ysv_ext1, zsv_ext1, wsv_ext1, xsv_ext2, ysv_ext2, zsv_ext2, wsv_ext2, dx_ext0, dy_ext0, dz_ext0, dw_ext0, dx_ext1, dy_ext1, dz_ext1, dw_ext1, dx_ext2, dy_ext2, dz_ext2, dw_ext2))"

definition eval4_vertices ::
  "real \<Rightarrow> real \<Rightarrow> real \<Rightarrow> real \<Rightarrow> vertex4 list" where
  "eval4_vertices x y z w =
     (let (dx0, dy0, dz0, dw0, xsb, ysb, zsb, wsb, xins, yins, zins, wins) =
            (let stretchOffset = (x + y + z + w) * STRETCH_CONSTANT_4D;
                 xs = x + stretchOffset;
                 ys = y + stretchOffset;
                 zs = z + stretchOffset;
                 ws = w + stretchOffset;
                 xsbd = real_of_int \<lfloor>xs\<rfloor>;
                 ysbd = real_of_int \<lfloor>ys\<rfloor>;
                 zsbd = real_of_int \<lfloor>zs\<rfloor>;
                 wsbd = real_of_int \<lfloor>ws\<rfloor>;
                 xsb = to_long xsbd;
                 ysb = to_long ysbd;
                 zsb = to_long zsbd;
                 wsb = to_long wsbd;
                 squishOffset = (xsbd + ysbd + zsbd + wsbd) * SQUISH_CONSTANT_4D;
                 xb = xsbd + squishOffset;
                 yb = ysbd + squishOffset;
                 zb = zsbd + squishOffset;
                 wb = wsbd + squishOffset;
                 dx0 = x - xb;
                 dy0 = y - yb;
                 dz0 = z - zb;
                 dw0 = w - wb;
                 xins = xs - xsbd;
                 yins = ys - ysbd;
                 zins = zs - zsbd;
                 wins = ws - wsbd
             in (dx0, dy0, dz0, dw0, xsb, ysb, zsb, wsb, xins, yins, zins, wins));
          vs = ([] :: vertex4 list);
          inSum = xins + yins + zins + wins;
          (vs, xsv_ext0, ysv_ext0, zsv_ext0, wsv_ext0, xsv_ext1, ysv_ext1, zsv_ext1, wsv_ext1, xsv_ext2, ysv_ext2, zsv_ext2, wsv_ext2, dx_ext0, dy_ext0, dz_ext0, dw_ext0, dx_ext1, dy_ext1, dz_ext1, dw_ext1, dx_ext2, dy_ext2, dz_ext2, dw_ext2) =
            (if inSum \<le> 1 then
               eval4_pentachoron_origin dx0 dy0 dz0 dw0 xsb ysb zsb wsb xins yins zins wins inSum
             else
               (if inSum \<ge> 3 then
                  eval4_pentachoron_far dx0 dy0 dz0 dw0 xsb ysb zsb wsb xins yins zins wins inSum
                else
                  (if inSum \<le> 2 then
                     eval4_dispentachoron_first vs dx0 dy0 dz0 dw0 xsb ysb zsb wsb xins yins zins wins inSum
                   else
                     eval4_dispentachoron_second vs dx0 dy0 dz0 dw0 xsb ysb zsb wsb xins yins zins wins inSum)));
          vs = vs @ [((xsv_ext0, ysv_ext0, zsv_ext0, wsv_ext0), (dx_ext0, dy_ext0, dz_ext0, dw_ext0))];
          vs = vs @ [((xsv_ext1, ysv_ext1, zsv_ext1, wsv_ext1), (dx_ext1, dy_ext1, dz_ext1, dw_ext1))]
      in vs @ [((xsv_ext2, ysv_ext2, zsv_ext2, wsv_ext2), (dx_ext2, dy_ext2, dz_ext2, dw_ext2))])"

definition attn4 :: "real \<times> real \<times> real \<times> real \<Rightarrow> real" where
  "attn4 d = (case d of (dx, dy, dz, dw) \<Rightarrow> (dx * dx) + (dy * dy) + (dz * dz) + (dw * dw))"

fun accumulate4 :: "'a NoiseBase_scheme \<Rightarrow> vertex4 list \<Rightarrow> real \<Rightarrow> real option" where
  "accumulate4 nb [] value = Some value"
| "accumulate4 nb (((xsv, ysv, zsv, wsv), (dx, dy, dz, dw)) # vs) value = do {
     e \<leftarrow> extrapolate4 nb xsv ysv zsv wsv dx dy dz dw;
     accumulate4 nb vs (value + kernel (attn4 (dx, dy, dz, dw)) * e)
   }"

definition eval4 ::
  "'a NoiseBase_scheme \<Rightarrow> real \<Rightarrow> real \<Rightarrow> real \<Rightarrow> real \<Rightarrow> real option" where
  "eval4 nb x y z w = do {
     value \<leftarrow> accumulate4 nb (eval4_vertices x y z w) 0;
     Some (value / NORM_CONSTANT_4D)
   }"

section \<open>The shuffle as the specification words it\<close>

text \<open>
  The generator state used at index \<open>i\<close>: the seed advanced three times before the loop and
  once for each of the indices \<open>255, ..., i\<close>.
\<close>

definition spec_state :: "c_long \<Rightarrow> nat \<Rightarrow> c_long" where
  "spec_state seed i = (LCG_STEP ^^ (3 + (256 - i))) seed"

text \<open>The integer drawn at index \<open>i\<close>, a remainder in the mathematical sense.\<close>

definition spec_draw :: "c_long \<Rightarrow> nat \<Rightarrow> nat" where
  "spec_draw seed i = nat (sint (spec_state seed i + 31) mod (int i + 1))"

text \<open>
  The working array and the entries \<open>perm[256 - k], ..., perm[255]\<close> after \<open>k\<close> steps of the
  shuffle: step \<open>i\<close> sets \<open>perm[i] = source[r]\<close>, then \<open>source[r] = source[i]\<close>.
\<close>

fun spec_shuffle :: "c_long \<Rightarrow> nat \<Rightarrow> c_int list \<times> c_int list" where
  "spec_shuffle seed 0 = (source_init, [])"
| "spec_shuffle seed (Suc k) =
     (let (source, filled) = spec_shuffle seed k;
          i = 255 - k;
          r = spec_draw seed i
      in (source[r := source ! i], source ! r # filled))"

section \<open>Sample inputs\<close>

text \<open>Zeroed storage for the member arrays, and a table that repeats one value.\<close>

definition zero_mem :: "c_int list" where
  "zero_mem = replicate 256 0"

definition const_table :: "c_int \<Rightarrow> c_int list" where
  "const_table v = replicate 256 v"

section \<open>The extrapolation primitive as the specification words it\<close>

text \<open>
  The hash of the lattice coordinates: the coordinates are folded through the table from
  left to right, \<open>h = perm[(perm[... perm[c1 & 0xFF] ... ] + cN) & 0xFF]\<close>. The table and the
  coordinates are given by their integer values.
\<close>

definition spec_hash :: "int list \<Rightarrow> int list \<Rightarrow> int" where
  "spec_hash tbl coords = foldl (\<lambda>h c. tbl ! nat ((h + c) mod 256)) 0 coords"

text \<open>The gradient of \<open>n\<close> components that starts at offset \<open>off\<close> of a gradient set.\<close>

definition spec_gradient :: "int list \<Rightarrow> nat \<Rightarrow> int \<Rightarrow> int list" where
  "spec_gradient grads n off = take n (drop (nat off) grads)"

definition spec_dot :: "int list \<Rightarrow> real list \<Rightarrow> real" where
  "spec_dot g d = (\<Sum>(a, b) \<leftarrow> zip g d. real_of_int a * b)"

text \<open>A table of the data model: 256 entries, each in \<open>[0, 255]\<close>.\<close>

definition table_ok :: "c_int list \<Rightarrow> bool" where
  "table_ok t \<longleftrightarrow> length t = 256 \<and> (\<forall>v \<in> set t. 0 \<le> sint v \<and> sint v \<le> 255)"

section \<open>Sample inputs\<close>

lemma length_zero_mem: "length zero_mem = 256"
  by (simp add: zero_mem_def)

lemma length_const_table: "length (const_table v) = 256"
  by (simp add: const_table_def)

section \<open>Words\<close>

lemma uint_and_FF: "uint ((w::c_long) AND 0xFF) = uint w mod 256"
proof -
  have "(0xFF::int) = mask 8" by (simp add: mask_eq_exp_minus_1)
  then have "uint w AND 0xFF = take_bit 8 (uint w)" by (simp only: take_bit_eq_mask)
  then show ?thesis by (simp add: uint_and take_bit_eq_mod)
qed

lemma sint_mod_256: "sint (w::c_long) mod 256 = uint w mod 256"
proof -
  have "uint w = sint w mod 2 ^ 64" by (simp add: uint_sint take_bit_eq_mod)
  moreover have "(256::int) dvd 2 ^ 64" by simp
  ultimately show ?thesis by (simp only: mod_mod_cancel)
qed

lemma sint_and_FF: "sint ((w::c_long) AND 0xFF) = sint w mod 256"
proof -
  have b: "0 \<le> uint w mod 256" "uint w mod 256 < 256" by simp_all
  have "sint (w AND 0xFF) = signed_take_bit 63 (uint (w AND 0xFF))"
    by (simp add: sint_uint)
  also have "\<dots> = uint w mod 256"
    unfolding uint_and_FF using b by (intro signed_take_bit_int_eq_self) simp_all
  finally show ?thesis by (simp add: sint_mod_256)
qed

lemma sint_and_FF_range: "0 \<le> sint ((w::c_long) AND 0xFF) \<and> sint ((w::c_long) AND 0xFF) < 256"
  by (simp add: sint_and_FF)

lemma arr_read_perm:
  "length t = 256 \<Longrightarrow> arr_read t (sint ((w::c_long) AND 0xFF)) = Some (t ! nat (sint w mod 256))"
  using sint_and_FF_range [of w] by (simp add: arr_read_def sint_and_FF)

lemma sint_scast_add_mod: "sint (scast (p::c_int) + (y::c_long)) mod 256 = (sint p + sint y) mod 256"
proof -
  have "sint (scast p + y) mod 256 = uint (scast p + y) mod 256" by (rule sint_mod_256)
  also have "\<dots> = ((uint (scast p :: c_long) + uint y) mod 2 ^ 64) mod 256"
    by (simp add: uint_word_ariths)
  also have "\<dots> = (uint (scast p :: c_long) + uint y) mod 256"
    by (rule mod_mod_cancel) simp
  also have "\<dots> = (uint (scast p :: c_long) mod 256 + uint y mod 256) mod 256"
    by (simp add: mod_add_eq)
  also have "\<dots> = (sint (scast p :: c_long) mod 256 + sint y mod 256) mod 256"
    by (simp only: sint_mod_256)
  also have "\<dots> = (sint (scast p :: c_long) + sint y) mod 256"
    by (simp add: mod_add_eq)
  also have "sint (scast p :: c_long) = sint p"
    by (simp add: sint_up_scast is_up)
  finally show ?thesis .
qed

lemma and_FF_period: "(x + 256 * k) AND 0xFF = x AND (0xFF::c_long)"
proof -
  have "uint ((x + 256 * k) AND 0xFF) = uint (x AND 0xFF)"
  proof -
    have "uint (x + 256 * k) mod 256 = ((uint x + uint (256 * k)) mod 2 ^ 64) mod 256"
      by (simp add: uint_word_ariths)
    also have "\<dots> = (uint x + uint (256 * k)) mod 256"
      by (rule mod_mod_cancel) simp
    also have "uint (256 * k) = (256 * uint k) mod 2 ^ 64"
      by (simp add: uint_word_ariths)
    also have "(uint x + (256 * uint k) mod 2 ^ 64) mod 256 = (uint x mod 256 + ((256 * uint k) mod 2 ^ 64) mod 256) mod 256"
      by (simp add: mod_add_eq)
    also have "((256 * uint k) mod 2 ^ 64) mod 256 = (256 * uint k) mod 256"
      by (rule mod_mod_cancel) simp
    finally show ?thesis by (simp add: uint_and_FF)
  qed
  then show ?thesis by (rule word_uint_eqI)
qed

lemma uint_and_0E: "uint ((p::c_int) AND 0x0E) \<le> 14"
proof -
  have "uint (p AND 0x0E) = uint p AND 14" by (simp add: uint_and)
  also have "\<dots> \<le> 14" by (rule AND_upper2) simp
  finally show ?thesis .
qed

lemma uint_and_FC: "uint ((p::c_int) AND 0xFC) \<le> 252"
proof -
  have "uint (p AND 0xFC) = uint p AND 252" by (simp add: uint_and)
  also have "\<dots> \<le> 252" by (rule AND_upper2) simp
  finally show ?thesis .
qed

lemma uint_add_small:
  "uint (w::c_int) \<le> 1000 \<Longrightarrow> k \<le> 1000 \<Longrightarrow> 0 \<le> k \<Longrightarrow> uint (w + word_of_int k) = uint w + k"
  by (simp add: uint_word_ariths take_bit_eq_mod uint_word_of_int)

section \<open>The seeded constructors\<close>

lemma smod_fix_eq_mod:
  fixes a n :: int
  assumes "0 < n"
  shows "(let r = a smod n in if r < 0 then r + n else r) = a mod n"
proof -
  have b: "0 \<le> a mod n" "a mod n < n" using assms by simp_all
  show ?thesis
    using assms b
    by (auto simp: Let_def signed_modulo_int_eq_modulo_int sgn_if split: if_splits)
qed

lemma draw_eq_mod: "0 \<le> i \<Longrightarrow> draw seed i = sint (seed + 31) mod (i + 1)"
  unfolding draw_def by (rule smod_fix_eq_mod) simp

lemma draw_range: "0 \<le> i \<Longrightarrow> 0 \<le> draw seed i \<and> draw seed i \<le> i"
  using pos_mod_bound [of "i + 1" "sint (seed + 31)"] by (simp add: draw_eq_mod)

lemma spec_draw_le: "spec_draw seed i \<le> i"
  using pos_mod_bound [of "int i + 1" "sint (spec_state seed i + 31)"]
  by (simp add: spec_draw_def)

lemma shuffle_loop_unfold:
  "0 \<le> i \<Longrightarrow> shuffle_loop i seed source prm =
     shuffle_loop (i - 1) (LCG_STEP seed)
       (source[nat (draw (LCG_STEP seed) i) := source ! nat i])
       (prm[nat i := source ! nat (draw (LCG_STEP seed) i)])"
  by (subst shuffle_loop.simps) (simp add: Let_def)

lemma shuffle_loop_done: "i < 0 \<Longrightarrow> shuffle_loop i seed source prm = prm"
  by (subst shuffle_loop.simps) simp

lemma shuffle_loop_refines:
  "k \<le> 256 \<Longrightarrow> length prm = 256 \<Longrightarrow> drop (256 - k) prm = snd (spec_shuffle seed k) \<Longrightarrow>
   shuffle_loop (255 - int k) ((LCG_STEP ^^ (3 + k)) seed) (fst (spec_shuffle seed k)) prm
     = snd (spec_shuffle seed 256)"
proof (induction "256 - k" arbitrary: k prm)
  case 0
  then have "k = 256" by simp
  with 0 show ?case by (simp add: shuffle_loop_done)
next
  case (Suc d)
  note spec_shuffle.simps(2) [simp del]
  from Suc have k: "k < 256" by simp
  define i where "i = 255 - k"
  have i: "255 - int k = int i" "i < 256" "256 - k = Suc i" "256 - Suc k = i" "256 - i = Suc k"
    using k by (simp_all add: i_def)
  define src where "src = fst (spec_shuffle seed k)"
  have e: "3 + (256 - i) = Suc (3 + k)" using i by simp
  have st: "LCG_STEP ((LCG_STEP ^^ (3 + k)) seed) = spec_state seed i"
    unfolding spec_state_def e by (simp only: funpow.simps o_apply)
  have dr: "nat (draw (spec_state seed i) (int i)) = spec_draw seed i"
    by (simp add: draw_eq_mod spec_draw_def)
  have sp: "spec_shuffle seed (Suc k) =
      (src[spec_draw seed i := src ! i], src ! spec_draw seed i # snd (spec_shuffle seed k))"
    by (simp add: spec_shuffle.simps(2) split_beta Let_def src_def i_def)
  have st': "(LCG_STEP ^^ (3 + Suc k)) seed = spec_state seed i"
    unfolding spec_state_def e by simp
  have i': "255 - int (Suc k) = int i - 1"
    using k by (simp add: i_def)
  have "shuffle_loop (int i) ((LCG_STEP ^^ (3 + k)) seed) src prm
      = shuffle_loop (int i - 1) (spec_state seed i)
          (src[nat (draw (spec_state seed i) (int i)) := src ! nat (int i)])
          (prm[nat (int i) := src ! nat (draw (spec_state seed i) (int i))])"
    unfolding st [symmetric] by (rule shuffle_loop_unfold) simp
  then have "shuffle_loop (255 - int k) ((LCG_STEP ^^ (3 + k)) seed) src prm
      = shuffle_loop (255 - int (Suc k)) ((LCG_STEP ^^ (3 + Suc k)) seed)
          (src[spec_draw seed i := src ! i]) (prm[i := src ! spec_draw seed i])"
    unfolding st' i' i(1) dr by simp
  also have "\<dots> = snd (spec_shuffle seed 256)"
  proof -
    have "drop (256 - Suc k) (prm[i := src ! spec_draw seed i])
        = src ! spec_draw seed i # drop (256 - k) prm"
      using Suc.prems i by (simp add: Cons_nth_drop_Suc [symmetric])
    then have "drop (256 - Suc k) (prm[i := src ! spec_draw seed i]) = snd (spec_shuffle seed (Suc k))"
      using Suc.prems by (simp add: sp)
    moreover have "src[spec_draw seed i := src ! i] = fst (spec_shuffle seed (Suc k))"
      by (simp add: sp)
    ultimately show ?thesis
      using Suc.hyps(1) [of "Suc k" "prm[i := src ! spec_draw seed i]"] Suc.hyps(2) Suc.prems k
      by simp
  qed
  finally show ?case by (simp add: src_def)
qed

lemma NoiseBase_seed_spec:
  assumes "length mem = 256"
  shows "perm (NoiseBase_seed mem seed) = snd (spec_shuffle seed 256)"
  using shuffle_loop_refines [of 0 mem seed] assms
  by (simp add: NoiseBase_seed_def numeral_3_eq_3)

lemma shuffle_step_mset:
  assumes "r \<le> n" "n < length source" "n < length prm"
  shows "mset (take n (source[r := source ! n])) + mset (drop n (prm[n := source ! r]))
       = mset (take (Suc n) source) + mset (drop (Suc n) prm)"
proof -
  have d: "drop n (prm[n := source ! r]) = source ! r # drop (Suc n) prm"
    using assms by (simp add: Cons_nth_drop_Suc [symmetric])
  have t: "take (Suc n) source = take n source @ [source ! n]"
    using assms by (simp add: take_Suc_conv_app_nth)
  show ?thesis
  proof (cases "r = n")
    case True
    then show ?thesis using d t by simp
  next
    case False
    with assms have rn: "r < n" by simp
    then have rl: "r < length (take n source)" using assms by simp
    have "take n (source[r := source ! n]) = (take n source)[r := source ! n]"
      by (simp add: take_update_swap)
    moreover have "mset ((take n source)[r := source ! n])
        = add_mset (source ! n) (mset (take n source) - {#take n source ! r#})"
      using rl by (rule mset_update)
    moreover have "take n source ! r = source ! r" using rn by simp
    moreover have "source ! r \<in># mset (take n source)"
      using rl rn by (metis in_set_conv_nth nth_take set_mset_mset)
    ultimately show ?thesis using d t by simp
  qed
qed

lemma shuffle_loop_length:
  "length prm = 256 \<Longrightarrow> length (shuffle_loop i seed source prm) = 256"
proof (induction i seed source prm rule: shuffle_loop.induct)
  case (1 i seed source prm)
  show ?case
  proof (cases "0 \<le> i")
    case True
    then show ?thesis using 1 by (subst shuffle_loop.simps) (simp add: Let_def)
  next
    case False
    then show ?thesis using 1 by (subst shuffle_loop.simps) simp
  qed
qed

lemma shuffle_loop_mset:
  "- 1 \<le> i \<Longrightarrow> i < 256 \<Longrightarrow> length source = 256 \<Longrightarrow> length prm = 256 \<Longrightarrow>
   mset (shuffle_loop i seed source prm)
     = mset (take (nat (i + 1)) source) + mset (drop (nat (i + 1)) prm)"
proof (induction i seed source prm rule: shuffle_loop.induct)
  case (1 i seed source prm)
  show ?case
  proof (cases "0 \<le> i")
    case False
    with 1 have "i = - 1" by simp
    then show ?thesis by (subst shuffle_loop.simps) simp
  next
    case True
    define s' where "s' = LCG_STEP seed"
    define r where "r = draw s' i"
    have rr: "0 \<le> r" "r \<le> i" using draw_range [OF True, of s'] by (simp_all add: r_def)
    define n where "n = nat i"
    have n: "nat r \<le> n" "n < length source" "n < length prm" "nat (i + 1) = Suc n" "nat (i - 1 + 1) = n"
      using rr True 1(2-) by (simp_all add: n_def)
    have "mset (shuffle_loop i seed source prm)
        = mset (shuffle_loop (i - 1) s' (source[nat r := source ! n]) (prm[n := source ! nat r]))"
      using True by (subst shuffle_loop.simps) (simp add: Let_def s'_def r_def n_def)
    also have "\<dots> = mset (take n (source[nat r := source ! n])) + mset (drop n (prm[n := source ! nat r]))"
      using "1.IH" [OF True s'_def r_def refl refl] True 1(2-) n
      by (simp add: n_def)
    also have "\<dots> = mset (take (Suc n) source) + mset (drop (Suc n) prm)"
      using n by (intro shuffle_step_mset) simp_all
    finally show ?thesis using n by simp
  qed
qed

lemma shuffle_loop3_fst:
  "fst (shuffle_loop3 i seed source prm pgi) = shuffle_loop i seed source prm"
proof (induction i seed source prm pgi rule: shuffle_loop3.induct)
  case (1 i seed source prm pgi)
  show ?case
  proof (cases "0 \<le> i")
    case True
    then show ?thesis
      using 1 [OF True refl refl refl refl refl]
      by (subst shuffle_loop3.simps, subst shuffle_loop.simps) (simp add: Let_def)
  next
    case False
    then show ?thesis
      by (subst shuffle_loop3.simps, subst shuffle_loop.simps) simp
  qed
qed

lemma shuffle_loop3_snd:
  "- 1 \<le> i \<Longrightarrow> i < 256 \<Longrightarrow> length prm = 256 \<Longrightarrow> length pgi = 256 \<Longrightarrow>
   (\<forall>j. nat (i + 1) \<le> j \<and> j < 256 \<longrightarrow> pgi ! j = grad_index3 (prm ! j)) \<Longrightarrow>
   snd (shuffle_loop3 i seed source prm pgi) = map grad_index3 (fst (shuffle_loop3 i seed source prm pgi))"
proof (induction i seed source prm pgi rule: shuffle_loop3.induct)
  case (1 i seed source prm pgi)
  show ?case
  proof (cases "0 \<le> i")
    case False
    with 1(2-) have "pgi = map grad_index3 prm"
      by (intro nth_equalityI) simp_all
    with False show ?thesis by (subst (1 2) shuffle_loop3.simps) simp
  next
    case True
    define r where "r = draw (LCG_STEP seed) i"
    define prm' where "prm' = prm[nat i := source ! nat r]"
    define pgi' where "pgi' = pgi[nat i := grad_index3 (prm' ! nat i)]"
    have inv: "\<forall>j. nat (i - 1 + 1) \<le> j \<and> j < 256 \<longrightarrow> pgi' ! j = grad_index3 (prm' ! j)"
      using 1(2-) True by (auto simp: pgi'_def prm'_def nth_list_update)
    have "snd (shuffle_loop3 (i - 1) (LCG_STEP seed) (source[nat r := source ! nat i]) prm' pgi')
        = map grad_index3 (fst (shuffle_loop3 (i - 1) (LCG_STEP seed) (source[nat r := source ! nat i]) prm' pgi'))"
      using 1(2-) True inv
      by (intro "1.IH" [OF True refl r_def prm'_def pgi'_def refl]) (simp_all add: prm'_def pgi'_def)
    then show ?thesis
      using True by (subst (1 2) shuffle_loop3.simps) (simp add: Let_def r_def prm'_def pgi'_def)
  qed
qed

lemma Noise3_seed_perm: "perm (Noise3_seed mem mem_g seed) = perm (NoiseBase_seed mem seed)"
  using shuffle_loop3_fst [of 255 "LCG_STEP (LCG_STEP (LCG_STEP seed))" source_init mem mem_g]
  by (simp add: Noise3_seed_def NoiseBase_seed_def split_beta)

lemma Noise3_seed_permGradIndex:
  "length mem = 256 \<Longrightarrow> length mem_g = 256 \<Longrightarrow>
   permGradIndex (Noise3_seed mem mem_g seed) = map grad_index3 (perm (Noise3_seed mem mem_g seed))"
proof -
  assume "length mem = 256" "length mem_g = 256"
  then have "snd (shuffle_loop3 255 (LCG_STEP (LCG_STEP (LCG_STEP seed))) source_init mem mem_g)
      = map grad_index3 (fst (shuffle_loop3 255 (LCG_STEP (LCG_STEP (LCG_STEP seed))) source_init mem mem_g))"
    by (intro shuffle_loop3_snd) auto
  then show ?thesis by (simp add: Noise3_seed_def split_beta)
qed

lemma sint_source_init: "map sint source_init = map int [0..<256]"
proof -
  have "sint (of_nat n :: c_int) = int n" if "n < 256" for n
  proof -
    have "sint (of_nat n :: c_int) = signed_take_bit 31 (int n)"
      by (simp add: signed_of_nat)
    also have "\<dots> = int n"
      using that by (intro signed_take_bit_int_eq_self) simp_all
    finally show ?thesis .
  qed
  then show ?thesis by (simp add: source_init_def)
qed

lemma NoiseBase_seed_mset:
  assumes "length mem = 256"
  shows "mset (perm (NoiseBase_seed mem seed)) = mset source_init"
  using shuffle_loop_mset [of 255 source_init mem "LCG_STEP (LCG_STEP (LCG_STEP seed))"] assms
  by (simp add: NoiseBase_seed_def source_init_def)

lemma NoiseBase_seed_length:
  "length mem = 256 \<Longrightarrow> length (perm (NoiseBase_seed mem seed)) = 256"
  by (simp add: NoiseBase_seed_def shuffle_loop_length)

lemma NoiseBase_seed_values:
  assumes "length mem = 256"
  shows "distinct (map sint (perm (NoiseBase_seed mem seed)))"
    and "set (map sint (perm (NoiseBase_seed mem seed))) = {0..255}"
proof -
  have m: "mset (map sint (perm (NoiseBase_seed mem seed))) = mset (map int [0..<256])"
    using NoiseBase_seed_mset [OF assms, of seed] sint_source_init
    by (metis mset_map)
  have "distinct (map int [0..<256])" by (simp add: distinct_map)
  then show "distinct (map sint (perm (NoiseBase_seed mem seed)))"
    using m by (metis mset_eq_imp_distinct_iff)
  have "set (map sint (perm (NoiseBase_seed mem seed))) = set (map int [0..<256])"
    using m by (rule mset_eq_setD)
  also have "\<dots> = {0..255}"
  proof -
    have "int ` {0..<256::nat} = {0..<256::int}"
      using image_int_atLeastLessThan [of 0 256] by simp
    also have "\<dots> = {0..255::int}" by auto
    finally show ?thesis by simp
  qed
  finally show "set (map sint (perm (NoiseBase_seed mem seed))) = {0..255}" .
qed

lemma bij_of_distinct:
  assumes "length xs = n" "distinct (map f xs)" "set (map f xs) = B"
  shows "bij_betw (\<lambda>i. f (xs ! i)) {0..<n} B"
proof -
  have "bij_betw ((!) (map f xs)) {..<length (map f xs)} (set (map f xs))"
    using assms(2) by (intro bij_betw_nth) simp_all
  then have "bij_betw ((!) (map f xs)) {0..<n} B"
    using assms by (simp add: lessThan_atLeast0)
  moreover have "\<And>i. i \<in> {0..<n} \<Longrightarrow> map f xs ! i = f (xs ! i)"
    using assms(1) by simp
  ultimately show ?thesis
    using bij_betw_cong [of "{0..<n}" "(!) (map f xs)" "\<lambda>i. f (xs ! i)" B] by blast
qed

section \<open>The table constructors\<close>

lemma copy_loop_eq:
  "i \<le> 256 \<Longrightarrow> 256 \<le> length p \<Longrightarrow> length prm = 256 \<Longrightarrow>
   copy_loop i p prm = Some (take i prm @ drop i (take 256 p))"
proof (induction i p prm rule: copy_loop.induct)
  case (1 i p prm)
  show ?case
  proof (cases "i < 256")
    case False
    with 1(2-) have "i = 256" by simp
    with 1(2-) show ?thesis by (subst copy_loop.simps) simp
  next
    case True
    have rd: "arr_read p (int i) = Some (p ! i)"
      using True 1(2-) by (simp add: arr_read_def)
    have "copy_loop i p prm = copy_loop (i + 1) p (prm[i := p ! i])"
      using True rd by (subst copy_loop.simps) simp
    also have "\<dots> = Some (take (i + 1) (prm[i := p ! i]) @ drop (i + 1) (take 256 p))"
      using True 1(2-) by (intro "1.IH" [OF True rd]) simp_all
    also have "take (i + 1) (prm[i := p ! i]) = take i prm @ [p ! i]"
      using True 1(2-) by (simp add: take_Suc_conv_app_nth)
    also have "(take i prm @ [p ! i]) @ drop (i + 1) (take 256 p) = take i prm @ drop i (take 256 p)"
      using True 1(2-) by (simp add: Cons_nth_drop_Suc [symmetric])
    finally show ?thesis .
  qed
qed

lemma copy_loop3_eq:
  "i \<le> 256 \<Longrightarrow> 256 \<le> length p \<Longrightarrow> length prm = 256 \<Longrightarrow> length pgi = 256 \<Longrightarrow>
   copy_loop3 i p prm pgi =
     Some (take i prm @ drop i (take 256 p), take i pgi @ map grad_index3 (drop i (take 256 p)))"
proof (induction i p prm pgi rule: copy_loop3.induct)
  case (1 i p prm pgi)
  show ?case
  proof (cases "i < 256")
    case False
    with 1(2-) have "i = 256" by simp
    with 1(2-) show ?thesis by (subst copy_loop3.simps) simp
  next
    case True
    have rd: "arr_read p (int i) = Some (p ! i)"
      using True 1(2-) by (simp add: arr_read_def)
    define prm' where "prm' = prm[i := p ! i]"
    define pgi' where "pgi' = pgi[i := grad_index3 (prm' ! i)]"
    have g: "pgi' = pgi[i := grad_index3 (p ! i)]"
      using True 1(2-) by (simp add: pgi'_def prm'_def)
    have "copy_loop3 i p prm pgi = copy_loop3 (i + 1) p prm' pgi'"
      using True rd by (subst copy_loop3.simps) (simp add: Let_def prm'_def pgi'_def)
    also have "\<dots> = Some (take (i + 1) prm' @ drop (i + 1) (take 256 p),
        take (i + 1) pgi' @ map grad_index3 (drop (i + 1) (take 256 p)))"
      using True 1(2-) by (intro "1.IH" [OF True rd prm'_def pgi'_def]) (simp_all add: prm'_def pgi'_def)
    also have "take (i + 1) prm' = take i prm @ [p ! i]"
      using True 1(2-) by (simp add: take_Suc_conv_app_nth prm'_def)
    also have "take (i + 1) pgi' = take i pgi @ [grad_index3 (p ! i)]"
      using True 1(2-) by (simp add: take_Suc_conv_app_nth g)
    also have "(take i prm @ [p ! i]) @ drop (i + 1) (take 256 p) = take i prm @ drop i (take 256 p)"
      using True 1(2-) by (simp add: Cons_nth_drop_Suc [symmetric])
    also have "(take i pgi @ [grad_index3 (p ! i)]) @ map grad_index3 (drop (i + 1) (take 256 p))
         = take i pgi @ map grad_index3 (drop i (take 256 p))"
      using True 1(2-) by (simp add: Cons_nth_drop_Suc [symmetric])
    finally show ?thesis .
  qed
qed

lemma NoiseBase_table_eq:
  "length mem = 256 \<Longrightarrow> 256 \<le> length p \<Longrightarrow> NoiseBase_table mem p = Some \<lparr>perm = take 256 p\<rparr>"
  by (simp add: NoiseBase_table_def copy_loop_eq)

lemma Noise3_table_eq:
  "length mem = 256 \<Longrightarrow> length mem_g = 256 \<Longrightarrow> 256 \<le> length p \<Longrightarrow>
   Noise3_table mem mem_g p = Some \<lparr>perm = take 256 p, permGradIndex = map grad_index3 (take 256 p)\<rparr>"
  by (simp add: Noise3_table_def copy_loop3_eq)

section \<open>The extrapolation primitive\<close>

lemma arr_read_perm_add:
  "length t = 256 \<Longrightarrow>
   arr_read t (sint ((scast (p::c_int) + (y::c_long)) AND 0xFF)) = Some (t ! nat ((sint p + sint y) mod 256))"
  by (simp add: arr_read_perm sint_scast_add_mod)

lemma table_ok_nth:
  "table_ok t \<Longrightarrow> 0 \<le> sint (t ! nat (k mod 256)) \<and> sint (t ! nat (k mod 256)) \<le> 255"
proof -
  assume t: "table_ok t"
  have "0 \<le> k mod 256" "k mod 256 < 256" by simp_all
  then have "nat (k mod 256) < length t" using t by (simp add: table_ok_def)
  then have "t ! nat (k mod 256) \<in> set t" by (rule nth_mem)
  then show ?thesis using t by (simp add: table_ok_def)
qed

lemma nth_map_sint:
  "length t = 256 \<Longrightarrow> map sint t ! nat (k mod 256) = sint (t ! nat (k mod 256))"
proof -
  assume t: "length t = 256"
  have "0 \<le> k mod 256" "k mod 256 < 256" by simp_all
  then have "nat (k mod 256) < length t" using t by simp
  then show ?thesis by (rule nth_map)
qed

lemma uint_eq_sint_nonneg: "0 \<le> sint (v::c_int) \<Longrightarrow> uint v = sint v"
proof -
  assume n: "0 \<le> sint v"
  have "sint v < 2 ^ 31" using sint_lt [of v] by simp
  then have "sint v < 2 ^ 32" by simp
  then have "take_bit 32 (sint v) = sint v"
    using n by (intro take_bit_int_eq_self) simp_all
  then show ?thesis by (simp add: uint_sint)
qed

lemma take2_drop: "Suc n < length g \<Longrightarrow> take 2 (drop n g) = [g ! n, g ! Suc n]"
proof -
  assume l: "Suc n < length g"
  then have "drop n g = g ! n # g ! Suc n # drop (Suc (Suc n)) g"
    by (simp add: Cons_nth_drop_Suc)
  then show ?thesis by (simp add: numeral_2_eq_2)
qed

lemma take3_drop: "Suc (Suc n) < length g \<Longrightarrow> take 3 (drop n g) = [g ! n, g ! Suc n, g ! Suc (Suc n)]"
proof -
  assume l: "Suc (Suc n) < length g"
  then have "drop n g = g ! n # g ! Suc n # g ! Suc (Suc n) # drop (Suc (Suc (Suc n))) g"
    by (simp add: Cons_nth_drop_Suc)
  then show ?thesis by (simp add: numeral_3_eq_3)
qed

lemma take4_drop:
  "Suc (Suc (Suc n)) < length g \<Longrightarrow>
   take 4 (drop n g) = [g ! n, g ! Suc n, g ! Suc (Suc n), g ! Suc (Suc (Suc n))]"
proof -
  assume l: "Suc (Suc (Suc n)) < length g"
  then have "drop n g = g ! n # g ! Suc n # g ! Suc (Suc n) # g ! Suc (Suc (Suc n))
      # drop (Suc (Suc (Suc (Suc n)))) g"
    by (simp add: Cons_nth_drop_Suc)
  moreover have "(4::nat) = Suc (Suc (Suc (Suc 0)))" by simp
  ultimately show ?thesis by (simp only: take_Suc_Cons take_0)
qed

text \<open>Reads of the gradient tables at \<open>index\<close>, \<open>index + 1\<close>, ...\<close>

lemma uint_index_plus:
  "uint (w::c_int) \<le> 252 \<Longrightarrow>
   uint (w + 1) = uint w + 1 \<and> uint (w + 2) = uint w + 2 \<and> uint (w + 3) = uint w + 3"
  by (simp add: uint_word_ariths take_bit_eq_mod)

lemma arr_read_nth:
  "0 \<le> i \<Longrightarrow> i < int (length a) \<Longrightarrow> arr_read a i = Some (a ! nat i)"
  by (simp add: arr_read_def)

lemma length_gradients2: "length gradients2 = 16"
  by (simp add: gradients2_def)

lemma length_gradients3: "length gradients3 = 72"
  by (simp add: gradients3_def)

lemma length_gradients4: "length gradients4 = 256"
  by (simp add: gradients4_def)

lemma extrapolate2_spec:
  fixes xsb ysb :: c_long
  assumes t: "table_ok (perm nb)"
  defines "h \<equiv> spec_hash (map sint (perm nb)) [sint xsb, sint ysb]"
  shows "0 \<le> h \<and> h \<le> 255"
    and "extrapolate2 nb xsb ysb dx dy
       = Some (spec_dot (spec_gradient gradients2 2 (h AND 0x0E)) [dx, dy])"
proof -
  have len: "length (perm nb) = 256" using t by (simp add: table_ok_def)
  define p0 where "p0 = perm nb ! nat (sint xsb mod 256)"
  define p1 where "p1 = perm nb ! nat ((sint p0 + sint ysb) mod 256)"
  have e0: "map sint (perm nb) ! nat ((0 + sint xsb) mod 256) = sint p0"
    by (simp add: nth_map_sint [OF len] p0_def)
  have e1: "map sint (perm nb) ! nat ((sint p0 + sint ysb) mod 256) = sint p1"
    by (simp only: nth_map_sint [OF len] p1_def)
  have h: "h = sint p1"
    unfolding h_def spec_hash_def by (simp only: foldl.simps e0 e1)
  have r: "0 \<le> sint p1" "sint p1 \<le> 255"
    using table_ok_nth [OF t] by (simp_all add: p1_def)
  show "0 \<le> h \<and> h \<le> 255" using r h by simp
  define index where "index = p1 AND 0x0E"
  have ui: "uint index = h AND 0x0E"
    using r by (simp add: index_def uint_and uint_eq_sint_nonneg h)
  have ub: "uint index \<le> 14" by (simp add: index_def uint_and_0E)
  have ub0: "0 \<le> uint index" by simp
  have u1: "uint (index + 1) = uint index + 1"
    using ub uint_index_plus [of index] by simp
  have n: "nat (uint index + 1) = Suc (nat (uint index))" by (simp add: nat_add_distrib)
  have r0: "arr_read (perm nb) (sint (xsb AND 0xFF)) = Some p0"
    by (simp only: arr_read_perm [OF len] p0_def)
  have r1: "arr_read (perm nb) (sint ((scast p0 + ysb) AND 0xFF)) = Some p1"
    by (simp only: arr_read_perm_add [OF len] p1_def)
  have g0: "arr_read gradients2 (uint index) = Some (gradients2 ! nat (uint index))"
    using ub by (intro arr_read_nth) (simp_all add: length_gradients2)
  have g1: "arr_read gradients2 (uint (index + 1)) = Some (gradients2 ! Suc (nat (uint index)))"
    unfolding u1 n [symmetric] using ub by (intro arr_read_nth) (simp_all add: length_gradients2)
  have "extrapolate2 nb xsb ysb dx dy
      = Some (real_of_int (gradients2 ! nat (uint index)) * dx
            + real_of_int (gradients2 ! Suc (nat (uint index))) * dy)"
    unfolding extrapolate2_def r0 by (simp add: r1 index_def [symmetric] g0 g1)
  moreover have "Suc (nat (uint index)) < length gradients2"
    using ub unfolding length_gradients2 by linarith
  ultimately show "extrapolate2 nb xsb ysb dx dy
       = Some (spec_dot (spec_gradient gradients2 2 (h AND 0x0E)) [dx, dy])"
    by (simp add: spec_dot_def spec_gradient_def ui [symmetric] take2_drop)
qed


lemma uint_and_FC_sint: "0 \<le> sint (v::c_int) \<Longrightarrow> uint (v AND 0xFC) = sint v AND 0xFC"
  by (simp add: uint_and uint_eq_sint_nonneg)

lemma extrapolate4_spec:
  fixes xsb ysb zsb wsb :: c_long
  assumes t: "table_ok (perm nb)"
  defines "h \<equiv> spec_hash (map sint (perm nb)) [sint xsb, sint ysb, sint zsb, sint wsb]"
  shows "0 \<le> h \<and> h \<le> 255"
    and "extrapolate4 nb xsb ysb zsb wsb dx dy dz dw
       = Some (spec_dot (spec_gradient gradients4 4 (h AND 0xFC)) [dx, dy, dz, dw])"
proof -
  have len: "length (perm nb) = 256" using t by (simp add: table_ok_def)
  define p0 where "p0 = perm nb ! nat (sint xsb mod 256)"
  define p1 where "p1 = perm nb ! nat ((sint p0 + sint ysb) mod 256)"
  define p2 where "p2 = perm nb ! nat ((sint p1 + sint zsb) mod 256)"
  define p3 where "p3 = perm nb ! nat ((sint p2 + sint wsb) mod 256)"
  have e0: "map sint (perm nb) ! nat ((0 + sint xsb) mod 256) = sint p0"
    by (simp add: nth_map_sint [OF len] p0_def)
  have e1: "map sint (perm nb) ! nat ((sint p0 + sint ysb) mod 256) = sint p1"
    by (simp only: nth_map_sint [OF len] p1_def)
  have e2: "map sint (perm nb) ! nat ((sint p1 + sint zsb) mod 256) = sint p2"
    by (simp only: nth_map_sint [OF len] p2_def)
  have e3: "map sint (perm nb) ! nat ((sint p2 + sint wsb) mod 256) = sint p3"
    by (simp only: nth_map_sint [OF len] p3_def)
  have h: "h = sint p3"
    unfolding h_def spec_hash_def by (simp only: foldl.simps e0 e1 e2 e3)
  have r: "0 \<le> sint p3" "sint p3 \<le> 255"
    using table_ok_nth [OF t] by (simp_all add: p3_def)
  show "0 \<le> h \<and> h \<le> 255" using r h by simp
  define index where "index = p3 AND 0xFC"
  have ui: "uint index = h AND 0xFC"
    using r by (simp add: index_def uint_and_FC_sint h)
  have ub: "uint index \<le> 252" by (simp add: index_def uint_and_FC)
  have u: "uint (index + 1) = uint index + 1" "uint (index + 2) = uint index + 2"
    "uint (index + 3) = uint index + 3"
    using ub uint_index_plus [of index] by simp_all
  define k where "k = nat (uint index)"
  have k1: "uint index = int k" by (simp add: k_def)
  have k: "uint index = int k" "k \<le> 252" using ub k1 by linarith+
  have r0: "arr_read (perm nb) (sint (xsb AND 0xFF)) = Some p0"
    by (simp only: arr_read_perm [OF len] p0_def)
  have r1: "arr_read (perm nb) (sint ((scast p0 + ysb) AND 0xFF)) = Some p1"
    by (simp only: arr_read_perm_add [OF len] p1_def)
  have r2: "arr_read (perm nb) (sint ((scast p1 + zsb) AND 0xFF)) = Some p2"
    by (simp only: arr_read_perm_add [OF len] p2_def)
  have r3: "arr_read (perm nb) (sint ((scast p2 + wsb) AND 0xFF)) = Some p3"
    by (simp only: arr_read_perm_add [OF len] p3_def)
  have nn: "nat (int k + 1) = Suc k" "nat (int k + 2) = Suc (Suc k)"
    "nat (int k + 3) = Suc (Suc (Suc k))"
    by simp_all
  have g: "arr_read gradients4 (uint index) = Some (gradients4 ! k)"
    "arr_read gradients4 (uint (index + 1)) = Some (gradients4 ! Suc k)"
    "arr_read gradients4 (uint (index + 2)) = Some (gradients4 ! Suc (Suc k))"
    "arr_read gradients4 (uint (index + 3)) = Some (gradients4 ! Suc (Suc (Suc k)))"
    unfolding u k(1) using k(2) nn by (simp_all add: arr_read_def length_gradients4)
  have "extrapolate4 nb xsb ysb zsb wsb dx dy dz dw
      = Some (real_of_int (gradients4 ! k) * dx + real_of_int (gradients4 ! Suc k) * dy
            + real_of_int (gradients4 ! Suc (Suc k)) * dz
            + real_of_int (gradients4 ! Suc (Suc (Suc k))) * dw)"
    unfolding extrapolate4_def r0 by (simp add: r1 r2 r3 index_def [symmetric] g)
  moreover have "Suc (Suc (Suc k)) < length gradients4"
    using k(2) unfolding length_gradients4 by linarith
  moreover have "nat (h AND 0xFC) = k" using ui by (simp add: k_def)
  ultimately show "extrapolate4 nb xsb ysb zsb wsb dx dy dz dw
       = Some (spec_dot (spec_gradient gradients4 4 (h AND 0xFC)) [dx, dy, dz, dw])"
    by (simp add: spec_dot_def spec_gradient_def take4_drop)
qed

lemma grad_index3_nonneg:
  assumes "0 \<le> sint v"
  shows "uint (grad_index3 v) = (sint v mod 24) * 3" and "uint (grad_index3 v) \<le> 69"
    and "sint (grad_index3 v) = (sint v mod 24) * 3"
proof -
  have m: "sint v smod (72 sdiv 3) = sint v mod 24"
    using assms by (simp add: smod_mod_positive)
  have b: "0 \<le> sint v mod 24" "sint v mod 24 < 24" by simp_all
  then have b3: "0 \<le> (sint v mod 24) * 3" "(sint v mod 24) * 3 \<le> 69" by simp_all
  have "uint (word_of_int ((sint v mod 24) * 3) :: c_int)
      = take_bit LENGTH(32) ((sint v mod 24) * 3)"
    by (rule uint_word_of_int_eq)
  then have "uint (grad_index3 v) = take_bit 32 ((sint v mod 24) * 3)"
    unfolding grad_index3_def m by (simp del: of_int_mult)
  also have "\<dots> = (sint v mod 24) * 3"
    using b3 by (intro take_bit_int_eq_self) simp_all
  finally show u: "uint (grad_index3 v) = (sint v mod 24) * 3" .
  then show "uint (grad_index3 v) \<le> 69" using b3 by simp
  have "sint (word_of_int ((sint v mod 24) * 3) :: c_int)
      = signed_take_bit (LENGTH(32) - 1) ((sint v mod 24) * 3)"
    by (rule sint_sbintrunc')
  then have "sint (grad_index3 v) = signed_take_bit 31 ((sint v mod 24) * 3)"
    unfolding grad_index3_def m by (simp del: of_int_mult)
  also have "\<dots> = (sint v mod 24) * 3"
    using b3 by (intro signed_take_bit_int_eq_self) simp_all
  finally show "sint (grad_index3 v) = (sint v mod 24) * 3" .
qed

lemma extrapolate3_spec:
  fixes xsb ysb zsb :: c_long
  assumes t: "table_ok (perm n3)" and pg: "permGradIndex n3 = map grad_index3 (perm n3)"
  defines "h \<equiv> spec_hash (map sint (perm n3)) [sint xsb, sint ysb, sint zsb]"
  shows "0 \<le> h \<and> h \<le> 255"
    and "extrapolate3 n3 xsb ysb zsb dx dy dz
       = Some (spec_dot (spec_gradient gradients3 3 ((h mod 24) * 3)) [dx, dy, dz])"
proof -
  have len: "length (perm n3) = 256" using t by (simp add: table_ok_def)
  have leng: "length (permGradIndex n3) = 256" using len pg by simp
  define p0 where "p0 = perm n3 ! nat (sint xsb mod 256)"
  define p1 where "p1 = perm n3 ! nat ((sint p0 + sint ysb) mod 256)"
  define p2 where "p2 = perm n3 ! nat ((sint p1 + sint zsb) mod 256)"
  have e0: "map sint (perm n3) ! nat ((0 + sint xsb) mod 256) = sint p0"
    by (simp add: nth_map_sint [OF len] p0_def)
  have e1: "map sint (perm n3) ! nat ((sint p0 + sint ysb) mod 256) = sint p1"
    by (simp only: nth_map_sint [OF len] p1_def)
  have e2: "map sint (perm n3) ! nat ((sint p1 + sint zsb) mod 256) = sint p2"
    by (simp only: nth_map_sint [OF len] p2_def)
  have h: "h = sint p2"
    unfolding h_def spec_hash_def by (simp only: foldl.simps e0 e1 e2)
  have r: "0 \<le> sint p2" "sint p2 \<le> 255"
    using table_ok_nth [OF t] by (simp_all add: p2_def)
  show "0 \<le> h \<and> h \<le> 255" using r h by simp
  define index where "index = grad_index3 p2"
  have ui: "uint index = (h mod 24) * 3" and ub: "uint index \<le> 69"
    using grad_index3_nonneg [OF r(1)] by (simp_all add: index_def h)
  have u: "uint (index + 1) = uint index + 1" "uint (index + 2) = uint index + 2"
    using ub uint_index_plus [of index] by simp_all
  define k where "k = nat (uint index)"
  have k1: "uint index = int k" by (simp add: k_def)
  have k: "uint index = int k" "k \<le> 69" using ub k1 by linarith+
  have r0: "arr_read (perm n3) (sint (xsb AND 0xFF)) = Some p0"
    by (simp only: arr_read_perm [OF len] p0_def)
  have r1: "arr_read (perm n3) (sint ((scast p0 + ysb) AND 0xFF)) = Some p1"
    by (simp only: arr_read_perm_add [OF len] p1_def)
  have "nat ((sint p1 + sint zsb) mod 256) < length (perm n3)"
    using len by simp
  then have "permGradIndex n3 ! nat ((sint p1 + sint zsb) mod 256) = index"
    unfolding pg index_def p2_def by (rule nth_map)
  then have r2: "arr_read (permGradIndex n3) (sint ((scast p1 + zsb) AND 0xFF)) = Some index"
    by (simp only: arr_read_perm_add [OF leng])
  have g: "arr_read gradients3 (uint index) = Some (gradients3 ! k)"
    "arr_read gradients3 (uint (index + 1)) = Some (gradients3 ! Suc k)"
    "arr_read gradients3 (uint (index + 2)) = Some (gradients3 ! Suc (Suc k))"
    unfolding u k(1) using k(2) by (simp_all add: arr_read_def length_gradients3 nat_add_distrib)
  have "extrapolate3 n3 xsb ysb zsb dx dy dz
      = Some (real_of_int (gradients3 ! k) * dx + real_of_int (gradients3 ! Suc k) * dy
            + real_of_int (gradients3 ! Suc (Suc k)) * dz)"
    unfolding extrapolate3_def r0 by (simp add: r1 r2 g)
  moreover have "Suc (Suc k) < length gradients3"
    using k(2) unfolding length_gradients3 by linarith
  moreover have "nat ((h mod 24) * 3) = k" using ui by (simp add: k_def)
  ultimately show "extrapolate3 n3 xsb ysb zsb dx dy dz
       = Some (spec_dot (spec_gradient gradients3 3 ((h mod 24) * 3)) [dx, dy, dz])"
    by (simp add: spec_dot_def spec_gradient_def take3_drop)
qed

lemma NoiseBase_seed_table_ok:
  "length mem = 256 \<Longrightarrow> table_ok (perm (NoiseBase_seed mem seed))"
  using NoiseBase_seed_values(2) [of mem seed] NoiseBase_seed_length [of mem seed]
  by (auto simp: table_ok_def)

lemma and_FF_period_add:
  "(a + (y + 256 * k)) AND 0xFF = (a + y) AND (0xFF::c_long)"
  using and_FF_period [of "a + y" k] by (simp add: add.assoc)

section \<open>Claims about the constructors\<close>

text \<open>
  C1. The seeded constructor builds the permutation table by a Fisher-Yates-style shuffle of
  the identity array from index 255 down to 0. At index \<open>i\<close> it draws \<open>r\<close> in \<open>[0, i]\<close> from
  the linear congruential generator with multiplier 6364136223846793005 and increment
  1442695040888963407, advanced three times before first use and once per index, the
  negative remainder corrected into range; then it sets \<open>perm[i] = source[r]\<close> and
  \<open>source[r] = source[i]\<close>. The table is the one \<open>spec_shuffle\<close> computes from the seed
  alone: it does not depend on the previous contents \<open>mem\<close> of the member array, and no
  platform random source occurs in the constructor. Both seeded constructors, of \<open>NoiseBase\<close>
  and of \<open>Noise<3, T>\<close>, build this table.
\<close>

theorem seeded_constructor_shuffle:
  "length mem = 256 \<Longrightarrow> length mem_g = 256 \<Longrightarrow>
     perm (NoiseBase_seed mem seed) = snd (spec_shuffle seed 256)
   \<and> perm (Noise3_seed mem mem_g seed) = snd (spec_shuffle seed 256)
   \<and> (\<forall>i. spec_draw seed i \<le> i)
   \<and> (\<forall>i\<ge>0. draw s i = sint (s + 31) mod (i + 1) \<and> 0 \<le> draw s i \<and> draw s i \<le> i)
   \<and> LCG_STEP s = s * 6364136223846793005 + 1442695040888963407"
  using draw_range
  by (simp add: NoiseBase_seed_spec Noise3_seed_perm spec_draw_le draw_eq_mod
      LCG_STEP_def MULTIPLIER_def INCREMENT_def)

theorem seeded_constructor_shuffle_witness:
  "length zero_mem = 256
   \<and> perm (NoiseBase_seed zero_mem 42) = snd (spec_shuffle 42 256)
   \<and> perm (Noise3_seed zero_mem zero_mem 42) = snd (spec_shuffle 42 256)
   \<and> spec_draw 42 255 \<le> 255
   \<and> draw 7 255 = sint (7 + 31 :: c_long) mod 256"
  using seeded_constructor_shuffle [of zero_mem zero_mem 42 7]
  by (simp add: length_zero_mem length_const_table)

text \<open>
  C2. For every seed the permutation table of the seeded constructor is a bijection on
  \<open>{0, ..., 255}\<close>: the table has 256 entries, and each of the 256 byte values appears at
  exactly one of its indices.
\<close>

theorem seeded_perm_bijection:
  "length mem = 256 \<Longrightarrow> length mem_g = 256 \<Longrightarrow>
     length (perm (NoiseBase_seed mem seed)) = 256
   \<and> bij_betw (\<lambda>i. sint (perm (NoiseBase_seed mem seed) ! i)) {0..<256} {0..255}
   \<and> length (perm (Noise3_seed mem mem_g seed)) = 256
   \<and> bij_betw (\<lambda>i. sint (perm (Noise3_seed mem mem_g seed) ! i)) {0..<256} {0..255}"
  using NoiseBase_seed_values [of mem seed] NoiseBase_seed_length [of mem seed]
    bij_of_distinct [of "perm (NoiseBase_seed mem seed)" 256 sint "{0..255}"]
  by (simp add: Noise3_seed_perm)

theorem seeded_perm_bijection_witness:
  "length zero_mem = 256
   \<and> length (perm (NoiseBase_seed zero_mem 0)) = 256
   \<and> bij_betw (\<lambda>i. sint (perm (NoiseBase_seed zero_mem 0) ! i)) {0..<256} {0..255}"
  using seeded_perm_bijection [of zero_mem zero_mem 0]
  by (simp add: length_zero_mem length_const_table)

text \<open>
  C7. The table-supplied constructor copies the caller's 256 entries verbatim: after
  construction \<open>perm[i]\<close> is \<open>p[i]\<close> for every \<open>i\<close> in \<open>0 .. 255\<close>. It validates nothing and
  signals no error: construction succeeds for every 256-entry input, a bijection or not.
  The constructor of \<open>Noise<3, T>\<close> fills \<open>permGradIndex\<close> from the copied entries as well.
\<close>

theorem table_constructor_copies:
  "length mem = 256 \<Longrightarrow> length mem_g = 256 \<Longrightarrow> length p = 256 \<Longrightarrow>
     NoiseBase_table mem p = Some \<lparr>perm = p\<rparr>
   \<and> Noise3_table mem mem_g p = Some \<lparr>perm = p, permGradIndex = map grad_index3 p\<rparr>"
  by (simp add: NoiseBase_table_eq Noise3_table_eq)

theorem table_constructor_copies_witness:
  "length zero_mem = 256 \<and> length (const_table 7) = 256
   \<and> NoiseBase_table zero_mem (const_table 7) = Some \<lparr>perm = const_table 7\<rparr>
   \<and> Noise3_table zero_mem zero_mem (const_table 7)
       = Some \<lparr>perm = const_table 7, permGradIndex = map grad_index3 (const_table 7)\<rparr>"
  using table_constructor_copies [of zero_mem zero_mem "const_table 7"]
  by (simp add: length_zero_mem length_const_table)

section \<open>Claims about the extrapolation primitive\<close>

text \<open>
  C3. For every dimension \<open>N\<close> in \<open>{2, 3, 4}\<close>, given \<open>N\<close> lattice coordinates and an
  \<open>N\<close>-component real offset vector, \<open>extrapolate\<close> folds the coordinates through the
  permutation table from left to right to a hash in \<open>[0, 255]\<close>, selects a gradient from the
  hash, by the mask \<open>0x0E\<close> in 2D and the mask \<open>0xFC\<close> in 4D, and in 3D through the table
  \<open>permGradIndex\<close> with \<open>permGradIndex[i] = (perm[i] mod 24) * 3\<close>, and returns the dot
  product of that gradient with the offset vector. The tables are those of the data model,
  256 entries in \<open>[0, 255]\<close>, with \<open>permGradIndex\<close> as the constructors of \<open>Noise<3, T>\<close>
  fill it.
\<close>

theorem extrapolate_spec:
  "table_ok (perm nb) \<Longrightarrow> table_ok (perm n3) \<Longrightarrow>
   permGradIndex n3 = map grad_index3 (perm n3) \<Longrightarrow>
     (let h = spec_hash (map sint (perm nb)) [sint xsb, sint ysb]
      in 0 \<le> h \<and> h \<le> 255
       \<and> extrapolate2 nb xsb ysb dx dy
           = Some (spec_dot (spec_gradient gradients2 2 (h AND 0x0E)) [dx, dy]))
   \<and> (let h = spec_hash (map sint (perm n3)) [sint xsb, sint ysb, sint zsb]
      in 0 \<le> h \<and> h \<le> 255
       \<and> extrapolate3 n3 xsb ysb zsb dx dy dz
           = Some (spec_dot (spec_gradient gradients3 3 ((h mod 24) * 3)) [dx, dy, dz]))
   \<and> (\<forall>i<256. sint (permGradIndex n3 ! i) = (sint (perm n3 ! i) mod 24) * 3)
   \<and> (let h = spec_hash (map sint (perm nb)) [sint xsb, sint ysb, sint zsb, sint wsb]
      in 0 \<le> h \<and> h \<le> 255
       \<and> extrapolate4 nb xsb ysb zsb wsb dx dy dz dw
           = Some (spec_dot (spec_gradient gradients4 4 (h AND 0xFC)) [dx, dy, dz, dw]))"
proof -
  assume t: "table_ok (perm nb)" and t3: "table_ok (perm n3)"
    and pg: "permGradIndex n3 = map grad_index3 (perm n3)"
  have "sint (permGradIndex n3 ! i) = (sint (perm n3 ! i) mod 24) * 3" if "i < 256" for i
  proof -
    have i: "i < length (perm n3)" using t3 that by (simp add: table_ok_def)
    then have "perm n3 ! i \<in> set (perm n3)" by (rule nth_mem)
    then have "0 \<le> sint (perm n3 ! i)" using t3 by (simp add: table_ok_def)
    then show ?thesis using i by (simp add: pg grad_index3_nonneg(3))
  qed
  then show ?thesis
    by (simp add: Let_def extrapolate2_spec [OF t] extrapolate3_spec [OF t3 pg]
        extrapolate4_spec [OF t])
qed

theorem extrapolate_spec_witness:
  "table_ok (perm (NoiseBase_seed zero_mem 0))
   \<and> (let h = spec_hash (map sint (perm (NoiseBase_seed zero_mem 0))) [sint (3 :: c_long), sint (- 2 :: c_long)]
      in 0 \<le> h \<and> h \<le> 255
       \<and> extrapolate2 (NoiseBase_seed zero_mem 0) 3 (- 2) (1/2) (1/4)
           = Some (spec_dot (spec_gradient gradients2 2 (h AND 0x0E)) [1/2, 1/4]))"
  using extrapolate_spec [of "NoiseBase_seed zero_mem 0"
      "\<lparr>perm = perm (NoiseBase_seed zero_mem 0),
        permGradIndex = map grad_index3 (perm (NoiseBase_seed zero_mem 0))\<rparr>"
      3 "- 2" "1/2" "1/4"]
    NoiseBase_seed_table_ok [of zero_mem 0]
  by (simp add: length_zero_mem length_const_table)

text \<open>
  C10. For every permutation table, well formed or not, and every dimension \<open>N\<close> in
  \<open>{2, 3, 4}\<close>, \<open>extrapolate\<close> has period 256 in each lattice coordinate: adding a multiple
  of 256 to one coordinate, the offset vector unchanged, reads the same table entries,
  selects the same gradient and returns the same result.
\<close>

theorem extrapolate_period_256:
  "extrapolate2 nb (xsb + 256 * k) ysb dx dy = extrapolate2 nb xsb ysb dx dy
 \<and> extrapolate2 nb xsb (ysb + 256 * k) dx dy = extrapolate2 nb xsb ysb dx dy
 \<and> extrapolate3 n3 (xsb + 256 * k) ysb zsb dx dy dz = extrapolate3 n3 xsb ysb zsb dx dy dz
 \<and> extrapolate3 n3 xsb (ysb + 256 * k) zsb dx dy dz = extrapolate3 n3 xsb ysb zsb dx dy dz
 \<and> extrapolate3 n3 xsb ysb (zsb + 256 * k) dx dy dz = extrapolate3 n3 xsb ysb zsb dx dy dz
 \<and> extrapolate4 nb (xsb + 256 * k) ysb zsb wsb dx dy dz dw = extrapolate4 nb xsb ysb zsb wsb dx dy dz dw
 \<and> extrapolate4 nb xsb (ysb + 256 * k) zsb wsb dx dy dz dw = extrapolate4 nb xsb ysb zsb wsb dx dy dz dw
 \<and> extrapolate4 nb xsb ysb (zsb + 256 * k) wsb dx dy dz dw = extrapolate4 nb xsb ysb zsb wsb dx dy dz dw
 \<and> extrapolate4 nb xsb ysb zsb (wsb + 256 * k) dx dy dz dw = extrapolate4 nb xsb ysb zsb wsb dx dy dz dw"
  unfolding extrapolate2_def extrapolate3_def extrapolate4_def and_FF_period and_FF_period_add
  by (simp add: length_zero_mem length_const_table)

end
